theory Spec2Isabelle
  imports Complex_Main
begin


section \<open>Icosahedral mesh hierarchy, graphs and spatial features (atmospheric\_utils.py)\<close>

text \<open>
  Conventions of the embedding.
  \<^item> A numpy float (float32 or float64) is an ideal real number: rounding, infinities and
    nan are not represented. Where the source divides, the place is marked; a quotient whose
    divisor can be zero in a claim is returned as an option (\<open>None\<close> for numpy's nan or inf).
  \<^item> A numpy integer index (int32 or Python int) is an unbounded \<open>int\<close>.
  \<^item> An array of shape [n, 3] is a list of triples, an array of shape [n] a list.
  \<^item> Every \<open>raise\<close> and every failing \<open>assert\<close> is an \<open>Inl\<close> result.
\<close>

datatype error =
  IndexError | ValueError | AssertionError | KeyError | ZeroDivisionError | AttributeError

type_synonym vec = "real \<times> real \<times> real"
type_synonym mat = "vec \<times> vec \<times> vec"
type_synonym face = "int \<times> int \<times> int"

record TriangularMesh =
  vertices :: "vec list"
  faces :: "face list"

subsection \<open>numpy helpers\<close>

text \<open>Indexing an array with one integer: a negative index counts from the end, an index
  out of range raises IndexError.\<close>

definition np_getitem :: "'a list \<Rightarrow> int \<Rightarrow> error + 'a" where
  "np_getitem xs i =
     (if 0 \<le> i \<and> i < int (length xs) then Inr (xs ! nat i)
      else if - int (length xs) \<le> i \<and> i < 0 then Inr (xs ! nat (i + int (length xs)))
      else Inl IndexError)"

text \<open>Indexing with an integer array (a gather): the first bad index raises.\<close>

fun np_take :: "'a list \<Rightarrow> int list \<Rightarrow> error + 'a list" where
  "np_take xs [] = Inr []"
| "np_take xs (i # is) =
     (case np_getitem xs i of Inl e \<Rightarrow> Inl e
      | Inr x \<Rightarrow> (case np_take xs is of Inl e \<Rightarrow> Inl e | Inr ys \<Rightarrow> Inr (x # ys)))"

text \<open>Sequencing of computations that may raise.\<close>

definition bind_err :: "error + 'a \<Rightarrow> ('a \<Rightarrow> error + 'b) \<Rightarrow> error + 'b" where
  "bind_err r f = (case r of Inl e \<Rightarrow> Inl e | Inr x \<Rightarrow> f x)"

text \<open>An elementwise binary operation on two arrays with numpy's broadcasting along the
  leading axis: the lengths must agree unless one of them is 1.\<close>

definition np_broadcast2 :: "('a \<Rightarrow> 'b \<Rightarrow> 'c) \<Rightarrow> 'a list \<Rightarrow> 'b list \<Rightarrow> error + 'c list" where
  "np_broadcast2 f xs ys =
     (if length xs = length ys then Inr (map2 f xs ys)
      else if length ys = 1 then Inr (map (\<lambda>x. f x (ys ! 0)) xs)
      else if length xs = 1 then Inr (map (\<lambda>y. f (xs ! 0) y) ys)
      else Inl ValueError)"

definition vec_add :: "vec \<Rightarrow> vec \<Rightarrow> vec" where
  "vec_add u v = (case u of (a, b, c) \<Rightarrow> case v of (x, y, z) \<Rightarrow> (a + x, b + y, c + z))"

definition vec_sub :: "vec \<Rightarrow> vec \<Rightarrow> vec" where
  "vec_sub u v = (case u of (a, b, c) \<Rightarrow> case v of (x, y, z) \<Rightarrow> (a - x, b - y, c - z))"

definition vec_scale :: "real \<Rightarrow> vec \<Rightarrow> vec" where
  "vec_scale k v = (case v of (x, y, z) \<Rightarrow> (k * x, k * y, k * z))"

text \<open>\<open>v / d\<close> on a row; the divisor is not checked (see the conventions).\<close>

definition vec_div :: "vec \<Rightarrow> real \<Rightarrow> vec" where
  "vec_div v d = (case v of (x, y, z) \<Rightarrow> (x / d, y / d, z / d))"

text \<open>\<open>np.linalg.norm\<close> of a row.\<close>

definition vec_norm :: "vec \<Rightarrow> real" where
  "vec_norm v = (case v of (x, y, z) \<Rightarrow> sqrt (x * x + y * y + z * z))"

text \<open>\<open>np.dot(v, M)\<close>: a row vector times a matrix given by its rows.\<close>

definition vec_mat :: "vec \<Rightarrow> mat \<Rightarrow> vec" where
  "vec_mat v M =
     (case v of (x, y, z) \<Rightarrow> case M of ((a11, a12, a13), (a21, a22, a23), (a31, a32, a33)) \<Rightarrow>
        (x * a11 + y * a21 + z * a31, x * a12 + y * a22 + z * a32, x * a13 + y * a23 + z * a33))"

text \<open>The matrix-vector product \<open>M v\<close>.\<close>

definition mat_vec :: "mat \<Rightarrow> vec \<Rightarrow> vec" where
  "mat_vec M v =
     (case v of (x, y, z) \<Rightarrow> case M of ((a11, a12, a13), (a21, a22, a23), (a31, a32, a33)) \<Rightarrow>
        (a11 * x + a12 * y + a13 * z, a21 * x + a22 * y + a23 * z, a31 * x + a32 * y + a33 * z))"

definition mat_col :: "mat \<Rightarrow> nat \<Rightarrow> vec" where
  "mat_col M j =
     (case M of ((a11, a12, a13), (a21, a22, a23), (a31, a32, a33)) \<Rightarrow>
        if j = 0 then (a11, a21, a31) else if j = 1 then (a12, a22, a32) else (a13, a23, a33))"

definition mat_mul :: "mat \<Rightarrow> mat \<Rightarrow> mat" where
  "mat_mul A B =
     (case A of (r1, r2, r3) \<Rightarrow> (vec_mat r1 B, vec_mat r2 B, vec_mat r3 B))"

definition mat_id :: mat where
  "mat_id = ((1, 0, 0), (0, 1, 0), (0, 0, 1))"

subsection \<open>scipy.spatial.transform.Rotation\<close>

text \<open>
  \<open>Rotation.from_euler(seq, angles).as_matrix()\<close> of the SciPy library, from its
  documentation: a lower-case axis sequence denotes extrinsic rotations, applied in the
  order written about the fixed axes, so the matrix of the sequence is the product of the
  elemental rotation matrices with the first rotation rightmost. The argument of the model
  is the axis sequence paired with one row of angles.
\<close>

datatype axis = AxisX | AxisY | AxisZ

definition elemental_rotation :: "axis \<Rightarrow> real \<Rightarrow> mat" where
  "elemental_rotation ax a =
     (case ax of
        AxisX \<Rightarrow> ((1, 0, 0), (0, cos a, - sin a), (0, sin a, cos a))
      | AxisY \<Rightarrow> ((cos a, 0, sin a), (0, 1, 0), (- sin a, 0, cos a))
      | AxisZ \<Rightarrow> ((cos a, - sin a, 0), (sin a, cos a, 0), (0, 0, 1)))"

definition from_euler :: "(axis \<times> real) list \<Rightarrow> mat" where
  "from_euler rs = foldl (\<lambda>M (ax, a). mat_mul (elemental_rotation ax a) M) mat_id rs"

subsection \<open>The base icosahedron\<close>

definition icosahedron_faces :: "face list" where
  "icosahedron_faces =
     [(0, 1, 2), (0, 6, 1), (8, 0, 2), (8, 4, 0), (3, 8, 2),
      (3, 2, 7), (7, 2, 1), (0, 4, 6), (4, 11, 6), (6, 11, 5),
      (1, 5, 7), (4, 10, 11), (4, 8, 10), (10, 8, 3), (10, 3, 9),
      (11, 10, 9), (11, 9, 5), (5, 9, 7), (9, 3, 7), (1, 6, 5)]"

definition get_icosahedron :: TriangularMesh where
  "get_icosahedron =
     (let phi = (1 + sqrt 5) / 2;
          vs0 = concat (map (\<lambda>(c1, c2). [(c1, c2, 0), (0, c1, c2), (c2, 0, c1)])
                         (List.product [1, - 1] [phi, - phi]));
          vs1 = map (\<lambda>v. vec_div v (sqrt (1 * 1 + phi * phi))) vs0;
          angle_between_faces = 2 * arcsin (phi / sqrt 3);
          rotation_angle = (pi - angle_between_faces) / 2;
          rotation_matrix = from_euler [(AxisY, rotation_angle)]
      in \<lparr>vertices = map (\<lambda>v. vec_mat v rotation_matrix) vs1, faces = icosahedron_faces\<rparr>)"

subsection \<open>The 2-split of a mesh\<close>

record ChildVerticesBuilder =
  child_vertices_index_mapping :: "(int \<times> int) \<rightharpoonup> int"
  parent_vertices :: "vec list"
  all_vertices_list :: "vec list"

definition ChildVerticesBuilder_init :: "vec list \<Rightarrow> ChildVerticesBuilder" where
  "ChildVerticesBuilder_init parents =
     \<lparr>child_vertices_index_mapping = Map.empty, parent_vertices = parents,
      all_vertices_list = parents\<rparr>"

text \<open>\<open>tuple(sorted(parent_vertex_indices))\<close> of a pair.\<close>

definition get_child_vertex_key :: "int \<times> int \<Rightarrow> int \<times> int" where
  "get_child_vertex_key p = (case p of (i, j) \<Rightarrow> if j < i then (j, i) else (i, j))"

text \<open>The mean of the two parent rows, divided by its norm, is appended; the new index
  is the length of the list before the append.\<close>

definition create_child_vertex ::
  "ChildVerticesBuilder \<Rightarrow> int \<times> int \<Rightarrow> error + ChildVerticesBuilder" where
  "create_child_vertex b p =
     (case np_take (parent_vertices b) [fst p, snd p] of
        Inl e \<Rightarrow> Inl e
      | Inr rows \<Rightarrow>
          (let child_vertex_position = vec_div (foldr vec_add rows (0, 0, 0)) (real (length rows));
               child_vertex_position = vec_div child_vertex_position (vec_norm child_vertex_position);
               child_vertex_key = get_child_vertex_key p
           in Inr (b\<lparr>child_vertices_index_mapping :=
                        (child_vertices_index_mapping b)
                          (child_vertex_key \<mapsto> int (length (all_vertices_list b))),
                      all_vertices_list := all_vertices_list b @ [child_vertex_position]\<rparr>)))"

definition get_new_child_vertex_index ::
  "ChildVerticesBuilder \<Rightarrow> int \<times> int \<Rightarrow> error + (int \<times> ChildVerticesBuilder)" where
  "get_new_child_vertex_index b p =
     (let child_vertex_key = get_child_vertex_key p in
      case (if child_vertices_index_mapping b child_vertex_key = None
            then create_child_vertex b p else Inr b) of
        Inl e \<Rightarrow> Inl e
      | Inr b' \<Rightarrow>
          (case child_vertices_index_mapping b' child_vertex_key of
             None \<Rightarrow> Inl KeyError
           | Some i \<Rightarrow> Inr (i, b')))"

fun two_split_loop ::
  "ChildVerticesBuilder \<Rightarrow> face list \<Rightarrow> face list \<Rightarrow> error + (ChildVerticesBuilder \<times> face list)" where
  "two_split_loop b new_faces [] = Inr (b, new_faces)"
| "two_split_loop b new_faces ((ind1, ind2, ind3) # fs) =
     (case get_new_child_vertex_index b (ind1, ind2) of
        Inl e \<Rightarrow> Inl e
      | Inr (ind12, b1) \<Rightarrow>
     (case get_new_child_vertex_index b1 (ind2, ind3) of
        Inl e \<Rightarrow> Inl e
      | Inr (ind23, b2) \<Rightarrow>
     (case get_new_child_vertex_index b2 (ind3, ind1) of
        Inl e \<Rightarrow> Inl e
      | Inr (ind31, b3) \<Rightarrow>
          two_split_loop b3
            (new_faces @ [(ind1, ind12, ind31), (ind12, ind2, ind23),
                          (ind31, ind23, ind3), (ind12, ind23, ind31)]) fs)))"

definition two_split_unit_sphere_triangle_faces :: "TriangularMesh \<Rightarrow> error + TriangularMesh" where
  "two_split_unit_sphere_triangle_faces triangular_mesh =
     (case two_split_loop (ChildVerticesBuilder_init (vertices triangular_mesh)) []
             (faces triangular_mesh) of
        Inl e \<Rightarrow> Inl e
      | Inr (b, new_faces) \<Rightarrow> Inr \<lparr>vertices = all_vertices_list b, faces = new_faces\<rparr>)"

fun hierarchy_loop ::
  "nat \<Rightarrow> TriangularMesh \<Rightarrow> TriangularMesh list \<Rightarrow> error + TriangularMesh list" where
  "hierarchy_loop 0 current_mesh output_meshes = Inr output_meshes"
| "hierarchy_loop (Suc n) current_mesh output_meshes =
     (case two_split_unit_sphere_triangle_faces current_mesh of
        Inl e \<Rightarrow> Inl e
      | Inr m \<Rightarrow> hierarchy_loop n m (output_meshes @ [m]))"

text \<open>\<open>range(splits)\<close> is empty for a negative \<open>splits\<close>.\<close>

definition get_hierarchy_of_triangular_meshes_for_sphere :: "int \<Rightarrow> error + TriangularMesh list" where
  "get_hierarchy_of_triangular_meshes_for_sphere splits =
     hierarchy_loop (nat splits) get_icosahedron [get_icosahedron]"

subsection \<open>Merging a hierarchy, faces to edges\<close>

text \<open>\<open>np.isclose(a, b)\<close> with numpy's default tolerances \<open>rtol = 1e-05\<close>,
  \<open>atol = 1e-08\<close>: \<open>|a - b| \<le> atol + rtol * |b|\<close>.\<close>

definition np_isclose :: "real \<Rightarrow> real \<Rightarrow> bool" where
  "np_isclose a b \<longleftrightarrow> \<bar>a - b\<bar> \<le> 1 / 10 ^ 8 + (1 / 10 ^ 5) * \<bar>b\<bar>"

definition vec_isclose :: "vec \<Rightarrow> vec \<Rightarrow> bool" where
  "vec_isclose u v =
     (case u of (a, b, c) \<Rightarrow> case v of (x, y, z) \<Rightarrow>
        np_isclose a x \<and> np_isclose b y \<and> np_isclose c z)"

text \<open>\<open>np.allclose\<close> of two arrays of shapes [n, 3] and [m, 3]. numpy broadcasts the two
  shapes: they must agree unless one of the arrays has exactly one row, which is then
  compared with every row of the other; otherwise the call raises ValueError.\<close>

definition np_allclose :: "vec list \<Rightarrow> vec list \<Rightarrow> error + bool" where
  "np_allclose xs ys =
     (if length xs = length ys then Inr (list_all2 vec_isclose xs ys)
      else if length ys = 1 then Inr (list_all (\<lambda>x. vec_isclose x (ys ! 0)) xs)
      else if length xs = 1 then Inr (list_all (\<lambda>y. vec_isclose (xs ! 0) y) ys)
      else Inl ValueError)"

text \<open>The loop over \<open>itertools.pairwise(mesh_list)\<close> with its assertion.\<close>

fun merge_meshes_check :: "TriangularMesh list \<Rightarrow> error + unit" where
  "merge_meshes_check (mesh_i # mesh_ip1 # rest) =
     (let num_nodes_mesh_i = length (vertices mesh_i) in
      case np_allclose (vertices mesh_i) (take num_nodes_mesh_i (vertices mesh_ip1)) of
        Inl e \<Rightarrow> Inl e
      | Inr ok \<Rightarrow> if ok then merge_meshes_check (mesh_ip1 # rest) else Inl AssertionError)"
| "merge_meshes_check _ = Inr ()"

text \<open>\<open>mesh_list[-1]\<close> raises IndexError on an empty list.\<close>

definition merge_meshes :: "TriangularMesh list \<Rightarrow> error + TriangularMesh" where
  "merge_meshes mesh_list =
     (case merge_meshes_check mesh_list of
        Inl e \<Rightarrow> Inl e
      | Inr _ \<Rightarrow>
          if mesh_list = [] then Inl IndexError
          else Inr \<lparr>vertices = vertices (last mesh_list),
                    faces = concat (map faces mesh_list)\<rparr>)"

text \<open>The two assertions of \<open>faces_to_edges\<close> (a two-dimensional array with three
  columns) hold for every face list by its type.\<close>

definition faces_to_edges :: "face list \<Rightarrow> int list \<times> int list" where
  "faces_to_edges fs =
     (map (\<lambda>(i, j, k). i) fs @ map (\<lambda>(i, j, k). j) fs @ map (\<lambda>(i, j, k). k) fs,
      map (\<lambda>(i, j, k). j) fs @ map (\<lambda>(i, j, k). k) fs @ map (\<lambda>(i, j, k). i) fs)"

subsection \<open>Spherical coordinates and the rotation to local coordinates\<close>

definition deg2rad :: "real \<Rightarrow> real" where
  "deg2rad x = x * (pi / 180)"

definition rad2deg :: "real \<Rightarrow> real" where
  "rad2deg x = x * (180 / pi)"

definition lat_lon_deg_to_spherical :: "real list \<Rightarrow> real list \<Rightarrow> real list \<times> real list" where
  "lat_lon_deg_to_spherical node_lat node_lon =
     (map deg2rad node_lon, map (\<lambda>lat. deg2rad (90 - lat)) node_lat)"

text \<open>\<open>np.mod(x, 360)\<close> on floats: the remainder has the sign of the divisor.\<close>

definition np_mod_360 :: "real \<Rightarrow> real" where
  "np_mod_360 x = x - 360 * of_int \<lfloor>x / 360\<rfloor>"

definition spherical_to_lat_lon :: "real list \<Rightarrow> real list \<Rightarrow> real list \<times> real list" where
  "spherical_to_lat_lon phis thetas =
     (map (\<lambda>theta. 90 - rad2deg theta) thetas, map (\<lambda>phi. np_mod_360 (rad2deg phi)) phis)"

text \<open>\<open>np.arctan2(y, x)\<close> on real numbers (the signed zeros of floats are not
  represented).\<close>

definition arctan2 :: "real \<Rightarrow> real \<Rightarrow> real" where
  "arctan2 y x =
     (if 0 < x then arctan (y / x)
      else if x < 0 then (if 0 \<le> y then arctan (y / x) + pi else arctan (y / x) - pi)
      else if 0 < y then pi / 2
      else if y < 0 then - (pi / 2)
      else 0)"

text \<open>\<open>cartesian_to_spherical\<close> of one point. \<open>np.arccos(z)\<close> is nan for \<open>|z| > 1\<close>,
  which the source lets pass (\<open>np.errstate(invalid="ignore")\<close>); the model has HOL's
  \<open>arccos\<close> there.\<close>

definition cartesian_to_spherical :: "vec \<Rightarrow> real \<times> real" where
  "cartesian_to_spherical p = (case p of (x, y, z) \<Rightarrow> (arctan2 y x, arccos z))"

text \<open>\<open>spherical_to_cartesian\<close> on arrays: two broadcast products and \<open>cos(theta)\<close>.\<close>

definition spherical_to_cartesian ::
  "real list \<Rightarrow> real list \<Rightarrow> error + (real list \<times> real list \<times> real list)" where
  "spherical_to_cartesian phis thetas =
     bind_err (np_broadcast2 (\<lambda>phi theta. cos phi * sin theta) phis thetas) (\<lambda>xs.
     bind_err (np_broadcast2 (\<lambda>phi theta. sin phi * sin theta) phis thetas) (\<lambda>ys.
       Inr (xs, ys, map cos thetas)))"

text \<open>\<open>np.stack(columns, axis=-1)\<close> of one-dimensional arrays: all columns must have the
  same length; row \<open>i\<close> of the result holds the \<open>i\<close>-th entry of every column. An empty
  list of columns raises ValueError.\<close>

definition np_stack_columns :: "real list list \<Rightarrow> error + real list list" where
  "np_stack_columns cols =
     (case cols of
        [] \<Rightarrow> Inl ValueError
      | c # cs \<Rightarrow>
          if list_all (\<lambda>d. length d = length c) cs
          then Inr (map (\<lambda>i. map (\<lambda>d. d ! i) cols) [0..<length c])
          else Inl ValueError)"

text \<open>The same for the three coordinate columns of positions, as rows of type \<open>vec\<close>.\<close>

definition np_stack_xyz :: "real list \<times> real list \<times> real list \<Rightarrow> error + vec list" where
  "np_stack_xyz cols =
     (case cols of (xs, ys, zs) \<Rightarrow>
        if length ys = length xs \<and> length zs = length xs
        then Inr (map (\<lambda>i. (xs ! i, ys ! i, zs ! i)) [0..<length xs])
        else Inl ValueError)"

text \<open>
  \<open>get_rotation_matrices_to_local_coordinates\<close>. \<open>np.stack([...], axis=1)\<close> of the angle
  arrays raises ValueError when their lengths differ; in the third case the first and the
  last column are both made from \<open>reference_phi\<close>.
\<close>

definition get_rotation_matrices_to_local_coordinates ::
  "real list \<Rightarrow> real list \<Rightarrow> bool \<Rightarrow> bool \<Rightarrow> error + mat list" where
  "get_rotation_matrices_to_local_coordinates reference_phi reference_theta
       rotate_latitude rotate_longitude =
     (if rotate_longitude \<and> rotate_latitude then
        (let azimuthal_rotation = map uminus reference_phi;
             polar_rotation = map (\<lambda>theta. - theta + pi / 2) reference_theta
         in if length azimuthal_rotation = length polar_rotation
            then Inr (map2 (\<lambda>az pol. from_euler [(AxisZ, az), (AxisY, pol)])
                        azimuthal_rotation polar_rotation)
            else Inl ValueError)
      else if rotate_longitude then
        Inr (map (\<lambda>phi. from_euler [(AxisZ, - phi)]) reference_phi)
      else if rotate_latitude then
        (let azimuthal_rotation = map uminus reference_phi;
             polar_rotation = map (\<lambda>theta. - theta + pi / 2) reference_theta
         in if length azimuthal_rotation = length polar_rotation
            then Inr (map2 (\<lambda>az pol. from_euler [(AxisZ, az), (AxisY, pol), (AxisZ, - az)])
                        azimuthal_rotation polar_rotation)
            else Inl ValueError)
      else Inl ValueError)"

text \<open>\<open>np.einsum("bji,bi->bj", rotation_matrices, positions)\<close>: the matrix of every row
  applied to the position of that row; einsum broadcasts the leading axis.\<close>

definition rotate_with_matrices :: "mat list \<Rightarrow> vec list \<Rightarrow> error + vec list" where
  "rotate_with_matrices rotation_matrices positions =
     np_broadcast2 mat_vec rotation_matrices positions"

definition get_relative_position_in_receiver_local_coordinates ::
  "real list \<Rightarrow> real list \<Rightarrow> int list \<Rightarrow> int list \<Rightarrow> bool \<Rightarrow> bool \<Rightarrow> error + vec list" where
  "get_relative_position_in_receiver_local_coordinates node_phi node_theta senders receivers
       latitude_local_coordinates longitude_local_coordinates =
     bind_err (bind_err (spherical_to_cartesian node_phi node_theta) np_stack_xyz) (\<lambda>node_pos.
       if \<not> (latitude_local_coordinates \<or> longitude_local_coordinates) then
         bind_err (np_take node_pos senders) (\<lambda>sender_pos.
         bind_err (np_take node_pos receivers) (\<lambda>receiver_pos.
           np_broadcast2 vec_sub sender_pos receiver_pos))
       else
         bind_err (get_rotation_matrices_to_local_coordinates node_phi node_theta
                     latitude_local_coordinates longitude_local_coordinates) (\<lambda>rotation_matrices.
         bind_err (np_take rotation_matrices receivers) (\<lambda>edge_rotation_matrices.
         bind_err (np_take node_pos receivers) (\<lambda>receiver_pos.
         bind_err (rotate_with_matrices edge_rotation_matrices receiver_pos)
           (\<lambda>receiver_pos_in_rotated_space.
         bind_err (np_take node_pos senders) (\<lambda>sender_pos.
         bind_err (rotate_with_matrices edge_rotation_matrices sender_pos)
           (\<lambda>sender_pos_in_in_rotated_space.
           np_broadcast2 vec_sub sender_pos_in_in_rotated_space
             receiver_pos_in_rotated_space)))))))"

definition get_bipartite_relative_position_in_receiver_local_coordinates ::
  "real list \<Rightarrow> real list \<Rightarrow> int list \<Rightarrow> real list \<Rightarrow> real list \<Rightarrow> int list \<Rightarrow> bool \<Rightarrow> bool
     \<Rightarrow> error + vec list" where
  "get_bipartite_relative_position_in_receiver_local_coordinates
       senders_node_phi senders_node_theta senders
       receivers_node_phi receivers_node_theta receivers
       latitude_local_coordinates longitude_local_coordinates =
     bind_err (bind_err (spherical_to_cartesian senders_node_phi senders_node_theta) np_stack_xyz)
       (\<lambda>senders_node_pos.
     bind_err (bind_err (spherical_to_cartesian receivers_node_phi receivers_node_theta) np_stack_xyz)
       (\<lambda>receivers_node_pos.
       if \<not> (latitude_local_coordinates \<or> longitude_local_coordinates) then
         bind_err (np_take senders_node_pos senders) (\<lambda>sender_pos.
         bind_err (np_take receivers_node_pos receivers) (\<lambda>receiver_pos.
           np_broadcast2 vec_sub sender_pos receiver_pos))
       else
         bind_err (get_rotation_matrices_to_local_coordinates receivers_node_phi
                     receivers_node_theta latitude_local_coordinates
                     longitude_local_coordinates) (\<lambda>receiver_rotation_matrices.
         bind_err (np_take receiver_rotation_matrices receivers) (\<lambda>edge_rotation_matrices.
         bind_err (np_take receivers_node_pos receivers) (\<lambda>receiver_pos.
         bind_err (rotate_with_matrices edge_rotation_matrices receiver_pos)
           (\<lambda>receiver_pos_in_rotated_space.
         bind_err (np_take senders_node_pos senders) (\<lambda>sender_pos.
         bind_err (rotate_with_matrices edge_rotation_matrices sender_pos)
           (\<lambda>sender_pos_in_in_rotated_space.
           np_broadcast2 vec_sub sender_pos_in_in_rotated_space
             receiver_pos_in_rotated_space))))))))"

subsection \<open>Spatial features of nodes and edges\<close>

text \<open>
  \<open>x / d\<close> on floats where the divisor may be zero: numpy then stores nan or an infinity
  (with a warning, without raising), which is \<open>None\<close> here.
\<close>

definition np_true_divide :: "real \<Rightarrow> real \<Rightarrow> real option" where
  "np_true_divide x d = (if d = 0 then None else Some (x / d))"

text \<open>\<open>a.max()\<close> raises ValueError on an array without elements.\<close>

definition np_max :: "real list \<Rightarrow> error + real" where
  "np_max xs = (if xs = [] then Inl ValueError else Inr (Max (set xs)))"

text \<open>
  \<open>get_graph_spatial_features\<close> with \<open>sine_cosine_encoding = False\<close>, its default, which
  no caller in this repository changes; the optional encoding of the two results is not part
  of the model, nor is the dtype of the arrays. The results are the rows of the node
  features and the rows of the edge features; each edge row is the relative distance
  followed by the three components of the relative position, all divided by the largest
  relative distance.
\<close>

definition get_graph_spatial_features ::
  "real list \<Rightarrow> real list \<Rightarrow> int list \<Rightarrow> int list \<Rightarrow> bool \<Rightarrow> bool \<Rightarrow> bool \<Rightarrow> bool \<Rightarrow> bool \<Rightarrow> bool
     \<Rightarrow> error + (real list list \<times> real option list list)" where
  "get_graph_spatial_features node_lat node_lon senders receivers
       add_node_positions add_node_latitude add_node_longitude add_relative_positions
       relative_longitude_local_coordinates relative_latitude_local_coordinates =
     (let num_nodes = length node_lat;
          num_edges = length senders;
          node_phi = fst (lat_lon_deg_to_spherical node_lat node_lon);
          node_theta = snd (lat_lon_deg_to_spherical node_lat node_lon)
      in
      bind_err (if add_node_positions
                then bind_err (spherical_to_cartesian node_phi node_theta)
                       (\<lambda>(xs, ys, zs). Inr [xs, ys, zs])
                else Inr []) (\<lambda>features1.
      let features2 = features1 @ (if add_node_latitude then [map cos node_theta] else []);
          features3 = features2 @
            (if add_node_longitude then [map cos node_phi, map sin node_phi] else [])
      in
      bind_err (if features3 = [] then Inr (replicate num_nodes [])
                else np_stack_columns features3) (\<lambda>node_features.
      bind_err (if add_relative_positions
                then
                  bind_err (get_relative_position_in_receiver_local_coordinates
                              node_phi node_theta senders receivers
                              relative_latitude_local_coordinates
                              relative_longitude_local_coordinates) (\<lambda>relative_position.
                  let relative_edge_distances = map vec_norm relative_position in
                  bind_err (np_max relative_edge_distances) (\<lambda>max_edge_distance.
                    Inr (map (\<lambda>(x, y, z).
                           [np_true_divide (vec_norm (x, y, z)) max_edge_distance,
                            np_true_divide x max_edge_distance,
                            np_true_divide y max_edge_distance,
                            np_true_divide z max_edge_distance])
                         relative_position)))
                else Inr (replicate num_edges [])) (\<lambda>edge_features.
        Inr (node_features, edge_features)))))"

text \<open>
  \<open>get_bipartite_graph_spatial_features\<close>; \<open>edge_normalization_factor\<close> is \<open>None\<close> or
  a number. The results are the rows of the sender node features, of the receiver node
  features and of the edge features.
\<close>

definition get_bipartite_graph_spatial_features ::
  "real list \<Rightarrow> real list \<Rightarrow> int list \<Rightarrow> real list \<Rightarrow> real list \<Rightarrow> int list
     \<Rightarrow> bool \<Rightarrow> bool \<Rightarrow> bool \<Rightarrow> bool \<Rightarrow> real option \<Rightarrow> bool \<Rightarrow> bool
     \<Rightarrow> error + (real list list \<times> real list list \<times> real option list list)" where
  "get_bipartite_graph_spatial_features senders_node_lat senders_node_lon senders
       receivers_node_lat receivers_node_lon receivers
       add_node_positions add_node_latitude add_node_longitude add_relative_positions
       edge_normalization_factor
       relative_longitude_local_coordinates relative_latitude_local_coordinates =
     (let num_senders = length senders_node_lat;
          num_receivers = length receivers_node_lat;
          num_edges = length senders;
          senders_node_phi = fst (lat_lon_deg_to_spherical senders_node_lat senders_node_lon);
          senders_node_theta = snd (lat_lon_deg_to_spherical senders_node_lat senders_node_lon);
          receivers_node_phi = fst (lat_lon_deg_to_spherical receivers_node_lat receivers_node_lon);
          receivers_node_theta = snd (lat_lon_deg_to_spherical receivers_node_lat receivers_node_lon)
      in
      bind_err (if add_node_positions
                then bind_err (spherical_to_cartesian senders_node_phi senders_node_theta)
                       (\<lambda>(xs, ys, zs).
                     bind_err (spherical_to_cartesian receivers_node_phi receivers_node_theta)
                       (\<lambda>(xr, yr, zr). Inr ([xs, ys, zs], [xr, yr, zr])))
                else Inr ([], [])) (\<lambda>(senders1, receivers1).
      let senders2 = senders1 @ (if add_node_latitude then [map cos senders_node_theta] else []);
          receivers2 = receivers1 @ (if add_node_latitude then [map cos receivers_node_theta] else []);
          senders3 = senders2 @
            (if add_node_longitude then [map cos senders_node_phi, map sin senders_node_phi] else []);
          receivers3 = receivers2 @
            (if add_node_longitude then [map cos receivers_node_phi, map sin receivers_node_phi]
             else [])
      in
      bind_err (if senders3 = []
                then Inr (replicate num_senders [], replicate num_receivers [])
                else bind_err (np_stack_columns senders3) (\<lambda>s.
                     bind_err (np_stack_columns receivers3) (\<lambda>r. Inr (s, r))))
        (\<lambda>(senders_node_features, receivers_node_features).
      bind_err (if add_relative_positions
                then
                  bind_err (get_bipartite_relative_position_in_receiver_local_coordinates
                              senders_node_phi senders_node_theta senders
                              receivers_node_phi receivers_node_theta receivers
                              relative_latitude_local_coordinates
                              relative_longitude_local_coordinates) (\<lambda>relative_position.
                  let relative_edge_distances = map vec_norm relative_position in
                  bind_err (case edge_normalization_factor of
                              None \<Rightarrow> np_max relative_edge_distances
                            | Some factor \<Rightarrow> Inr factor) (\<lambda>edge_normalization_factor.
                    Inr (map (\<lambda>(x, y, z).
                           [np_true_divide (vec_norm (x, y, z)) edge_normalization_factor,
                            np_true_divide x edge_normalization_factor,
                            np_true_divide y edge_normalization_factor,
                            np_true_divide z edge_normalization_factor])
                         relative_position)))
                else Inr (replicate num_edges [])) (\<lambda>edge_features.
        Inr (senders_node_features, receivers_node_features, edge_features)))))"

subsection \<open>Spatial queries between the grid and the mesh\<close>

text \<open>\<open>_grid_lat_lon_to_coordinates\<close>: one row of positions for each latitude, one
  position in it for each longitude.\<close>

definition grid_lat_lon_to_coordinates :: "real list \<Rightarrow> real list \<Rightarrow> vec list list" where
  "grid_lat_lon_to_coordinates grid_latitude grid_longitude =
     map (\<lambda>lat. map (\<lambda>lon.
            (cos (deg2rad lon) * sin (deg2rad (90 - lat)),
             sin (deg2rad lon) * sin (deg2rad (90 - lat)),
             cos (deg2rad (90 - lat)))) grid_longitude) grid_latitude"

text \<open>
  \<open>scipy.spatial.cKDTree(data).query_ball_point(x, r)\<close> of the SciPy library, from its
  documentation: for every query point, the indices of all data points within Euclidean
  distance \<open>r\<close> of it, the bound included. SciPy does not fix the order of the indices in
  one result list; the model lists them in increasing order.
\<close>

definition query_ball_point :: "vec list \<Rightarrow> vec list \<Rightarrow> real \<Rightarrow> int list list" where
  "query_ball_point data x r =
     map (\<lambda>p. filter (\<lambda>i. vec_norm (vec_sub p (data ! nat i)) \<le> r) (map int [0..<length data])) x"

text \<open>\<open>np.concatenate\<close> of an empty list of arrays raises ValueError, which happens when
  there is no grid point.\<close>

definition radius_query_indices ::
  "real list \<Rightarrow> real list \<Rightarrow> TriangularMesh \<Rightarrow> real \<Rightarrow> error + (int list \<times> int list)" where
  "radius_query_indices grid_latitude grid_longitude mesh radius =
     (let grid_positions = concat (grid_lat_lon_to_coordinates grid_latitude grid_longitude);
          mesh_positions = vertices mesh;
          query_indices = query_ball_point mesh_positions grid_positions radius
      in if query_indices = [] then Inl ValueError
         else Inr (concat (map2 (\<lambda>grid_index mesh_neighbors.
                              replicate (length mesh_neighbors) (int grid_index))
                           [0..<length query_indices] query_indices),
                   concat query_indices))"

text \<open>
  \<open>in_mesh_triangle_indices\<close>. \<open>trimesh.proximity.closest_point\<close> belongs to the trimesh
  library; the indices of the closest triangles it returns, one for each query point, are
  the result of the parameter \<open>closest_point\<close>.
\<close>

definition in_mesh_triangle_indices ::
  "(TriangularMesh \<Rightarrow> vec list \<Rightarrow> int list) \<Rightarrow> real list \<Rightarrow> real list \<Rightarrow> TriangularMesh
     \<Rightarrow> error + (int list \<times> int list)" where
  "in_mesh_triangle_indices closest_point grid_latitude grid_longitude mesh =
     (let grid_positions = concat (grid_lat_lon_to_coordinates grid_latitude grid_longitude);
          query_face_indices = closest_point mesh grid_positions
      in bind_err (np_take (faces mesh) query_face_indices) (\<lambda>mesh_edge_indices.
           let grid_indices = map int [0..<length grid_positions];
               grid_edge_indices = map (\<lambda>g. [g, g, g]) grid_indices
           in Inr (concat grid_edge_indices,
                   concat (map (\<lambda>(a, b, c). [a, b, c]) mesh_edge_indices))))"

subsection \<open>The aggregate GraphGridMesh\<close>

text \<open>
  The configuration object, with the four entries that \<open>__init__\<close> reads, and the sixteen
  optional arguments of \<open>__init__\<close>. An array of node or edge features is a list of rows;
  after \<open>np.expand_dims(..., axis=1)\<close> every row is wrapped in a list of length one.
\<close>

record config =
  mesh_size :: int
  radius_query_fraction_edge_length :: real
  mesh2grid_edge_normalization_factor :: "real option"
  resolution :: real

record init_args =
  arg_mesh2mesh_src_index :: "int list option"
  arg_mesh2mesh_dst_index :: "int list option"
  arg_grid2mesh_src_index :: "int list option"
  arg_grid2mesh_dst_index :: "int list option"
  arg_mesh2grid_src_index :: "int list option"
  arg_mesh2grid_dst_index :: "int list option"
  arg_mesh_num_nodes :: "int option"
  arg_grid_num_nodes :: "int option"
  arg_mesh_num_edges :: "int option"
  arg_grid2mesh_num_edges :: "int option"
  arg_mesh2grid_num_edges :: "int option"
  arg_grid_node_feat :: "real list list list option"
  arg_mesh_node_feat :: "real list list list option"
  arg_mesh_edge_feat :: "real option list list list option"
  arg_grid2mesh_edge_feat :: "real option list list list option"
  arg_mesh2grid_edge_feat :: "real option list list list option"

text \<open>
  The object under construction. A field is \<open>None\<close> as long as the attribute has not been
  assigned; reading such an attribute raises AttributeError. An attribute \<open>_x\<close> of the
  source is the field \<open>priv_x\<close>. The three \<open>_..._graph_structure\<close> attributes receive the
  return value of methods that return nothing.
\<close>

record GraphGridMesh =
  meshes :: "TriangularMesh list"
  query_radius :: "real option"
  priv_mesh2grid_edge_normalization_factor :: "real option option"
  priv_spatial_features_kwargs :: "(bool \<times> bool \<times> bool \<times> bool \<times> bool \<times> bool) option"
  mesh_num_nodes :: "int option"
  priv_mesh_nodes_lat :: "real list option"
  priv_mesh_nodes_lon :: "real list option"
  priv_grid_lat :: "real list option"
  priv_grid_lon :: "real list option"
  grid_num_nodes :: "int option"
  priv_grid_nodes_lon :: "real list option"
  priv_grid_nodes_lat :: "real list option"
  grid_node_feat :: "real list list list option"
  grid2mesh_src_index :: "int list option"
  grid2mesh_dst_index :: "int list option"
  grid2mesh_edge_feat :: "real option list list list option"
  grid2mesh_num_edges :: "int option"
  mesh_node_feat :: "real list list list option"
  mesh2mesh_src_index :: "int list option"
  mesh2mesh_dst_index :: "int list option"
  mesh_edge_feat :: "real option list list list option"
  mesh_num_edges :: "int option"
  mesh2grid_src_index :: "int list option"
  mesh2grid_dst_index :: "int list option"
  mesh2grid_edge_feat :: "real option list list list option"
  mesh2grid_num_edges :: "int option"
  priv_grid2mesh_graph_structure :: "unit option"
  priv_mesh_graph_structure :: "unit option"
  priv_mesh2grid_graph_structure :: "unit option"

text \<open>The object right after \<open>self.meshes\<close> has been assigned.\<close>

definition new_GraphGridMesh :: "TriangularMesh list \<Rightarrow> GraphGridMesh" where
  "new_GraphGridMesh ms =
     \<lparr>meshes = ms, query_radius = None, priv_mesh2grid_edge_normalization_factor = None,
      priv_spatial_features_kwargs = None, mesh_num_nodes = None,
      priv_mesh_nodes_lat = None, priv_mesh_nodes_lon = None,
      priv_grid_lat = None, priv_grid_lon = None, grid_num_nodes = None,
      priv_grid_nodes_lon = None, priv_grid_nodes_lat = None,
      grid_node_feat = None, grid2mesh_src_index = None, grid2mesh_dst_index = None,
      grid2mesh_edge_feat = None, grid2mesh_num_edges = None,
      mesh_node_feat = None, mesh2mesh_src_index = None, mesh2mesh_dst_index = None,
      mesh_edge_feat = None, mesh_num_edges = None,
      mesh2grid_src_index = None, mesh2grid_dst_index = None,
      mesh2grid_edge_feat = None, mesh2grid_num_edges = None,
      priv_grid2mesh_graph_structure = None, priv_mesh_graph_structure = None,
      priv_mesh2grid_graph_structure = None\<rparr>"

definition get_attr :: "'a option \<Rightarrow> error + 'a" where
  "get_attr a = (case a of None \<Rightarrow> Inl AttributeError | Some v \<Rightarrow> Inr v)"

text \<open>\<open>self.meshes[-1]\<close>.\<close>

definition finest_mesh :: "GraphGridMesh \<Rightarrow> error + TriangularMesh" where
  "finest_mesh self = (if meshes self = [] then Inl IndexError else Inr (last (meshes self)))"

text \<open>\<open>np.arange(start, stop, step)\<close> for Python floats: \<open>ceil((stop - start) / step)\<close>
  elements \<open>start + i * step\<close> (none when that number is not positive); a zero step
  raises ZeroDivisionError.\<close>

definition np_arange :: "real \<Rightarrow> real \<Rightarrow> real \<Rightarrow> error + real list" where
  "np_arange start stop step =
     (if step = 0 then Inl ZeroDivisionError
      else Inr (map (\<lambda>i. start + real i * step) [0..<nat \<lceil>(stop - start) / step\<rceil>]))"

definition expand_dims_1 :: "'a list \<Rightarrow> 'a list list" where
  "expand_dims_1 rows = map (\<lambda>row. [row]) rows"

definition get_max_edge_distance :: "TriangularMesh \<Rightarrow> error + real" where
  "get_max_edge_distance mesh =
     (case faces_to_edges (faces mesh) of (senders, receivers) \<Rightarrow>
        bind_err (np_take (vertices mesh) senders) (\<lambda>sender_pos.
        bind_err (np_take (vertices mesh) receivers) (\<lambda>receiver_pos.
        bind_err (np_broadcast2 vec_sub sender_pos receiver_pos) (\<lambda>differences.
          np_max (map vec_norm differences)))))"

definition init_mesh_properties :: "GraphGridMesh \<Rightarrow> error + GraphGridMesh" where
  "init_mesh_properties self =
     bind_err (finest_mesh self) (\<lambda>finest.
       let self1 = self\<lparr>mesh_num_nodes := Some (int (length (vertices finest)))\<rparr>;
           mesh_phi = map (\<lambda>v. fst (cartesian_to_spherical v)) (vertices finest);
           mesh_theta = map (\<lambda>v. snd (cartesian_to_spherical v)) (vertices finest);
           mesh_nodes_lat = fst (spherical_to_lat_lon mesh_phi mesh_theta);
           mesh_nodes_lon = snd (spherical_to_lat_lon mesh_phi mesh_theta)
       in Inr (self1\<lparr>priv_mesh_nodes_lat := Some mesh_nodes_lat,
                      priv_mesh_nodes_lon := Some mesh_nodes_lon\<rparr>))"

text \<open>\<open>np.meshgrid(grid_lon, grid_lat)\<close> flattened: the longitudes once for every latitude,
  every latitude once for every longitude.\<close>

definition init_grid_properties :: "GraphGridMesh \<Rightarrow> real list \<Rightarrow> real list \<Rightarrow> GraphGridMesh" where
  "init_grid_properties self grid_lat grid_lon =
     self\<lparr>priv_grid_lat := Some grid_lat,
          priv_grid_lon := Some grid_lon,
          grid_num_nodes := Some (int (length grid_lat) * int (length grid_lon)),
          priv_grid_nodes_lon := Some (concat (map (\<lambda>lat. grid_lon) grid_lat)),
          priv_grid_nodes_lat := Some (concat (map (\<lambda>lat. map (\<lambda>lon. lat) grid_lon) grid_lat))\<rparr>"

definition init_grid2mesh_graph :: "GraphGridMesh \<Rightarrow> error + GraphGridMesh" where
  "init_grid2mesh_graph self =
     bind_err (get_attr (priv_grid_lat self)) (\<lambda>grid_lat.
     bind_err (get_attr (priv_grid_lon self)) (\<lambda>grid_lon.
     bind_err (finest_mesh self) (\<lambda>finest.
     bind_err (get_attr (query_radius self)) (\<lambda>radius.
     bind_err (radius_query_indices grid_lat grid_lon finest radius) (\<lambda>(grid_indices, mesh_indices).
     let senders = grid_indices; receivers = mesh_indices in
     bind_err (get_attr (priv_grid_nodes_lat self)) (\<lambda>grid_nodes_lat.
     bind_err (get_attr (priv_grid_nodes_lon self)) (\<lambda>grid_nodes_lon.
     bind_err (get_attr (priv_mesh_nodes_lat self)) (\<lambda>mesh_nodes_lat.
     bind_err (get_attr (priv_mesh_nodes_lon self)) (\<lambda>mesh_nodes_lon.
     bind_err (get_attr (priv_spatial_features_kwargs self))
       (\<lambda>(add_node_positions, add_node_latitude, add_node_longitude, add_relative_positions,
          relative_longitude_local_coordinates, relative_latitude_local_coordinates).
     bind_err (get_bipartite_graph_spatial_features grid_nodes_lat grid_nodes_lon senders
                 mesh_nodes_lat mesh_nodes_lon receivers
                 add_node_positions add_node_latitude add_node_longitude add_relative_positions
                 None relative_longitude_local_coordinates relative_latitude_local_coordinates)
       (\<lambda>(senders_node_features, receivers_node_features, edge_features).
       Inr (self\<lparr>grid_node_feat := Some (expand_dims_1 senders_node_features),
                  grid2mesh_src_index := Some senders,
                  grid2mesh_dst_index := Some receivers,
                  grid2mesh_edge_feat := Some (expand_dims_1 edge_features),
                  grid2mesh_num_edges := Some (int (length edge_features))\<rparr>))))))))))))"

definition init_mesh_graph :: "GraphGridMesh \<Rightarrow> error + GraphGridMesh" where
  "init_mesh_graph self =
     bind_err (merge_meshes (meshes self)) (\<lambda>merged_mesh.
     case faces_to_edges (faces merged_mesh) of (senders, receivers) \<Rightarrow>
     bind_err (get_attr (priv_mesh_nodes_lat self)) (\<lambda>mesh_nodes_lat.
     bind_err (get_attr (priv_mesh_nodes_lon self)) (\<lambda>mesh_nodes_lon.
     bind_err (get_attr (priv_spatial_features_kwargs self))
       (\<lambda>(add_node_positions, add_node_latitude, add_node_longitude, add_relative_positions,
          relative_longitude_local_coordinates, relative_latitude_local_coordinates).
     bind_err (get_graph_spatial_features mesh_nodes_lat mesh_nodes_lon senders receivers
                 add_node_positions add_node_latitude add_node_longitude add_relative_positions
                 relative_longitude_local_coordinates relative_latitude_local_coordinates)
       (\<lambda>(node_features, edge_features).
       Inr (self\<lparr>mesh_node_feat := Some (expand_dims_1 node_features),
                  mesh2mesh_src_index := Some senders,
                  mesh2mesh_dst_index := Some receivers,
                  mesh_edge_feat := Some (expand_dims_1 edge_features),
                  mesh_num_edges := Some (int (length edge_features))\<rparr>))))))"

definition init_mesh2grid_graph ::
  "(TriangularMesh \<Rightarrow> vec list \<Rightarrow> int list) \<Rightarrow> GraphGridMesh \<Rightarrow> error + GraphGridMesh" where
  "init_mesh2grid_graph closest_point self =
     bind_err (get_attr (priv_grid_lat self)) (\<lambda>grid_lat.
     bind_err (get_attr (priv_grid_lon self)) (\<lambda>grid_lon.
     bind_err (finest_mesh self) (\<lambda>finest.
     bind_err (in_mesh_triangle_indices closest_point grid_lat grid_lon finest)
       (\<lambda>(grid_indices, mesh_indices).
     let senders = mesh_indices; receivers = grid_indices in
     bind_err (get_attr (priv_mesh_nodes_lat self)) (\<lambda>mesh_nodes_lat.
     bind_err (get_attr (priv_mesh_nodes_lon self)) (\<lambda>mesh_nodes_lon.
     bind_err (get_attr (priv_grid_nodes_lat self)) (\<lambda>grid_nodes_lat.
     bind_err (get_attr (priv_grid_nodes_lon self)) (\<lambda>grid_nodes_lon.
     bind_err (get_attr (priv_mesh2grid_edge_normalization_factor self)) (\<lambda>edge_normalization_factor.
     bind_err (get_attr (priv_spatial_features_kwargs self))
       (\<lambda>(add_node_positions, add_node_latitude, add_node_longitude, add_relative_positions,
          relative_longitude_local_coordinates, relative_latitude_local_coordinates).
     bind_err (get_bipartite_graph_spatial_features mesh_nodes_lat mesh_nodes_lon senders
                 grid_nodes_lat grid_nodes_lon receivers
                 add_node_positions add_node_latitude add_node_longitude add_relative_positions
                 edge_normalization_factor
                 relative_longitude_local_coordinates relative_latitude_local_coordinates)
       (\<lambda>(senders_node_features, receivers_node_features, edge_features).
       Inr (self\<lparr>mesh2grid_src_index := Some senders,
                  mesh2grid_dst_index := Some receivers,
                  mesh2grid_edge_feat := Some (expand_dims_1 edge_features),
                  mesh2grid_num_edges := Some (int (length edge_features))\<rparr>))))))))))))"

text \<open>\<open>should_init = any(var is None for var in all_input_vars)\<close>.\<close>

definition should_init :: "init_args \<Rightarrow> bool" where
  "should_init args =
     list_ex (\<lambda>is_none. is_none)
       [arg_mesh2mesh_src_index args = None, arg_mesh2mesh_dst_index args = None,
        arg_grid2mesh_src_index args = None, arg_grid2mesh_dst_index args = None,
        arg_mesh2grid_src_index args = None, arg_mesh2grid_dst_index args = None,
        arg_mesh_num_nodes args = None, arg_grid_num_nodes args = None,
        arg_mesh_num_edges args = None, arg_grid2mesh_num_edges args = None,
        arg_mesh2grid_num_edges args = None, arg_grid_node_feat args = None,
        arg_mesh_node_feat args = None, arg_mesh_edge_feat args = None,
        arg_grid2mesh_edge_feat args = None, arg_mesh2grid_edge_feat args = None]"

text \<open>\<open>GraphGridMesh.__init__\<close>; the closest-triangle search of the trimesh library is
  the parameter \<open>closest_point\<close>.\<close>

definition GraphGridMesh_init ::
  "(TriangularMesh \<Rightarrow> vec list \<Rightarrow> int list) \<Rightarrow> config \<Rightarrow> init_args \<Rightarrow> error + GraphGridMesh" where
  "GraphGridMesh_init closest_point cfg args =
     bind_err (get_hierarchy_of_triangular_meshes_for_sphere (mesh_size cfg)) (\<lambda>ms.
     let self = new_GraphGridMesh ms in
     if should_init args then
       bind_err (finest_mesh self) (\<lambda>finest.
       bind_err (get_max_edge_distance finest) (\<lambda>max_edge_distance.
       let self = self\<lparr>query_radius :=
                    Some (max_edge_distance * radius_query_fraction_edge_length cfg)\<rparr>;
           self = self\<lparr>priv_mesh2grid_edge_normalization_factor :=
                    Some (mesh2grid_edge_normalization_factor cfg)\<rparr>;
           self = self\<lparr>priv_spatial_features_kwargs :=
                    Some (False, True, True, True, True, True)\<rparr>
       in
       bind_err (init_mesh_properties self) (\<lambda>self.
       bind_err (np_arange (- 90) (90 + resolution cfg) (resolution cfg)) (\<lambda>grid_lat.
       bind_err (np_arange 0 360 (resolution cfg)) (\<lambda>grid_lon.
       let self = init_grid_properties self grid_lat grid_lon in
       bind_err (init_grid2mesh_graph self) (\<lambda>self.
       let self = self\<lparr>priv_grid2mesh_graph_structure := Some ()\<rparr> in
       bind_err (init_mesh_graph self) (\<lambda>self.
       let self = self\<lparr>priv_mesh_graph_structure := Some ()\<rparr> in
       bind_err (init_mesh2grid_graph closest_point self) (\<lambda>self.
         Inr (self\<lparr>priv_mesh2grid_graph_structure := Some ()\<rparr>)))))))))
     else
       Inr (self\<lparr>mesh2mesh_src_index := arg_mesh2mesh_src_index args,
                  mesh2mesh_dst_index := arg_mesh2mesh_dst_index args,
                  grid2mesh_src_index := arg_grid2mesh_src_index args,
                  grid2mesh_dst_index := arg_grid2mesh_dst_index args,
                  mesh2grid_src_index := arg_mesh2grid_src_index args,
                  mesh2grid_dst_index := arg_mesh2grid_dst_index args,
                  mesh_num_nodes := arg_mesh_num_nodes args,
                  grid_num_nodes := arg_grid_num_nodes args,
                  mesh_num_edges := arg_mesh_num_edges args,
                  grid2mesh_num_edges := arg_grid2mesh_num_edges args,
                  mesh2grid_num_edges := arg_mesh2grid_num_edges args,
                  grid_node_feat := arg_grid_node_feat args,
                  mesh_node_feat := arg_mesh_node_feat args,
                  mesh_edge_feat := arg_mesh_edge_feat args,
                  grid2mesh_edge_feat := arg_grid2mesh_edge_feat args,
                  mesh2grid_edge_feat := arg_mesh2grid_edge_feat args\<rparr>))"


subsection \<open>Auxiliary notions for the mesh proofs\<close>

definition builder_inv :: "ChildVerticesBuilder \<Rightarrow> bool" where
  "builder_inv b \<longleftrightarrow>
     finite (dom (child_vertices_index_mapping b)) \<and>
     length (all_vertices_list b) =
       length (parent_vertices b) + card (dom (child_vertices_index_mapping b)) \<and>
     take (length (parent_vertices b)) (all_vertices_list b) = parent_vertices b \<and>
     (\<forall>k v. child_vertices_index_mapping b k = Some v \<longrightarrow>
        int (length (parent_vertices b)) \<le> v \<and> v < int (length (all_vertices_list b)))"

definition valid_index :: "nat \<Rightarrow> int \<Rightarrow> bool" where
  "valid_index n i \<longleftrightarrow> 0 \<le> i \<and> i < int n"

definition valid_face :: "nat \<Rightarrow> face \<Rightarrow> bool" where
  "valid_face n f \<longleftrightarrow> (case f of (a, b, c) \<Rightarrow> valid_index n a \<and> valid_index n b \<and> valid_index n c)"

definition face_keys :: "face \<Rightarrow> (int \<times> int) set" where
  "face_keys f = (case f of (a, b, c) \<Rightarrow>
     {get_child_vertex_key (a, b), get_child_vertex_key (b, c), get_child_vertex_key (c, a)})"

definition child_faces :: "((int \<times> int) \<rightharpoonup> int) \<Rightarrow> face \<Rightarrow> face list" where
  "child_faces M f = (case f of (a, b, c) \<Rightarrow>
     (let ab = the (M (get_child_vertex_key (a, b)));
          bc = the (M (get_child_vertex_key (b, c)));
          ca = the (M (get_child_vertex_key (c, a)))
      in [(a, ab, ca), (ab, b, bc), (ca, bc, c), (ab, bc, ca)]))"

definition child_position :: "vec list \<Rightarrow> int \<Rightarrow> int \<Rightarrow> vec" where
  "child_position ps i j =
     (let m = vec_div (vec_add (ps ! nat i) (vec_add (ps ! nat j) (0, 0, 0))) 2
      in vec_div m (vec_norm m))"

definition faces_keys :: "face list \<Rightarrow> (int \<times> int) set" where
  "faces_keys fs = (\<Union>f\<in>set fs. face_keys f)"

definition mesh_ok :: "TriangularMesh \<Rightarrow> bool" where
  "mesh_ok m \<longleftrightarrow> (\<forall>f\<in>set (faces m). valid_face (length (vertices m)) f)"

definition unordered_edges :: "face list \<Rightarrow> int set set" where
  "unordered_edges fs = (\<Union>f\<in>set fs. case f of (a, b, c) \<Rightarrow> {{a, b}, {b, c}, {c, a}})"

definition split_chain :: "TriangularMesh list \<Rightarrow> bool" where
  "split_chain ms \<longleftrightarrow>
     (\<forall>k. Suc k < length ms \<longrightarrow> two_split_unit_sphere_triangle_faces (ms ! k) = Inr (ms ! Suc k))"

definition face_edges :: "face \<Rightarrow> (int \<times> int) list" where
  "face_edges f = (case f of (i, j, k) \<Rightarrow> [(i, j), (j, k), (k, i)])"

definition directed_edges :: "face list \<Rightarrow> (int \<times> int) set" where
  "directed_edges fs = (\<Union>f\<in>set fs. set (face_edges f))"

definition mid :: "((int \<times> int) \<rightharpoonup> int) \<Rightarrow> int \<Rightarrow> int \<Rightarrow> int" where
  "mid M x y = the (M (get_child_vertex_key (x, y)))"

definition reversal_closed :: "(int \<times> int) set \<Rightarrow> bool" where
  "reversal_closed E \<longleftrightarrow> (\<forall>e\<in>E. prod.swap e \<in> E)"

definition nesting_check :: "TriangularMesh \<Rightarrow> TriangularMesh \<Rightarrow> error + bool" where
  "nesting_check mesh_i mesh_ip1 =
     np_allclose (vertices mesh_i) (take (length (vertices mesh_i)) (vertices mesh_ip1))"

text \<open>The position on the unit sphere with azimuth \<open>phi\<close> and polar angle \<open>theta\<close>,
  and the position a reference point is rotated to under each choice of the flags.\<close>

definition unit_position :: "real \<Rightarrow> real \<Rightarrow> vec" where
  "unit_position phi theta = (cos phi * sin theta, sin phi * sin theta, cos theta)"

definition local_position :: "bool \<Rightarrow> bool \<Rightarrow> real \<Rightarrow> real \<Rightarrow> vec" where
  "local_position rotate_latitude rotate_longitude phi theta =
     (if rotate_longitude \<and> rotate_latitude then (1, 0, 0)
      else if rotate_longitude then (sin theta, 0, cos theta)
      else (cos phi, sin phi, 0))"

text \<open>The grid indices and the index pairs of a list of neighbour lists, the first list
  belonging to grid point \<open>k\<close>.\<close>

definition grid_blocks :: "nat \<Rightarrow> int list list \<Rightarrow> int list" where
  "grid_blocks k q =
     concat (map2 (\<lambda>grid_index mesh_neighbors. replicate (length mesh_neighbors) (int grid_index))
               [k..<k + length q] q)"

definition pair_blocks :: "nat \<Rightarrow> int list list \<Rightarrow> (int \<times> int) list" where
  "pair_blocks k q = concat (map2 (\<lambda>g nb. map (Pair (int g)) nb) [k..<k + length q] q)"

text \<open>The edge rows for a list of relative positions and a divisor \<open>m\<close>: the norm and
  the three components of each relative position, each divided by \<open>m\<close>.\<close>

definition normalized_rows :: "real \<Rightarrow> vec list \<Rightarrow> real option list list" where
  "normalized_rows m rel =
     map (\<lambda>(x, y, z). [np_true_divide (vec_norm (x, y, z)) m, np_true_divide x m,
                        np_true_divide y m, np_true_divide z m]) rel"

subsection \<open>Auxiliary notions for the proofs about GraphGridMesh\<close>

text \<open>The call of \<open>__init__\<close> with the configuration only: all sixteen optional
  arguments keep their default \<open>None\<close>.\<close>

definition none_args :: init_args where
  "none_args =
     \<lparr>arg_mesh2mesh_src_index = None, arg_mesh2mesh_dst_index = None,
      arg_grid2mesh_src_index = None, arg_grid2mesh_dst_index = None,
      arg_mesh2grid_src_index = None, arg_mesh2grid_dst_index = None,
      arg_mesh_num_nodes = None, arg_grid_num_nodes = None,
      arg_mesh_num_edges = None, arg_grid2mesh_num_edges = None,
      arg_mesh2grid_num_edges = None, arg_grid_node_feat = None,
      arg_mesh_node_feat = None, arg_mesh_edge_feat = None,
      arg_grid2mesh_edge_feat = None, arg_mesh2grid_edge_feat = None\<rparr>"

text \<open>
  What the construction pipeline leaves in the object: the query radius from the longest edge
  of the finest mesh, the two grid axes, the edges of the radius query with the features of
  the grid-to-mesh graph, the edges of the merged mesh with the features of the mesh graph,
  and the edges of the point-location query with the features of the mesh-to-grid graph,
  each result being that of the respective function on the values before it.
\<close>

definition pipeline_result ::
  "(TriangularMesh \<Rightarrow> vec list \<Rightarrow> int list) \<Rightarrow> config \<Rightarrow> GraphGridMesh \<Rightarrow> bool" where
  "pipeline_result closest_point cfg self \<longleftrightarrow>
     (\<exists>ms max_edge_distance grid_lat grid_lon mlat mlon gnlat gnlon gs gd merged msrc mdst mi gi
         snf rnf gef mnf mef snf' rnf' tef.
        get_hierarchy_of_triangular_meshes_for_sphere (mesh_size cfg) = Inr ms \<and>
        meshes self = ms \<and> ms \<noteq> [] \<and>
        get_max_edge_distance (last ms) = Inr max_edge_distance \<and>
        query_radius self = Some (max_edge_distance * radius_query_fraction_edge_length cfg) \<and>
        np_arange (- 90) (90 + resolution cfg) (resolution cfg) = Inr grid_lat \<and>
        np_arange 0 360 (resolution cfg) = Inr grid_lon \<and>
        priv_mesh_nodes_lat self = Some mlat \<and> priv_mesh_nodes_lon self = Some mlon \<and>
        priv_grid_nodes_lat self = Some gnlat \<and> priv_grid_nodes_lon self = Some gnlon \<and>
        radius_query_indices grid_lat grid_lon (last ms)
          (max_edge_distance * radius_query_fraction_edge_length cfg) = Inr (gs, gd) \<and>
        grid2mesh_src_index self = Some gs \<and> grid2mesh_dst_index self = Some gd \<and>
        get_bipartite_graph_spatial_features gnlat gnlon gs mlat mlon gd
          False True True True None True True = Inr (snf, rnf, gef) \<and>
        grid_node_feat self = Some (expand_dims_1 snf) \<and>
        grid2mesh_edge_feat self = Some (expand_dims_1 gef) \<and>
        merge_meshes ms = Inr merged \<and>
        faces_to_edges (faces merged) = (msrc, mdst) \<and>
        mesh2mesh_src_index self = Some msrc \<and> mesh2mesh_dst_index self = Some mdst \<and>
        get_graph_spatial_features mlat mlon msrc mdst False True True True True True
          = Inr (mnf, mef) \<and>
        mesh_node_feat self = Some (expand_dims_1 mnf) \<and>
        mesh_edge_feat self = Some (expand_dims_1 mef) \<and>
        in_mesh_triangle_indices closest_point grid_lat grid_lon (last ms) = Inr (gi, mi) \<and>
        mesh2grid_src_index self = Some mi \<and> mesh2grid_dst_index self = Some gi \<and>
        get_bipartite_graph_spatial_features mlat mlon mi gnlat gnlon gi
          False True True True (mesh2grid_edge_normalization_factor cfg) True True
          = Inr (snf', rnf', tef) \<and>
        mesh2grid_edge_feat self = Some (expand_dims_1 tef))"

text \<open>The contract of the closest-triangle search: on a mesh with at least one face it
  returns one index of a face of the mesh for every query point.\<close>

definition closest_point_contract :: "(TriangularMesh \<Rightarrow> vec list \<Rightarrow> int list) \<Rightarrow> bool" where
  "closest_point_contract closest_point \<longleftrightarrow>
     (\<forall>mesh points. faces mesh \<noteq> [] \<longrightarrow>
        length (closest_point mesh points) = length points \<and>
        (\<forall>t\<in>set (closest_point mesh points). 0 \<le> t \<and> t < int (length (faces mesh))))"

text \<open>Some grid point lies within the query radius of some vertex of the finest mesh, so
  that the grid-to-mesh graph has an edge.\<close>

definition grid_reaches_mesh :: "config \<Rightarrow> bool" where
  "grid_reaches_mesh cfg \<longleftrightarrow>
     (\<exists>ms max_edge_distance grid_lat grid_lon.
        get_hierarchy_of_triangular_meshes_for_sphere (mesh_size cfg) = Inr ms \<and>
        get_max_edge_distance (last ms) = Inr max_edge_distance \<and>
        np_arange (- 90) (90 + resolution cfg) (resolution cfg) = Inr grid_lat \<and>
        np_arange 0 360 (resolution cfg) = Inr grid_lon \<and>
        (\<exists>p\<in>set (concat (grid_lat_lon_to_coordinates grid_lat grid_lon)).
         \<exists>v\<in>set (vertices (last ms)).
           vec_norm (vec_sub p v) \<le> max_edge_distance * radius_query_fraction_edge_length cfg))"

lemma np_getitem_valid: "valid_index (length xs) i \<Longrightarrow> np_getitem xs i = Inr (xs ! nat i)"
  by (simp add: np_getitem_def valid_index_def)

lemma create_child_vertex_ok:
  assumes "valid_index (length (parent_vertices b)) i" "valid_index (length (parent_vertices b)) j"
  shows "create_child_vertex b (i, j) =
           Inr (b\<lparr>child_vertices_index_mapping :=
                    (child_vertices_index_mapping b)
                      (get_child_vertex_key (i, j) \<mapsto> int (length (all_vertices_list b))),
                 all_vertices_list := all_vertices_list b @ [child_position (parent_vertices b) i j]\<rparr>)"
  using assms by (simp add: create_child_vertex_def np_getitem_valid Let_def child_position_def)

lemma builder_inv_create:
  assumes "builder_inv b" "child_vertices_index_mapping b k = None"
  shows "builder_inv (b\<lparr>child_vertices_index_mapping :=
                    (child_vertices_index_mapping b)(k \<mapsto> int (length (all_vertices_list b))),
                 all_vertices_list := all_vertices_list b @ [pos]\<rparr>)"
proof -
  have nd: "k \<notin> dom (child_vertices_index_mapping b)" using assms(2) by auto
  have r: "\<And>k' v. child_vertices_index_mapping b k' = Some v \<Longrightarrow>
        int (length (parent_vertices b)) \<le> v \<and> v < int (length (all_vertices_list b))"
    using assms(1) unfolding builder_inv_def by blast
  show ?thesis
    using assms nd unfolding builder_inv_def
    by (auto simp: card_insert_if dest!: r)
qed

lemma get_new_child_vertex_index_ok:
  assumes "builder_inv b"
    and "valid_index (length (parent_vertices b)) i" "valid_index (length (parent_vertices b)) j"
  shows "\<exists>v b'. get_new_child_vertex_index b (i, j) = Inr (v, b') \<and> builder_inv b' \<and>
           parent_vertices b' = parent_vertices b \<and>
           child_vertices_index_mapping b \<subseteq>\<^sub>m child_vertices_index_mapping b' \<and>
           dom (child_vertices_index_mapping b') =
             insert (get_child_vertex_key (i, j)) (dom (child_vertices_index_mapping b)) \<and>
           child_vertices_index_mapping b' (get_child_vertex_key (i, j)) = Some v \<and>
           (\<exists>extra. all_vertices_list b' = all_vertices_list b @ extra)"
proof (cases "child_vertices_index_mapping b (get_child_vertex_key (i, j))")
  case None
  let ?k = "get_child_vertex_key (i, j)"
  let ?b' = "b\<lparr>child_vertices_index_mapping :=
                    (child_vertices_index_mapping b)(?k \<mapsto> int (length (all_vertices_list b))),
                 all_vertices_list := all_vertices_list b @ [child_position (parent_vertices b) i j]\<rparr>"
  have c: "create_child_vertex b (i, j) = Inr ?b'"
    by (rule create_child_vertex_ok[OF assms(2,3)])
  have g: "get_new_child_vertex_index b (i, j) = Inr (int (length (all_vertices_list b)), ?b')"
    using None c by (simp add: get_new_child_vertex_index_def)
  have le: "child_vertices_index_mapping b \<subseteq>\<^sub>m child_vertices_index_mapping ?b'"
    using None by (auto simp: map_le_def)
  have inv: "builder_inv ?b'" by (rule builder_inv_create[OF assms(1) None])
  have d: "dom (child_vertices_index_mapping ?b') = insert ?k (dom (child_vertices_index_mapping b))"
    by simp
  have p: "parent_vertices ?b' = parent_vertices b" by simp
  have m: "child_vertices_index_mapping ?b' ?k = Some (int (length (all_vertices_list b)))" by simp
  have e: "\<exists>extra. all_vertices_list ?b' = all_vertices_list b @ extra" by simp
  show ?thesis using g le inv d p m e by blast
next
  case (Some v)
  then have "get_child_vertex_key (i, j) \<in> dom (child_vertices_index_mapping b)" by auto
  then show ?thesis using Some assms(1)
    by (auto simp: get_new_child_vertex_index_def insert_absorb)
qed

lemma child_faces_map_le:
  assumes "M \<subseteq>\<^sub>m M'" "face_keys f \<subseteq> dom M"
  shows "child_faces M' f = child_faces M f"
proof -
  have "\<And>k. k \<in> face_keys f \<Longrightarrow> M' k = M k"
    using assms by (metis map_le_def subsetD)
  then show ?thesis
    by (cases f) (simp add: child_faces_def face_keys_def)
qed

lemma two_split_step:
  assumes "builder_inv b" "valid_face (length (parent_vertices b)) (a, bb, c)"
  shows "\<exists>v12 v23 v31 b1 b2 b3.
           get_new_child_vertex_index b (a, bb) = Inr (v12, b1) \<and>
           get_new_child_vertex_index b1 (bb, c) = Inr (v23, b2) \<and>
           get_new_child_vertex_index b2 (c, a) = Inr (v31, b3) \<and>
           builder_inv b3 \<and> parent_vertices b3 = parent_vertices b \<and>
           child_vertices_index_mapping b \<subseteq>\<^sub>m child_vertices_index_mapping b3 \<and>
           dom (child_vertices_index_mapping b3) =
             dom (child_vertices_index_mapping b) \<union> face_keys (a, bb, c) \<and>
           [(a, v12, v31), (v12, bb, v23), (v31, v23, c), (v12, v23, v31)] =
             child_faces (child_vertices_index_mapping b3) (a, bb, c) \<and>
           (\<exists>extra. all_vertices_list b3 = all_vertices_list b @ extra)"
proof -
  from assms(2) have va: "valid_index (length (parent_vertices b)) a"
    and vb: "valid_index (length (parent_vertices b)) bb"
    and vc: "valid_index (length (parent_vertices b)) c"
    by (simp_all add: valid_face_def)
  from get_new_child_vertex_index_ok[OF assms(1) va vb] obtain v12 b1 where
    s1: "get_new_child_vertex_index b (a, bb) = Inr (v12, b1)" "builder_inv b1"
      "parent_vertices b1 = parent_vertices b"
      "child_vertices_index_mapping b \<subseteq>\<^sub>m child_vertices_index_mapping b1"
      "dom (child_vertices_index_mapping b1) =
         insert (get_child_vertex_key (a, bb)) (dom (child_vertices_index_mapping b))"
      "child_vertices_index_mapping b1 (get_child_vertex_key (a, bb)) = Some v12"
      "\<exists>extra. all_vertices_list b1 = all_vertices_list b @ extra"
    by blast
  from get_new_child_vertex_index_ok[OF s1(2), of bb c] vb vc s1(3) obtain v23 b2 where
    s2: "get_new_child_vertex_index b1 (bb, c) = Inr (v23, b2)" "builder_inv b2"
      "parent_vertices b2 = parent_vertices b1"
      "child_vertices_index_mapping b1 \<subseteq>\<^sub>m child_vertices_index_mapping b2"
      "dom (child_vertices_index_mapping b2) =
         insert (get_child_vertex_key (bb, c)) (dom (child_vertices_index_mapping b1))"
      "child_vertices_index_mapping b2 (get_child_vertex_key (bb, c)) = Some v23"
      "\<exists>extra. all_vertices_list b2 = all_vertices_list b1 @ extra"
    by auto
  from get_new_child_vertex_index_ok[OF s2(2), of c a] vc va s1(3) s2(3) obtain v31 b3 where
    s3: "get_new_child_vertex_index b2 (c, a) = Inr (v31, b3)" "builder_inv b3"
      "parent_vertices b3 = parent_vertices b2"
      "child_vertices_index_mapping b2 \<subseteq>\<^sub>m child_vertices_index_mapping b3"
      "dom (child_vertices_index_mapping b3) =
         insert (get_child_vertex_key (c, a)) (dom (child_vertices_index_mapping b2))"
      "child_vertices_index_mapping b3 (get_child_vertex_key (c, a)) = Some v31"
      "\<exists>extra. all_vertices_list b3 = all_vertices_list b2 @ extra"
    by auto
  have le13: "child_vertices_index_mapping b1 \<subseteq>\<^sub>m child_vertices_index_mapping b3"
    using s2(4) s3(4) by (rule map_le_trans)
  have le03: "child_vertices_index_mapping b \<subseteq>\<^sub>m child_vertices_index_mapping b3"
    using s1(4) le13 by (rule map_le_trans)
  have k12: "child_vertices_index_mapping b3 (get_child_vertex_key (a, bb)) = Some v12"
    using s1(6) le13 by (metis domI map_le_def)
  have k23: "child_vertices_index_mapping b3 (get_child_vertex_key (bb, c)) = Some v23"
    using s2(6) s3(4) by (metis domI map_le_def)
  have cf: "[(a, v12, v31), (v12, bb, v23), (v31, v23, c), (v12, v23, v31)] =
             child_faces (child_vertices_index_mapping b3) (a, bb, c)"
    by (simp add: child_faces_def k12 k23 s3(6))
  have d: "dom (child_vertices_index_mapping b3) =
             dom (child_vertices_index_mapping b) \<union> face_keys (a, bb, c)"
    using s1(5) s2(5) s3(5) by (auto simp: face_keys_def)
  have ex: "\<exists>extra. all_vertices_list b3 = all_vertices_list b @ extra"
    using s1(7) s2(7) s3(7) by auto
  have p: "parent_vertices b3 = parent_vertices b" using s1(3) s2(3) s3(3) by simp
  show ?thesis using s1(1) s2(1) s3(1) s3(2) p le03 d cf ex by blast
qed

lemma two_split_loop_ok:
  assumes "builder_inv b" "\<forall>f\<in>set fs. valid_face (length (parent_vertices b)) f"
  shows "\<exists>b'. two_split_loop b acc fs =
              Inr (b', acc @ concat (map (child_faces (child_vertices_index_mapping b')) fs)) \<and>
           builder_inv b' \<and> parent_vertices b' = parent_vertices b \<and>
           child_vertices_index_mapping b \<subseteq>\<^sub>m child_vertices_index_mapping b' \<and>
           dom (child_vertices_index_mapping b') =
             dom (child_vertices_index_mapping b) \<union> faces_keys fs"
  using assms
proof (induction fs arbitrary: b acc)
  case Nil
  then show ?case by (simp add: faces_keys_def)
next
  case (Cons f fs)
  obtain a bb c where f: "f = (a, bb, c)" by (cases f) auto
  from Cons.prems have vf: "valid_face (length (parent_vertices b)) (a, bb, c)" by (simp add: f)
  from two_split_step[OF Cons.prems(1) vf] obtain v12 v23 v31 b1 b2 b3 where
    st: "get_new_child_vertex_index b (a, bb) = Inr (v12, b1)"
        "get_new_child_vertex_index b1 (bb, c) = Inr (v23, b2)"
        "get_new_child_vertex_index b2 (c, a) = Inr (v31, b3)"
        "builder_inv b3" "parent_vertices b3 = parent_vertices b"
        "child_vertices_index_mapping b \<subseteq>\<^sub>m child_vertices_index_mapping b3"
        "dom (child_vertices_index_mapping b3) =
             dom (child_vertices_index_mapping b) \<union> face_keys (a, bb, c)"
        "[(a, v12, v31), (v12, bb, v23), (v31, v23, c), (v12, v23, v31)] =
             child_faces (child_vertices_index_mapping b3) (a, bb, c)"
    by blast
  have vfs: "\<forall>f\<in>set fs. valid_face (length (parent_vertices b3)) f"
    using Cons.prems(2) st(5) by simp
  from Cons.IH[OF st(4) vfs, of "acc @ child_faces (child_vertices_index_mapping b3) (a, bb, c)"]
  obtain b' where
    ih: "two_split_loop b3 (acc @ child_faces (child_vertices_index_mapping b3) (a, bb, c)) fs =
              Inr (b', (acc @ child_faces (child_vertices_index_mapping b3) (a, bb, c)) @
                       concat (map (child_faces (child_vertices_index_mapping b')) fs))"
        "builder_inv b'" "parent_vertices b' = parent_vertices b3"
        "child_vertices_index_mapping b3 \<subseteq>\<^sub>m child_vertices_index_mapping b'"
        "dom (child_vertices_index_mapping b') =
             dom (child_vertices_index_mapping b3) \<union> faces_keys fs"
    by blast
  have same: "child_faces (child_vertices_index_mapping b') (a, bb, c) =
              child_faces (child_vertices_index_mapping b3) (a, bb, c)"
    by (rule child_faces_map_le[OF ih(4)]) (simp add: st(7))
  have run: "two_split_loop b acc (f # fs) =
      two_split_loop b3 (acc @ child_faces (child_vertices_index_mapping b3) (a, bb, c)) fs"
    by (simp add: f st(1,2,3) st(8)[symmetric])
  have le: "child_vertices_index_mapping b \<subseteq>\<^sub>m child_vertices_index_mapping b'"
    using st(6) ih(4) by (rule map_le_trans)
  have d: "dom (child_vertices_index_mapping b') =
             dom (child_vertices_index_mapping b) \<union> faces_keys (f # fs)"
    using ih(5) st(7) by (auto simp: faces_keys_def f)
  show ?case
    using run ih(1,2,3) st(5) le d same by (simp add: f)
qed

lemma builder_inv_init: "builder_inv (ChildVerticesBuilder_init ps)"
  by (simp add: builder_inv_def ChildVerticesBuilder_init_def)

lemma two_split_ok:
  assumes "mesh_ok m"
  shows "\<exists>M extra. two_split_unit_sphere_triangle_faces m =
             Inr \<lparr>vertices = vertices m @ extra, faces = concat (map (child_faces M) (faces m))\<rparr> \<and>
           dom M = faces_keys (faces m) \<and> length extra = card (faces_keys (faces m)) \<and>
           (\<forall>k v. M k = Some v \<longrightarrow>
              int (length (vertices m)) \<le> v \<and> v < int (length (vertices m) + length extra))"
proof -
  let ?b = "ChildVerticesBuilder_init (vertices m)"
  have pv: "parent_vertices ?b = vertices m" by (simp add: ChildVerticesBuilder_init_def)
  have vf: "\<forall>f\<in>set (faces m). valid_face (length (parent_vertices ?b)) f"
    using assms by (simp add: mesh_ok_def pv)
  from two_split_loop_ok[OF builder_inv_init vf, of "[]"] obtain b' where
    r: "two_split_loop ?b [] (faces m) =
              Inr (b', [] @ concat (map (child_faces (child_vertices_index_mapping b')) (faces m)))"
       "builder_inv b'" "parent_vertices b' = parent_vertices ?b"
       "dom (child_vertices_index_mapping b') =
             dom (child_vertices_index_mapping ?b) \<union> faces_keys (faces m)"
    by blast
  let ?M = "child_vertices_index_mapping b'"
  let ?extra = "drop (length (vertices m)) (all_vertices_list b')"
  have d: "dom ?M = faces_keys (faces m)"
    using r(4) by (simp add: ChildVerticesBuilder_init_def)
  have p: "parent_vertices b' = vertices m" using r(3) pv by simp
  have len: "length (all_vertices_list b') = length (vertices m) + card (dom ?M)"
    using r(2) p by (simp add: builder_inv_def)
  have tk: "take (length (vertices m)) (all_vertices_list b') = vertices m"
    using r(2) p by (simp add: builder_inv_def)
  have all: "all_vertices_list b' = vertices m @ ?extra"
    using tk by (metis append_take_drop_id)
  have le: "length ?extra = card (faces_keys (faces m))"
    using len d by simp
  have rng: "\<forall>k v. ?M k = Some v \<longrightarrow>
              int (length (vertices m)) \<le> v \<and> v < int (length (vertices m) + length ?extra)"
    using r(2) p len by (simp add: builder_inv_def)
  have res: "two_split_unit_sphere_triangle_faces m =
             Inr \<lparr>vertices = vertices m @ ?extra, faces = concat (map (child_faces ?M) (faces m))\<rparr>"
    using r(1) all by (simp add: two_split_unit_sphere_triangle_faces_def)
  show ?thesis using res d le rng by blast
qed

lemma length_child_faces: "length (child_faces M f) = 4"
  by (cases f) (simp add: child_faces_def Let_def)

lemma length_concat_child_faces: "length (concat (map (child_faces M) fs)) = 4 * length fs"
  by (induction fs) (simp_all add: length_child_faces)

lemma valid_index_mono: "valid_index n i \<Longrightarrow> n \<le> n' \<Longrightarrow> valid_index n' i"
  by (simp add: valid_index_def)

lemma child_faces_valid:
  assumes "valid_face n f" "face_keys f \<subseteq> dom M"
    and "\<forall>k v. M k = Some v \<longrightarrow> int n \<le> v \<and> v < int (n + e)"
    and "g \<in> set (child_faces M f)"
  shows "valid_face (n + e) g"
proof -
  obtain a b c where f: "f = (a, b, c)" by (cases f) auto
  have va: "valid_index (n + e) a" and vb: "valid_index (n + e) b" and vc: "valid_index (n + e) c"
    using assms(1) by (auto simp: f valid_face_def valid_index_def)
  have mk: "\<And>k. k \<in> face_keys f \<Longrightarrow> valid_index (n + e) (the (M k))"
  proof -
    fix k assume "k \<in> face_keys f"
    then obtain v where v: "M k = Some v" using assms(2) by blast
    from assms(3) v have "int n \<le> v \<and> v < int (n + e)" by blast
    then show "valid_index (n + e) (the (M k))"
      using v by (simp add: valid_index_def)
  qed
  have k1: "valid_index (n + e) (the (M (get_child_vertex_key (a, b))))"
    by (rule mk) (simp add: f face_keys_def)
  have k2: "valid_index (n + e) (the (M (get_child_vertex_key (b, c))))"
    by (rule mk) (simp add: f face_keys_def)
  have k3: "valid_index (n + e) (the (M (get_child_vertex_key (c, a))))"
    by (rule mk) (simp add: f face_keys_def)
  show ?thesis
    using assms(4) va vb vc k1 k2 k3
    by (auto simp: f child_faces_def Let_def valid_face_def)
qed

lemma two_split_mesh_ok:
  assumes "mesh_ok m" "two_split_unit_sphere_triangle_faces m = Inr m'"
  shows "mesh_ok m'"
proof -
  from two_split_ok[OF assms(1)] assms(2) obtain M extra where
    r: "m' = \<lparr>vertices = vertices m @ extra, faces = concat (map (child_faces M) (faces m))\<rparr>"
       "dom M = faces_keys (faces m)"
       "\<forall>k v. M k = Some v \<longrightarrow>
              int (length (vertices m)) \<le> v \<and> v < int (length (vertices m) + length extra)"
    by auto
  show ?thesis
    unfolding mesh_ok_def
  proof
    fix g assume "g \<in> set (faces m')"
    then obtain f where f: "f \<in> set (faces m)" "g \<in> set (child_faces M f)"
      by (auto simp: r(1))
    have vf: "valid_face (length (vertices m)) f" using assms(1) f(1) by (simp add: mesh_ok_def)
    have sub: "face_keys f \<subseteq> dom M" using f(1) r(2) by (auto simp: faces_keys_def)
    from child_faces_valid[OF vf sub r(3) f(2)]
    show "valid_face (length (vertices m')) g" by (simp add: r(1))
  qed
qed

lemma mesh_ok_icosahedron: "mesh_ok get_icosahedron"
  by (simp add: mesh_ok_def get_icosahedron_def icosahedron_faces_def valid_face_def valid_index_def Let_def)

lemma key_to_set: "(\<lambda>(i, j). {i, j}) (get_child_vertex_key (a, b)) = {a, b}"
  by (auto simp: get_child_vertex_key_def)

lemma key_sorted: "get_child_vertex_key p = (i, j) \<Longrightarrow> i \<le> j"
  by (cases p) (auto simp: get_child_vertex_key_def split: if_splits)

lemma faces_keys_sorted: "(i, j) \<in> faces_keys fs \<Longrightarrow> i \<le> j"
  by (auto simp: faces_keys_def face_keys_def dest: key_sorted[OF sym])

lemma face_keys_image:
  "(\<lambda>(i, j). {i, j}) ` face_keys f = (case f of (a, b, c) \<Rightarrow> {{a, b}, {b, c}, {c, a}})"
  by (cases f) (simp add: face_keys_def key_to_set del: insert_iff)

lemma unordered_edges_image: "unordered_edges fs = (\<lambda>(i, j). {i, j}) ` faces_keys fs"
  by (simp add: unordered_edges_def faces_keys_def image_UN face_keys_image)

lemma inj_on_faces_keys: "inj_on (\<lambda>(i, j). {i, j}) (faces_keys fs)"
proof (rule inj_onI)
  fix x y :: "int \<times> int"
  assume x: "x \<in> faces_keys fs" and y: "y \<in> faces_keys fs"
    and e: "(case x of (i, j) \<Rightarrow> {i, j}) = (case y of (i, j) \<Rightarrow> {i, j})"
  obtain a b where xe: "x = (a, b)" by (cases x) auto
  obtain c d where ye: "y = (c, d)" by (cases y) auto
  have ab: "a \<le> b" using x xe faces_keys_sorted by blast
  have cd: "c \<le> d" using y ye faces_keys_sorted by blast
  from e have "{a, b} = {c, d}" by (simp add: xe ye)
  then show "x = y" using ab cd by (auto simp: xe ye doubleton_eq_iff)
qed

lemma card_faces_keys: "card (faces_keys fs) = card (unordered_edges fs)"
  by (simp add: unordered_edges_image card_image[OF inj_on_faces_keys])

lemma hierarchy_loop_chain:
  assumes "out \<noteq> []" "last out = cur" "split_chain out" "\<forall>m\<in>set out. mesh_ok m"
  shows "\<exists>ms. hierarchy_loop n cur out = Inr ms \<and> length ms = length out + n \<and>
           take (length out) ms = out \<and> split_chain ms \<and> (\<forall>m\<in>set ms. mesh_ok m)"
  using assms
proof (induction n arbitrary: cur out)
  case 0
  then show ?case by simp
next
  case (Suc n)
  have okc: "mesh_ok cur" using Suc.prems(1,2,4) last_in_set by blast
  from two_split_ok[OF okc] obtain m where m: "two_split_unit_sphere_triangle_faces cur = Inr m"
    by blast
  have okm: "mesh_ok m" by (rule two_split_mesh_ok[OF okc m])
  let ?out = "out @ [m]"
  have c: "split_chain ?out"
    unfolding split_chain_def
  proof (intro allI impI)
    fix k assume k: "Suc k < length ?out"
    show "two_split_unit_sphere_triangle_faces (?out ! k) = Inr (?out ! Suc k)"
    proof (cases "Suc k < length out")
      case True
      then show ?thesis using Suc.prems(3) by (simp add: split_chain_def nth_append)
    next
      case False
      then have e: "Suc k = length out" using k by simp
      then have kk: "k = length out - 1" by simp
      have "?out ! k = last out" using Suc.prems(1) e by (simp add: nth_append last_conv_nth kk)
      moreover have "?out ! Suc k = m" using e by simp
      ultimately show ?thesis using m Suc.prems(2) by simp
    qed
  qed
  have a: "\<forall>x\<in>set ?out. mesh_ok x" using Suc.prems(4) okm by simp
  from Suc.IH[of ?out m, OF _ _ c a] obtain ms where
    r: "hierarchy_loop n m ?out = Inr ms" "length ms = length ?out + n"
       "take (length ?out) ms = ?out" "split_chain ms" "\<forall>m\<in>set ms. mesh_ok m"
    by auto
  have t: "take (length out) ms = out"
  proof -
    have "take (length out) (take (length ?out) ms) = take (length out) ?out"
      by (simp only: r(3))
    then show ?thesis by simp
  qed
  show ?case using r t m by simp
qed

lemma hierarchy_chain:
  "\<exists>ms. get_hierarchy_of_triangular_meshes_for_sphere d = Inr ms \<and> length ms = Suc (nat d) \<and>
        ms ! 0 = get_icosahedron \<and> split_chain ms \<and> (\<forall>m\<in>set ms. mesh_ok m)"
proof -
  have c: "split_chain [get_icosahedron]" by (simp add: split_chain_def)
  from hierarchy_loop_chain[of "[get_icosahedron]" get_icosahedron "nat d", OF _ _ c]
  obtain ms where
    r: "hierarchy_loop (nat d) get_icosahedron [get_icosahedron] = Inr ms"
       "length ms = length [get_icosahedron] + nat d"
       "take (length [get_icosahedron]) ms = [get_icosahedron]" "split_chain ms"
       "\<forall>m\<in>set ms. mesh_ok m"
    using mesh_ok_icosahedron by auto
  have "ms ! 0 = get_icosahedron" using r(2,3) by (cases ms) auto
  then show ?thesis using r
    by (auto simp: get_hierarchy_of_triangular_meshes_for_sphere_def)
qed

lemma split_chain_faces:
  assumes "split_chain ms" "\<forall>m\<in>set ms. mesh_ok m" "k < length ms"
  shows "length (faces (ms ! k)) = length (faces (ms ! 0)) * 4 ^ k"
  using assms(3)
proof (induction k)
  case 0
  then show ?case by simp
next
  case (Suc k)
  then have kl: "k < length ms" by simp
  have ok: "mesh_ok (ms ! k)" using assms(2) kl by simp
  have st: "two_split_unit_sphere_triangle_faces (ms ! k) = Inr (ms ! Suc k)"
    using assms(1) Suc.prems by (simp add: split_chain_def)
  from two_split_ok[OF ok] st obtain M where
    "faces (ms ! Suc k) = concat (map (child_faces M) (faces (ms ! k)))" by auto
  then show ?case using Suc.IH[OF kl] by (simp add: length_concat_child_faces)
qed

lemma split_chain_vertices:
  assumes "split_chain ms" "\<forall>m\<in>set ms. mesh_ok m" "Suc k < length ms"
  shows "\<exists>new. vertices (ms ! Suc k) = vertices (ms ! k) @ new \<and>
           length new = card (unordered_edges (faces (ms ! k)))"
proof -
  have ok: "mesh_ok (ms ! k)" using assms(2,3) by simp
  have st: "two_split_unit_sphere_triangle_faces (ms ! k) = Inr (ms ! Suc k)"
    using assms(1,3) by (simp add: split_chain_def)
  from two_split_ok[OF ok] st obtain extra where
    "vertices (ms ! Suc k) = vertices (ms ! k) @ extra"
    "length extra = card (faces_keys (faces (ms ! k)))" by auto
  then show ?thesis by (auto simp: card_faces_keys)
qed

lemma length_icosahedron_vertices: "length (vertices get_icosahedron) = 12"
  by (simp add: get_icosahedron_def Let_def)

lemma length_icosahedron_faces: "length (faces get_icosahedron) = 20"
  by (simp add: get_icosahedron_def Let_def icosahedron_faces_def)

text \<open>
  Claim C1. For every subdivision depth \<open>d \<ge> 0\<close> the hierarchy builder returns, without
  raising, \<open>d + 1\<close> meshes; the base level has 12 vertices; level \<open>k\<close> has
  \<open>20 * 4 ^ k\<close> faces; and the vertex list of every next level is the vertex list of the
  previous level, unchanged, followed by exactly one new vertex for each unordered edge
  \<open>{a, b}\<close> of the previous level's faces.
\<close>

theorem hierarchy_counts:
  assumes "0 \<le> d"
  shows "\<exists>ms. get_hierarchy_of_triangular_meshes_for_sphere d = Inr ms \<and>
     int (length ms) = d + 1 \<and>
     length (vertices (ms ! 0)) = 12 \<and>
     (\<forall>k<length ms. length (faces (ms ! k)) = 20 * 4 ^ k) \<and>
     (\<forall>k. Suc k < length ms \<longrightarrow>
        (\<exists>new. vertices (ms ! Suc k) = vertices (ms ! k) @ new \<and>
               length new = card (unordered_edges (faces (ms ! k)))))"
proof -
  from hierarchy_chain[of d] obtain ms where
    r: "get_hierarchy_of_triangular_meshes_for_sphere d = Inr ms" "length ms = Suc (nat d)"
       "ms ! 0 = get_icosahedron" "split_chain ms" "\<forall>m\<in>set ms. mesh_ok m"
    by blast
  have l: "int (length ms) = d + 1" using r(2) assms by simp
  have v: "length (vertices (ms ! 0)) = 12" by (simp add: r(3) length_icosahedron_vertices)
  have f: "\<forall>k<length ms. length (faces (ms ! k)) = 20 * 4 ^ k"
    using split_chain_faces[OF r(4,5)] by (simp add: r(3) length_icosahedron_faces)
  have s: "\<forall>k. Suc k < length ms \<longrightarrow>
        (\<exists>new. vertices (ms ! Suc k) = vertices (ms ! k) @ new \<and>
               length new = card (unordered_edges (faces (ms ! k))))"
    using split_chain_vertices[OF r(4,5)] by blast
  show ?thesis using r(1) l v f s by blast
qed

text \<open>
  The statement of C1 at depth 1: two meshes, 12 vertices, 20 and 80 faces.
\<close>

theorem hierarchy_counts_witness:
  "\<exists>ms. get_hierarchy_of_triangular_meshes_for_sphere 1 = Inr ms \<and>
     length ms = 2 \<and> length (vertices (ms ! 0)) = 12 \<and>
     length (faces (ms ! 0)) = 20 \<and> length (faces (ms ! 1)) = 80 \<and>
     (\<exists>new. vertices (ms ! 1) = vertices (ms ! 0) @ new \<and>
               length new = card (unordered_edges (faces (ms ! 0))))"
proof -
  have h: "(0::int) \<le> 1" by simp
  from hierarchy_counts[OF h] obtain ms where
    r: "get_hierarchy_of_triangular_meshes_for_sphere 1 = Inr ms"
     "int (length ms) = 1 + 1"
     "length (vertices (ms ! 0)) = 12"
     "\<forall>k<length ms. length (faces (ms ! k)) = 20 * 4 ^ k"
     "\<forall>k. Suc k < length ms \<longrightarrow>
        (\<exists>new. vertices (ms ! Suc k) = vertices (ms ! k) @ new \<and>
               length new = card (unordered_edges (faces (ms ! k))))"
    by blast
  have l: "length ms = 2" using r(2) by simp
  have f0: "length (faces (ms ! 0)) = 20" using r(4)[rule_format, of 0] l by simp
  have f1: "length (faces (ms ! 1)) = 80" using r(4)[rule_format, of 1] l by simp
  have s: "\<exists>new. vertices (ms ! 1) = vertices (ms ! 0) @ new \<and>
               length new = card (unordered_edges (faces (ms ! 0)))"
    using r(5)[rule_format, of 0] l by simp
  show ?thesis using r(1) l r(3) f0 f1 s by blast
qed

lemma key_sym: "get_child_vertex_key (x, y) = get_child_vertex_key (y, x)"
  by (simp add: get_child_vertex_key_def)

lemma mid_sym: "mid M x y = mid M y x"
  by (simp add: mid_def key_sym[of x y])

lemma child_faces_mid:
  "child_faces M (a, b, c) =
     [(a, mid M a b, mid M c a), (mid M a b, b, mid M b c),
      (mid M c a, mid M b c, c), (mid M a b, mid M b c, mid M c a)]"
  by (simp add: child_faces_def mid_def Let_def)

lemma directed_edges_child_faces:
  "directed_edges (child_faces M (a, b, c)) =
     {(a, mid M a b), (mid M a b, mid M c a), (mid M c a, a),
      (mid M a b, b), (b, mid M b c), (mid M b c, mid M a b),
      (mid M c a, mid M b c), (mid M b c, c), (c, mid M c a),
      (mid M a b, mid M b c), (mid M b c, mid M c a), (mid M c a, mid M a b)}"
  by (auto simp: child_faces_mid directed_edges_def face_edges_def)

lemma child_edge_of_parent:
  assumes "(x, y) \<in> set (face_edges f)"
  shows "(x, mid M x y) \<in> directed_edges (child_faces M f) \<and>
         (mid M x y, y) \<in> directed_edges (child_faces M f)"
proof -
  obtain a b c where f: "f = (a, b, c)" by (cases f) auto
  from assms have "(x, y) = (a, b) \<or> (x, y) = (b, c) \<or> (x, y) = (c, a)"
    by (simp add: f face_edges_def)
  then show ?thesis
    unfolding f directed_edges_child_faces by auto
qed

lemma child_edge_cases:
  assumes "e \<in> directed_edges (child_faces M f)"
  shows "(\<exists>x y. (x, y) \<in> set (face_edges f) \<and> (e = (x, mid M x y) \<or> e = (mid M x y, y))) \<or>
         prod.swap e \<in> directed_edges (child_faces M f)"
proof -
  obtain a b c where f: "f = (a, b, c)" by (cases f) auto
  have ab: "(a, b) \<in> set (face_edges f)" and bc: "(b, c) \<in> set (face_edges f)"
    and ca: "(c, a) \<in> set (face_edges f)" by (simp_all add: f face_edges_def)
  from assms consider
      "e = (a, mid M a b)" | "e = (mid M a b, mid M c a)" | "e = (mid M c a, a)"
    | "e = (mid M a b, b)" | "e = (b, mid M b c)" | "e = (mid M b c, mid M a b)"
    | "e = (mid M c a, mid M b c)" | "e = (mid M b c, c)" | "e = (c, mid M c a)"
    | "e = (mid M a b, mid M b c)" | "e = (mid M b c, mid M c a)" | "e = (mid M c a, mid M a b)"
    unfolding f directed_edges_child_faces by blast
  then show ?thesis
  proof cases
    case 1 then show ?thesis using ab by blast
  next
    case 2 then show ?thesis unfolding f directed_edges_child_faces by simp
  next
    case 3 then show ?thesis using ca by blast
  next
    case 4 then show ?thesis using ab by blast
  next
    case 5 then show ?thesis using bc by blast
  next
    case 6 then show ?thesis unfolding f directed_edges_child_faces by simp
  next
    case 7 then show ?thesis unfolding f directed_edges_child_faces by simp
  next
    case 8 then show ?thesis using bc by blast
  next
    case 9 then show ?thesis using ca by blast
  next
    case 10 then show ?thesis unfolding f directed_edges_child_faces by simp
  next
    case 11 then show ?thesis unfolding f directed_edges_child_faces by simp
  next
    case 12 then show ?thesis unfolding f directed_edges_child_faces by simp
  qed
qed

lemma directed_edges_concat:
  "directed_edges (concat (map g fs)) = (\<Union>f\<in>set fs. directed_edges (g f))"
  by (auto simp: directed_edges_def)

lemma reversal_closed_split:
  assumes "reversal_closed (directed_edges fs)"
  shows "reversal_closed (directed_edges (concat (map (child_faces M) fs)))"
  unfolding reversal_closed_def
proof
  fix e assume "e \<in> directed_edges (concat (map (child_faces M) fs))"
  then obtain f where f: "f \<in> set fs" "e \<in> directed_edges (child_faces M f)"
    by (auto simp: directed_edges_concat)
  have up: "\<And>g e'. g \<in> set fs \<Longrightarrow> e' \<in> directed_edges (child_faces M g) \<Longrightarrow>
      e' \<in> directed_edges (concat (map (child_faces M) fs))"
    by (auto simp: directed_edges_concat)
  from child_edge_cases[OF f(2)] show "prod.swap e \<in> directed_edges (concat (map (child_faces M) fs))"
  proof
    assume "\<exists>x y. (x, y) \<in> set (face_edges f) \<and> (e = (x, mid M x y) \<or> e = (mid M x y, y))"
    then obtain x y where xy: "(x, y) \<in> set (face_edges f)"
      and e: "e = (x, mid M x y) \<or> e = (mid M x y, y)" by blast
    have "(x, y) \<in> directed_edges fs" using f(1) xy by (auto simp: directed_edges_def)
    then have "(y, x) \<in> directed_edges fs" using assms by (auto simp: reversal_closed_def)
    then obtain g where g: "g \<in> set fs" "(y, x) \<in> set (face_edges g)"
      by (auto simp: directed_edges_def)
    from child_edge_of_parent[OF g(2), of M]
    have "(y, mid M x y) \<in> directed_edges (child_faces M g)"
         "(mid M x y, x) \<in> directed_edges (child_faces M g)"
      by (simp_all add: mid_sym[of M y x])
    then show ?thesis using e up[OF g(1)] by auto
  next
    assume "prod.swap e \<in> directed_edges (child_faces M f)"
    then show ?thesis using up[OF f(1)] by blast
  qed
qed

lemma directed_edges_set: "directed_edges fs = set (concat (map face_edges fs))"
  by (simp add: directed_edges_def)

lemma reversal_closed_icosahedron: "reversal_closed (directed_edges icosahedron_faces)"
  unfolding reversal_closed_def directed_edges_set
  by (simp add: icosahedron_faces_def face_edges_def)

lemma all_less_Suc_shift: "(\<forall>k<Suc n. P k) \<longleftrightarrow> P 0 \<and> (\<forall>k<n. P (Suc k))"
  by (auto simp: less_Suc_eq_0_disj)

lemma merge_meshes_check_iff:
  "merge_meshes_check ms = Inr () \<longleftrightarrow>
     (\<forall>k. Suc k < length ms \<longrightarrow> nesting_check (ms ! k) (ms ! Suc k) = Inr True)"
proof (induction ms rule: merge_meshes_check.induct)
  case (1 mesh_i mesh_ip1 rest)
  show ?case
  proof (cases "nesting_check mesh_i mesh_ip1 = Inr True")
    case True
    then have "merge_meshes_check (mesh_i # mesh_ip1 # rest) = merge_meshes_check (mesh_ip1 # rest)"
      by (simp add: nesting_check_def)
    also have "\<dots> = Inr () \<longleftrightarrow>
        (\<forall>k. Suc k < length (mesh_ip1 # rest) \<longrightarrow>
           nesting_check ((mesh_ip1 # rest) ! k) ((mesh_ip1 # rest) ! Suc k) = Inr True)"
      using 1 True by (simp add: nesting_check_def)
    finally show ?thesis
      using True by (simp add: all_less_Suc_shift)
  next
    case False
    then have l: "merge_meshes_check (mesh_i # mesh_ip1 # rest) \<noteq> Inr ()"
      by (auto simp: nesting_check_def Let_def split: sum.splits)
    have r: "\<not> (\<forall>k. Suc k < length (mesh_i # mesh_ip1 # rest) \<longrightarrow>
         nesting_check ((mesh_i # mesh_ip1 # rest) ! k) ((mesh_i # mesh_ip1 # rest) ! Suc k) = Inr True)"
      using False by (auto intro: exI[of _ 0])
    show ?thesis using l r by blast
  qed
qed simp_all

lemma merge_meshes_check_cases: "merge_meshes_check ms = Inr () \<or> (\<exists>e. merge_meshes_check ms = Inl e)"
  by (cases "merge_meshes_check ms") auto

lemma np_isclose_refl: "np_isclose a a"
  by (simp add: np_isclose_def)

lemma vec_isclose_refl: "vec_isclose v v"
  by (cases v) (simp add: vec_isclose_def np_isclose_refl)

lemma np_allclose_refl: "np_allclose xs xs = Inr True"
  by (simp add: np_allclose_def list_all2_same vec_isclose_refl)

lemma nesting_check_append: "nesting_check \<lparr>vertices = vs, faces = fs\<rparr> \<lparr>vertices = vs @ new, faces = fs'\<rparr> = Inr True"
  by (simp add: nesting_check_def np_allclose_refl)

lemma split_chain_prefix_step:
  assumes "split_chain ms" "\<forall>m\<in>set ms. mesh_ok m" "Suc k < length ms"
  shows "\<exists>new. vertices (ms ! Suc k) = vertices (ms ! k) @ new"
  using split_chain_vertices[OF assms] by blast

lemma split_chain_prefix:
  assumes "split_chain ms" "\<forall>m\<in>set ms. mesh_ok m" "i + n < length ms"
  shows "\<exists>new. vertices (ms ! (i + n)) = vertices (ms ! i) @ new"
  using assms(3)
proof (induction n)
  case 0
  then show ?case by simp
next
  case (Suc n)
  then have "i + n < length ms" by simp
  from Suc.IH[OF this] obtain new where a: "vertices (ms ! (i + n)) = vertices (ms ! i) @ new" by blast
  from split_chain_prefix_step[OF assms(1,2), of "i + n"] Suc.prems
  obtain new' where b: "vertices (ms ! Suc (i + n)) = vertices (ms ! (i + n)) @ new'" by auto
  show ?case using a b by simp
qed

lemma split_chain_merge_check:
  assumes "split_chain ms" "\<forall>m\<in>set ms. mesh_ok m"
  shows "merge_meshes_check ms = Inr ()"
  unfolding merge_meshes_check_iff
proof (intro allI impI)
  fix k assume k: "Suc k < length ms"
  from split_chain_prefix_step[OF assms k] obtain new where
    "vertices (ms ! Suc k) = vertices (ms ! k) @ new" by blast
  then show "nesting_check (ms ! k) (ms ! Suc k) = Inr True"
    by (simp add: nesting_check_def np_allclose_refl)
qed

lemma split_chain_reversal_closed:
  assumes "split_chain ms" "\<forall>m\<in>set ms. mesh_ok m" "ms ! 0 = get_icosahedron" "k < length ms"
  shows "reversal_closed (directed_edges (faces (ms ! k)))"
  using assms(4)
proof (induction k)
  case 0
  then show ?case
    using reversal_closed_icosahedron by (simp add: assms(3) get_icosahedron_def Let_def)
next
  case (Suc k)
  then have kl: "k < length ms" by simp
  have ok: "mesh_ok (ms ! k)" using assms(2) kl by simp
  have st: "two_split_unit_sphere_triangle_faces (ms ! k) = Inr (ms ! Suc k)"
    using assms(1) Suc.prems by (simp add: split_chain_def)
  from two_split_ok[OF ok] st obtain M where
    "faces (ms ! Suc k) = concat (map (child_faces M) (faces (ms ! k)))" by auto
  then show ?case using reversal_closed_split[OF Suc.IH[OF kl]] by simp
qed

lemma zip_faces_to_edges:
  "zip (fst (faces_to_edges fs)) (snd (faces_to_edges fs)) =
     map (\<lambda>(i, j, k). (i, j)) fs @ map (\<lambda>(i, j, k). (j, k)) fs @ map (\<lambda>(i, j, k). (k, i)) fs"
  by (simp add: faces_to_edges_def zip_map_map zip_same_conv_map split_def comp_def)

lemma set_zip_faces_to_edges:
  "set (zip (fst (faces_to_edges fs)) (snd (faces_to_edges fs))) = directed_edges fs"
  unfolding zip_faces_to_edges
  by (induction fs) (auto simp: directed_edges_def face_edges_def)

lemma directed_edges_concat_faces:
  "directed_edges (concat (map faces ms)) = (\<Union>m\<in>set ms. directed_edges (faces m))"
  by (auto simp: directed_edges_def)

lemma reversal_closed_Union:
  assumes "\<forall>m\<in>set ms. reversal_closed (directed_edges (faces m))"
  shows "reversal_closed (directed_edges (concat (map faces ms)))"
  using assms unfolding directed_edges_concat_faces reversal_closed_def by blast

lemma hierarchy_merged:
  "\<exists>ms. get_hierarchy_of_triangular_meshes_for_sphere d = Inr ms \<and>
        merge_meshes ms = Inr \<lparr>vertices = vertices (last ms), faces = concat (map faces ms)\<rparr> \<and>
        reversal_closed (directed_edges (concat (map faces ms)))"
proof -
  from hierarchy_chain[of d] obtain ms where
    r: "get_hierarchy_of_triangular_meshes_for_sphere d = Inr ms" "length ms = Suc (nat d)"
       "ms ! 0 = get_icosahedron" "split_chain ms" "\<forall>m\<in>set ms. mesh_ok m"
    by blast
  have ne: "ms \<noteq> []" using r(2) by auto
  have mc: "merge_meshes_check ms = Inr ()" by (rule split_chain_merge_check[OF r(4,5)])
  have mm: "merge_meshes ms = Inr \<lparr>vertices = vertices (last ms), faces = concat (map faces ms)\<rparr>"
    using ne mc by (simp add: merge_meshes_def)
  have "\<forall>m\<in>set ms. reversal_closed (directed_edges (faces m))"
    using split_chain_reversal_closed[OF r(4,5,3)] by (auto simp: in_set_conv_nth)
  then have "reversal_closed (directed_edges (concat (map faces ms)))"
    by (rule reversal_closed_Union)
  then show ?thesis using r(1) mm by blast
qed

text \<open>
  Claim C2. In every hierarchy the builder returns, for all levels \<open>i < j\<close> the vertex list
  of level \<open>i\<close> is equal, element by element, to the first \<open>len(vertices[i])\<close>
  rows of the vertex list of level \<open>j\<close>.
\<close>

theorem hierarchy_vertices_nested:
  "\<exists>ms. get_hierarchy_of_triangular_meshes_for_sphere d = Inr ms \<and> length ms = Suc (nat d) \<and>
     (\<forall>i j. i < j \<and> j < length ms \<longrightarrow>
        take (length (vertices (ms ! i))) (vertices (ms ! j)) = vertices (ms ! i))"
proof -
  from hierarchy_chain[of d] obtain ms where
    r: "get_hierarchy_of_triangular_meshes_for_sphere d = Inr ms" "length ms = Suc (nat d)"
       "split_chain ms" "\<forall>m\<in>set ms. mesh_ok m"
    by blast
  have "\<forall>i j. i < j \<and> j < length ms \<longrightarrow>
        take (length (vertices (ms ! i))) (vertices (ms ! j)) = vertices (ms ! i)"
  proof (intro allI impI)
    fix i j assume ij: "i < j \<and> j < length ms"
    then obtain n where n: "j = i + n" using less_imp_add_positive by blast
    from split_chain_prefix[OF r(3,4), of i n] ij n
    obtain new where "vertices (ms ! j) = vertices (ms ! i) @ new" by auto
    then show "take (length (vertices (ms ! i))) (vertices (ms ! j)) = vertices (ms ! i)" by simp
  qed
  then show ?thesis using r(1,2) by blast
qed

text \<open>
  The statement of C2 at depth 2, for the pairs of levels (0, 2) and (1, 2).
\<close>

theorem hierarchy_vertices_nested_witness:
  "\<exists>ms. get_hierarchy_of_triangular_meshes_for_sphere 2 = Inr ms \<and> length ms = 3 \<and>
     take (length (vertices (ms ! 0))) (vertices (ms ! 2)) = vertices (ms ! 0) \<and>
     take (length (vertices (ms ! 1))) (vertices (ms ! 2)) = vertices (ms ! 1)"
proof -
  from hierarchy_vertices_nested[of 2] obtain ms where
    r: "get_hierarchy_of_triangular_meshes_for_sphere 2 = Inr ms" "length ms = Suc (nat 2)"
       "\<forall>i j. i < j \<and> j < length ms \<longrightarrow>
          take (length (vertices (ms ! i))) (vertices (ms ! j)) = vertices (ms ! i)"
    by blast
  have l: "length ms = 3" using r(2) by simp
  have a: "take (length (vertices (ms ! 0))) (vertices (ms ! 2)) = vertices (ms ! 0)"
    using r(3)[rule_format, of 0 2] l by simp
  have b: "take (length (vertices (ms ! 1))) (vertices (ms ! 2)) = vertices (ms ! 1)"
    using r(3)[rule_format, of 1 2] l by simp
  show ?thesis using r(1) l a b by blast
qed

text \<open>
  Claim C4. \<open>faces_to_edges\<close> returns three edges for each face \<open>(i, j, k)\<close>: the
  sender/receiver pairs are all \<open>i \<rightarrow> j\<close>, then all \<open>j \<rightarrow> k\<close>, then all
  \<open>k \<rightarrow> i\<close>. For the merged mesh of the hierarchy of any depth (the merge succeeds),
  the edges are closed under reversal: with every edge \<open>(s, r)\<close> the edge \<open>(r, s)\<close>
  appears.
\<close>

theorem faces_to_edges_bidirectional:
  "(\<exists>senders receivers. faces_to_edges fs = (senders, receivers) \<and>
      length senders = 3 * length fs \<and> length receivers = 3 * length fs \<and>
      zip senders receivers =
        map (\<lambda>(i, j, k). (i, j)) fs @ map (\<lambda>(i, j, k). (j, k)) fs @ map (\<lambda>(i, j, k). (k, i)) fs) \<and>
   (\<exists>ms merged senders receivers.
      get_hierarchy_of_triangular_meshes_for_sphere d = Inr ms \<and>
      merge_meshes ms = Inr merged \<and>
      faces_to_edges (faces merged) = (senders, receivers) \<and>
      (\<forall>s r. (s, r) \<in> set (zip senders receivers) \<longrightarrow> (r, s) \<in> set (zip senders receivers)))"
proof
  have "faces_to_edges fs = (fst (faces_to_edges fs), snd (faces_to_edges fs))" by simp
  moreover have "length (fst (faces_to_edges fs)) = 3 * length fs"
    by (simp add: faces_to_edges_def)
  moreover have "length (snd (faces_to_edges fs)) = 3 * length fs"
    by (simp add: faces_to_edges_def)
  ultimately show "\<exists>senders receivers. faces_to_edges fs = (senders, receivers) \<and>
      length senders = 3 * length fs \<and> length receivers = 3 * length fs \<and>
      zip senders receivers =
        map (\<lambda>(i, j, k). (i, j)) fs @ map (\<lambda>(i, j, k). (j, k)) fs @ map (\<lambda>(i, j, k). (k, i)) fs"
    using zip_faces_to_edges[of fs] by blast
next
  from hierarchy_merged[of d] obtain ms where
    r: "get_hierarchy_of_triangular_meshes_for_sphere d = Inr ms"
       "merge_meshes ms = Inr \<lparr>vertices = vertices (last ms), faces = concat (map faces ms)\<rparr>"
       "reversal_closed (directed_edges (concat (map faces ms)))"
    by blast
  let ?merged = "\<lparr>vertices = vertices (last ms), faces = concat (map faces ms)\<rparr>"
  let ?s = "fst (faces_to_edges (faces ?merged))"
  let ?r = "snd (faces_to_edges (faces ?merged))"
  have e: "faces_to_edges (faces ?merged) = (?s, ?r)" by simp
  have c: "\<forall>s r. (s, r) \<in> set (zip ?s ?r) \<longrightarrow> (r, s) \<in> set (zip ?s ?r)"
    using r(3) unfolding set_zip_faces_to_edges reversal_closed_def by auto
  show "\<exists>ms merged senders receivers.
      get_hierarchy_of_triangular_meshes_for_sphere d = Inr ms \<and>
      merge_meshes ms = Inr merged \<and>
      faces_to_edges (faces merged) = (senders, receivers) \<and>
      (\<forall>s r. (s, r) \<in> set (zip senders receivers) \<longrightarrow> (r, s) \<in> set (zip senders receivers))"
    using r(1,2) e c by blast
qed

lemma hierarchy_zero:
  "get_hierarchy_of_triangular_meshes_for_sphere 0 = Inr [get_icosahedron]"
  by (simp add: get_hierarchy_of_triangular_meshes_for_sphere_def)

text \<open>
  The statement of C4 on the face \<open>(0, 1, 2)\<close> and on the merged mesh of depth 0, where
  the edge \<open>0 \<rightarrow> 1\<close> and its reverse both appear.
\<close>

theorem faces_to_edges_bidirectional_witness:
  "faces_to_edges [(0, 1, 2)] = ([0, 1, 2], [1, 2, 0]) \<and>
   (\<exists>merged. merge_meshes [get_icosahedron] = Inr merged \<and>
      (0, 1) \<in> set (zip (fst (faces_to_edges (faces merged))) (snd (faces_to_edges (faces merged)))) \<and>
      (1, 0) \<in> set (zip (fst (faces_to_edges (faces merged))) (snd (faces_to_edges (faces merged)))))"
proof -
  from faces_to_edges_bidirectional[of "[(0, 1, 2)]" 0] obtain ms merged senders receivers where
    r: "get_hierarchy_of_triangular_meshes_for_sphere 0 = Inr ms"
       "merge_meshes ms = Inr merged"
       "faces_to_edges (faces merged) = (senders, receivers)"
       "\<forall>s r. (s, r) \<in> set (zip senders receivers) \<longrightarrow> (r, s) \<in> set (zip senders receivers)"
    by blast
  have ms: "ms = [get_icosahedron]" using r(1) by (simp add: hierarchy_zero)
  have "merge_meshes [get_icosahedron] =
      Inr \<lparr>vertices = vertices get_icosahedron, faces = icosahedron_faces\<rparr>"
    by (simp add: merge_meshes_def get_icosahedron_def Let_def)
  then have "merged = \<lparr>vertices = vertices get_icosahedron, faces = icosahedron_faces\<rparr>"
    using r(2) ms by simp
  then have f: "faces merged = icosahedron_faces" by simp
  have a: "(0, 1) \<in> set (zip (fst (faces_to_edges (faces merged))) (snd (faces_to_edges (faces merged))))"
    unfolding f set_zip_faces_to_edges
    by (simp add: directed_edges_def icosahedron_faces_def face_edges_def)
  have b: "(1, 0) \<in> set (zip (fst (faces_to_edges (faces merged))) (snd (faces_to_edges (faces merged))))"
    using r(4) a by (simp add: r(3))
  have c: "faces_to_edges [(0, 1, 2)] = ([0, 1, 2], [1, 2, 0])"
    by (simp add: faces_to_edges_def)
  show ?thesis using c r(2) ms a b by blast
qed

text \<open>
  Claim C3, as amended. The check of \<open>merge_meshes\<close> is \<open>np.allclose\<close>, not equality:
  \<open>merge_meshes\<close> raises whenever, for some consecutive pair of levels,
  \<open>np.allclose\<close> of the coarser vertex array and the corresponding prefix of the next finer
  one is not true (it is false, or the shapes do not broadcast). When the check is true for
  every consecutive pair of a non-empty list, the result is the mesh with the vertex array
  of the last (finest) level and the concatenation of the face lists of all levels, coarsest
  first.
\<close>

theorem merge_meshes_allclose:
  "((\<exists>k. Suc k < length ms \<and>
        np_allclose (vertices (ms ! k)) (take (length (vertices (ms ! k))) (vertices (ms ! Suc k)))
          \<noteq> Inr True)
      \<longrightarrow> (\<exists>e. merge_meshes ms = Inl e)) \<and>
   (ms \<noteq> [] \<and>
    (\<forall>k. Suc k < length ms \<longrightarrow>
        np_allclose (vertices (ms ! k)) (take (length (vertices (ms ! k))) (vertices (ms ! Suc k)))
          = Inr True)
      \<longrightarrow> merge_meshes ms =
            Inr \<lparr>vertices = vertices (last ms), faces = concat (map faces ms)\<rparr>)"
proof (intro conjI impI)
  assume "\<exists>k. Suc k < length ms \<and>
        np_allclose (vertices (ms ! k)) (take (length (vertices (ms ! k))) (vertices (ms ! Suc k)))
          \<noteq> Inr True"
  then have "merge_meshes_check ms \<noteq> Inr ()"
    unfolding merge_meshes_check_iff nesting_check_def by blast
  then obtain e where "merge_meshes_check ms = Inl e"
    using merge_meshes_check_cases[of ms] by blast
  then show "\<exists>e. merge_meshes ms = Inl e" by (simp add: merge_meshes_def)
next
  assume a: "ms \<noteq> [] \<and>
    (\<forall>k. Suc k < length ms \<longrightarrow>
        np_allclose (vertices (ms ! k)) (take (length (vertices (ms ! k))) (vertices (ms ! Suc k)))
          = Inr True)"
  then have "merge_meshes_check ms = Inr ()"
    unfolding merge_meshes_check_iff nesting_check_def by blast
  then show "merge_meshes ms =
            Inr \<lparr>vertices = vertices (last ms), faces = concat (map faces ms)\<rparr>"
    using a by (simp add: merge_meshes_def)
qed

text \<open>
  Both parts of the amended C3 on two-level lists: a second level whose first vertex is far
  from the first level's makes the merge raise; a second level that extends the first is
  merged.
\<close>

theorem merge_meshes_allclose_witness:
  "(\<exists>e. merge_meshes [\<lparr>vertices = [(1, 0, 0)], faces = [(0, 0, 0)]\<rparr>,
                        \<lparr>vertices = [(0, 0, 1)], faces = [(0, 0, 0)]\<rparr>] = Inl e) \<and>
   merge_meshes [\<lparr>vertices = [(1, 0, 0)], faces = [(0, 0, 0)]\<rparr>,
                 \<lparr>vertices = [(1, 0, 0), (0, 0, 1)], faces = [(0, 1, 1)]\<rparr>] =
     Inr \<lparr>vertices = [(1, 0, 0), (0, 0, 1)], faces = [(0, 0, 0), (0, 1, 1)]\<rparr>"
proof -
  let ?a = "[\<lparr>vertices = [(1, 0, 0)], faces = [(0, 0, 0)]\<rparr>,
             \<lparr>vertices = [(0, 0, 1)], faces = [(0, 0, 0)]\<rparr>]"
  let ?b = "[\<lparr>vertices = [(1, 0, 0)], faces = [(0, 0, 0)]\<rparr>,
             \<lparr>vertices = [(1, 0, 0), (0, 0, 1)], faces = [(0, 1, 1)]\<rparr>]"
  have ha: "\<exists>k. Suc k < length ?a \<and>
        np_allclose (vertices (?a ! k)) (take (length (vertices (?a ! k))) (vertices (?a ! Suc k)))
          \<noteq> Inr True"
    by (rule exI[of _ 0]) (simp add: np_allclose_def vec_isclose_def np_isclose_def)
  have hb: "?b \<noteq> [] \<and>
    (\<forall>k. Suc k < length ?b \<longrightarrow>
        np_allclose (vertices (?b ! k)) (take (length (vertices (?b ! k))) (vertices (?b ! Suc k)))
          = Inr True)"
    by (simp add: np_allclose_def vec_isclose_def np_isclose_def)
  from merge_meshes_allclose[of ?a] ha have "\<exists>e. merge_meshes ?a = Inl e" by blast
  moreover from merge_meshes_allclose[of ?b] hb have "merge_meshes ?b =
            Inr \<lparr>vertices = vertices (last ?b), faces = concat (map faces ?b)\<rparr>" by blast
  ultimately show ?thesis by simp
qed

text \<open>
  Claim C3 as stated fails: the coarser vertex array \<open>[(1, 0, 0)]\<close> is not equal to the
  prefix \<open>[(1 + 2^-20, 0, 0)]\<close> of the finer one (both numbers are float32 values), yet
  the difference is within the tolerance of \<open>np.allclose\<close> and \<open>merge_meshes\<close> returns
  the merged mesh.
\<close>

theorem merge_meshes_equal_counterexample:
  "vertices \<lparr>vertices = [(1, 0, 0)], faces = [(0, 0, 0)]\<rparr> \<noteq>
     take (length (vertices \<lparr>vertices = [(1, 0, 0)], faces = [(0, 0, 0)]\<rparr>))
       (vertices \<lparr>vertices = [(1 + 1 / 2 ^ 20, 0, 0)], faces = [(0, 0, 0)]\<rparr>) \<and>
   merge_meshes [\<lparr>vertices = [(1, 0, 0)], faces = [(0, 0, 0)]\<rparr>,
                 \<lparr>vertices = [(1 + 1 / 2 ^ 20, 0, 0)], faces = [(0, 0, 0)]\<rparr>] =
     Inr \<lparr>vertices = [(1 + 1 / 2 ^ 20, 0, 0)], faces = [(0, 0, 0), (0, 0, 0)]\<rparr>"
  by (simp add: merge_meshes_def np_allclose_def vec_isclose_def np_isclose_def)

lemma cos_polar_rotation: "cos (pi / 2 - theta) = sin theta"
  by (simp add: cos_diff)

lemma sin_polar_rotation: "sin (pi / 2 - theta) = cos theta"
  by (simp add: sin_diff)

lemma sq1: "cos (a::real) * cos a + sin a * sin a = 1"
  using sin_cos_squared_add3[of a] by (simp add: add.commute)

lemma sq_factor: "cos (a::real) * (cos a * t) + sin a * (sin a * t) = t"
proof -
  have "cos a * (cos a * t) + sin a * (sin a * t) = (cos a * cos a + sin a * sin a) * t"
    by algebra
  also have "\<dots> = t" by (simp only: sq1 mult_1)
  finally show ?thesis .
qed

lemma from_euler_z: "from_euler [(AxisZ, a)] = ((cos a, - sin a, 0), (sin a, cos a, 0), (0, 0, 1))"
  by (simp add: from_euler_def elemental_rotation_def mat_mul_def mat_id_def vec_mat_def)

lemma rotate_longitude_point:
  "mat_vec (from_euler [(AxisZ, - phi)]) (cos phi * sin theta, sin phi * sin theta, cos theta) =
     (sin theta, 0, cos theta)"
  by (simp add: from_euler_z mat_vec_def sq_factor)

lemma rotate_both_point:
  "mat_vec (from_euler [(AxisZ, - phi), (AxisY, pi / 2 - theta)])
       (cos phi * sin theta, sin phi * sin theta, cos theta) = (1, 0, 0)"
proof -
  have R: "from_euler [(AxisZ, - phi), (AxisY, pi / 2 - theta)] =
      ((sin theta * cos phi, sin theta * sin phi, cos theta),
       (- sin phi, cos phi, 0),
       (- cos theta * cos phi, - cos theta * sin phi, sin theta))"
    by (simp add: from_euler_def elemental_rotation_def mat_mul_def mat_id_def vec_mat_def
        cos_polar_rotation sin_polar_rotation)
  have a: "sin theta * cos phi * (cos phi * sin theta) + sin theta * sin phi * (sin phi * sin theta)
             + cos theta * cos theta = 1"
  proof -
    have "sin theta * cos phi * (cos phi * sin theta) + sin theta * sin phi * (sin phi * sin theta)
      = (cos phi * cos phi + sin phi * sin phi) * (sin theta * sin theta)"
      by algebra
    also have "\<dots> = sin theta * sin theta" by (simp only: sq1 mult_1)
    finally show ?thesis using sq1[of theta] by linarith
  qed
  have c: "- cos theta * cos phi * (cos phi * sin theta) + - cos theta * sin phi * (sin phi * sin theta)
             + sin theta * cos theta = 0"
  proof -
    have "- cos theta * cos phi * (cos phi * sin theta) + - cos theta * sin phi * (sin phi * sin theta)
      = - ((cos phi * cos phi + sin phi * sin phi) * (cos theta * sin theta))"
      by algebra
    also have "\<dots> = - (cos theta * sin theta)" by (simp only: sq1 mult_1)
    finally show ?thesis by (simp add: mult.commute)
  qed
  show ?thesis
    unfolding R using a c by (simp add: mat_vec_def)
qed

lemma rotate_latitude_point:
  "mat_vec (from_euler [(AxisZ, - phi), (AxisY, pi / 2 - theta), (AxisZ, phi)])
       (cos phi * sin theta, sin phi * sin theta, cos theta) = (cos phi, sin phi, 0)"
proof -
  have e: "from_euler [(AxisZ, - phi), (AxisY, pi / 2 - theta), (AxisZ, phi)] =
     mat_mul (elemental_rotation AxisZ phi) (from_euler [(AxisZ, - phi), (AxisY, pi / 2 - theta)])"
    by (simp add: from_euler_def)
  have assoc: "\<And>A B v. mat_vec (mat_mul A B) v = mat_vec A (mat_vec B v)"
    by (auto simp: mat_vec_def mat_mul_def vec_mat_def algebra_simps split: prod.splits)
  show ?thesis
    unfolding e assoc rotate_both_point
    by (simp add: mat_vec_def elemental_rotation_def)
qed

lemma np_broadcast2_same: "length xs = length ys \<Longrightarrow> np_broadcast2 f xs ys = Inr (map2 f xs ys)"
  by (simp add: np_broadcast2_def)

lemma np_take_valid:
  "\<forall>i\<in>set is. 0 \<le> i \<and> i < int (length xs) \<Longrightarrow> np_take xs is = Inr (map (\<lambda>i. xs ! nat i) is)"
  by (induction "is") (simp_all add: np_getitem_def)

lemma node_pos_same_length:
  assumes "length phis = length thetas"
  shows "bind_err (spherical_to_cartesian phis thetas) np_stack_xyz =
           Inr (map2 unit_position phis thetas)"
proof -
  have "map (\<lambda>i. (map2 (\<lambda>phi theta. cos phi * sin theta) phis thetas ! i,
                   map2 (\<lambda>phi theta. sin phi * sin theta) phis thetas ! i,
                   map cos thetas ! i)) [0..<length phis] = map2 unit_position phis thetas"
  proof (rule nth_equalityI)
    show "length (map (\<lambda>i. (map2 (\<lambda>phi theta. cos phi * sin theta) phis thetas ! i,
                   map2 (\<lambda>phi theta. sin phi * sin theta) phis thetas ! i,
                   map cos thetas ! i)) [0..<length phis]) = length (map2 unit_position phis thetas)"
      by (simp add: assms)
  next
    fix i assume "i < length (map (\<lambda>i. (map2 (\<lambda>phi theta. cos phi * sin theta) phis thetas ! i,
                   map2 (\<lambda>phi theta. sin phi * sin theta) phis thetas ! i,
                   map cos thetas ! i)) [0..<length phis])"
    then have i: "i < length phis" "i < length thetas" by (simp_all add: assms[symmetric])
    show "map (\<lambda>i. (map2 (\<lambda>phi theta. cos phi * sin theta) phis thetas ! i,
                   map2 (\<lambda>phi theta. sin phi * sin theta) phis thetas ! i,
                   map cos thetas ! i)) [0..<length phis] ! i = map2 unit_position phis thetas ! i"
      using i by (simp add: unit_position_def)
  qed
  then show ?thesis
    using assms
    by (simp add: spherical_to_cartesian_def np_broadcast2_same bind_err_def np_stack_xyz_def)
qed

lemma rotation_matrices_same_length:
  assumes "length phis = length thetas" "rotate_latitude \<or> rotate_longitude"
  shows "get_rotation_matrices_to_local_coordinates phis thetas rotate_latitude rotate_longitude =
     Inr (map2 (\<lambda>phi theta.
            if rotate_longitude \<and> rotate_latitude
            then from_euler [(AxisZ, - phi), (AxisY, - theta + pi / 2)]
            else if rotate_longitude then from_euler [(AxisZ, - phi)]
            else from_euler [(AxisZ, - phi), (AxisY, - theta + pi / 2), (AxisZ, - (- phi))])
          phis thetas)"
proof (cases "rotate_longitude \<and> rotate_latitude")
  case True
  then show ?thesis using assms(1)
    by (simp add: get_rotation_matrices_to_local_coordinates_def Let_def zip_map_map
        zip_map1 zip_map2 split_def)
next
  case False
  show ?thesis
  proof (cases rotate_longitude)
    case True
    have "map (\<lambda>phi. from_euler [(AxisZ, - phi)]) phis =
          map2 (\<lambda>phi theta. from_euler [(AxisZ, - phi)]) phis thetas"
      using assms(1) by (auto simp: list_eq_iff_nth_eq)
    then show ?thesis using True False
      by (simp add: get_rotation_matrices_to_local_coordinates_def)
  next
    case lon: False
    then have lat: rotate_latitude using assms(2) by simp
    show ?thesis using lon lat assms(1)
      by (simp add: get_rotation_matrices_to_local_coordinates_def Let_def zip_map_map
          zip_map1 zip_map2 split_def)
  qed
qed

lemma rotate_reference_points:
  assumes "length phis = length thetas" "rotate_latitude \<or> rotate_longitude"
  shows "\<exists>Rs. get_rotation_matrices_to_local_coordinates phis thetas rotate_latitude rotate_longitude
              = Inr Rs \<and>
           rotate_with_matrices Rs (map2 unit_position phis thetas) =
             Inr (map2 (local_position rotate_latitude rotate_longitude) phis thetas)"
proof -
  let ?Rs = "map2 (\<lambda>phi theta.
            if rotate_longitude \<and> rotate_latitude
            then from_euler [(AxisZ, - phi), (AxisY, - theta + pi / 2)]
            else if rotate_longitude then from_euler [(AxisZ, - phi)]
            else from_euler [(AxisZ, - phi), (AxisY, - theta + pi / 2), (AxisZ, - (- phi))])
          phis thetas"
  have l: "length ?Rs = length (map2 unit_position phis thetas)" by simp
  have "map2 mat_vec ?Rs (map2 unit_position phis thetas) =
        map2 (local_position rotate_latitude rotate_longitude) phis thetas"
    using assms
    by (auto simp: list_eq_iff_nth_eq local_position_def unit_position_def
        rotate_both_point rotate_longitude_point rotate_latitude_point)
  then have "rotate_with_matrices ?Rs (map2 unit_position phis thetas) =
             Inr (map2 (local_position rotate_latitude rotate_longitude) phis thetas)"
    unfolding rotate_with_matrices_def np_broadcast2_same[OF l] by simp
  then show ?thesis using rotation_matrices_same_length[OF assms] by blast
qed

lemma arctan2_zero_nonneg: "0 \<le> x \<Longrightarrow> arctan2 0 x = 0"
  by (simp add: arctan2_def)

lemma local_position_angles:
  assumes "rotate_latitude \<or> rotate_longitude" "0 \<le> theta" "theta \<le> pi"
  shows "(rotate_latitude \<longrightarrow>
            snd (cartesian_to_spherical (local_position rotate_latitude rotate_longitude phi theta)) = pi / 2) \<and>
         (rotate_longitude \<longrightarrow>
            fst (cartesian_to_spherical (local_position rotate_latitude rotate_longitude phi theta)) = 0)"
  using assms sin_ge_zero[OF assms(2,3)]
  by (auto simp: local_position_def cartesian_to_spherical_def arctan2_zero_nonneg)

text \<open>
  Claim C9. For reference points given by azimuths \<open>phi\<close> and polar angles
  \<open>theta\<close> in \<open>[0, pi]\<close> (arrays of one length), with at least one flag set: the rotation
  matrices are produced without raising, and applying them with \<open>rotate_with_matrices\<close> to
  the reference points' own unit positions gives points whose polar angle is \<open>pi / 2\<close>
  when the latitude flag is set and whose azimuth is 0 when the longitude flag is set. The
  arithmetic is that of the real numbers, so the values are exact.
\<close>

theorem rotation_round_trip:
  assumes "rotate_latitude \<or> rotate_longitude"
    and "length reference_phi = length reference_theta"
    and "\<forall>theta\<in>set reference_theta. 0 \<le> theta \<and> theta \<le> pi"
  shows "\<exists>rotation_matrices reference_pos rotated.
     get_rotation_matrices_to_local_coordinates reference_phi reference_theta
       rotate_latitude rotate_longitude = Inr rotation_matrices \<and>
     bind_err (spherical_to_cartesian reference_phi reference_theta) np_stack_xyz = Inr reference_pos \<and>
     rotate_with_matrices rotation_matrices reference_pos = Inr rotated \<and>
     length rotated = length reference_phi \<and>
     (\<forall>p\<in>set rotated.
        (rotate_latitude \<longrightarrow> snd (cartesian_to_spherical p) = pi / 2) \<and>
        (rotate_longitude \<longrightarrow> fst (cartesian_to_spherical p) = 0))"
proof -
  let ?rotated = "map2 (local_position rotate_latitude rotate_longitude) reference_phi reference_theta"
  from rotate_reference_points[OF assms(2,1)] obtain Rs where
    r: "get_rotation_matrices_to_local_coordinates reference_phi reference_theta
          rotate_latitude rotate_longitude = Inr Rs"
       "rotate_with_matrices Rs (map2 unit_position reference_phi reference_theta) = Inr ?rotated"
    by blast
  have l: "length ?rotated = length reference_phi" using assms(2) by simp
  have a: "\<forall>p\<in>set ?rotated.
        (rotate_latitude \<longrightarrow> snd (cartesian_to_spherical p) = pi / 2) \<and>
        (rotate_longitude \<longrightarrow> fst (cartesian_to_spherical p) = 0)"
  proof
    fix p assume "p \<in> set ?rotated"
    then obtain phi theta where pt: "(phi, theta) \<in> set (zip reference_phi reference_theta)"
      and p: "p = local_position rotate_latitude rotate_longitude phi theta" by auto
    have "theta \<in> set reference_theta" using pt by (rule set_zip_rightD)
    then have "0 \<le> theta" "theta \<le> pi" using assms(3) by auto
    from local_position_angles[OF assms(1) this]
    show "(rotate_latitude \<longrightarrow> snd (cartesian_to_spherical p) = pi / 2) \<and>
        (rotate_longitude \<longrightarrow> fst (cartesian_to_spherical p) = 0)"
      unfolding p .
  qed
  show ?thesis
    using r node_pos_same_length[OF assms(2)] l a by blast
qed

text \<open>
  The statement of C9 with both flags, for the point with azimuth \<open>pi / 3\<close> and polar
  angle \<open>pi / 4\<close>.
\<close>

theorem rotation_round_trip_witness:
  "\<exists>rotation_matrices p.
     get_rotation_matrices_to_local_coordinates [pi / 3] [pi / 4] True True = Inr rotation_matrices \<and>
     rotate_with_matrices rotation_matrices
       [(cos (pi / 3) * sin (pi / 4), sin (pi / 3) * sin (pi / 4), cos (pi / 4))] = Inr [p] \<and>
     cartesian_to_spherical p = (0, pi / 2)"
proof -
  have h1: "True \<or> True" by simp
  have h2: "length [pi / 3 :: real] = length [pi / 4 :: real]" by simp
  have h3: "\<forall>theta\<in>set [pi / 4 :: real]. 0 \<le> theta \<and> theta \<le> pi" by simp
  from rotation_round_trip[OF h1 h2 h3] obtain rotation_matrices reference_pos rotated where
    r: "get_rotation_matrices_to_local_coordinates [pi / 3] [pi / 4] True True = Inr rotation_matrices"
       "bind_err (spherical_to_cartesian [pi / 3] [pi / 4]) np_stack_xyz = Inr reference_pos"
       "rotate_with_matrices rotation_matrices reference_pos = Inr rotated"
       "length rotated = length [pi / 3 :: real]"
       "\<forall>p\<in>set rotated.
        (True \<longrightarrow> snd (cartesian_to_spherical p) = pi / 2) \<and>
        (True \<longrightarrow> fst (cartesian_to_spherical p) = 0)"
    by blast
  have pos: "reference_pos = [(cos (pi / 3) * sin (pi / 4), sin (pi / 3) * sin (pi / 4), cos (pi / 4))]"
    using r(2)
    by (simp add: spherical_to_cartesian_def np_broadcast2_def bind_err_def np_stack_xyz_def)
  from r(4) obtain p where p: "rotated = [p]" by (cases rotated) auto
  have "cartesian_to_spherical p = (0, pi / 2)"
    using r(5) p by (simp add: prod_eq_iff)
  then show ?thesis using r(1,3) pos p by blast
qed

lemma map2_nth_gather:
  assumes "length senders = length receivers"
  shows "map2 f (map (\<lambda>i. ps ! nat i) senders) (map (\<lambda>i. qs ! nat i) receivers) =
         map2 (\<lambda>s r. f (ps ! nat s) (qs ! nat r)) senders receivers"
  by (simp add: zip_map_map split_def)

lemma map2_unit_position_nth:
  "length phis = length thetas \<Longrightarrow> 0 \<le> i \<Longrightarrow> i < int (length phis) \<Longrightarrow>
     map2 unit_position phis thetas ! nat i = unit_position (phis ! nat i) (thetas ! nat i)"
  by simp

lemma plain_difference_gather:
  assumes "length ps = n" "length qs = m" "length senders = length receivers"
    and "\<forall>i\<in>set senders. 0 \<le> i \<and> i < int n"
    and "\<forall>i\<in>set receivers. 0 \<le> i \<and> i < int m"
  shows "bind_err (np_take ps senders) (\<lambda>sender_pos.
         bind_err (np_take qs receivers) (\<lambda>receiver_pos.
           np_broadcast2 vec_sub sender_pos receiver_pos)) =
         Inr (map2 (\<lambda>s r. vec_sub (ps ! nat s) (qs ! nat r)) senders receivers)"
proof -
  have a: "np_take ps senders = Inr (map (\<lambda>i. ps ! nat i) senders)"
    using assms(1,4) by (intro np_take_valid) simp
  have b: "np_take qs receivers = Inr (map (\<lambda>i. qs ! nat i) receivers)"
    using assms(2,5) by (intro np_take_valid) simp
  show ?thesis
    unfolding a b bind_err_def
    using assms(3) by (simp add: np_broadcast2_same map2_nth_gather)
qed

lemma map2_cong_set:
  assumes "\<And>s r. s \<in> set xs \<Longrightarrow> r \<in> set ys \<Longrightarrow> f s r = g s r"
  shows "map2 f xs ys = map2 g xs ys"
  using assms by (auto dest: set_zip_leftD set_zip_rightD)

text \<open>
  Claim C8. With neither flag set, \<open>get_rotation_matrices_to_local_coordinates\<close> raises
  ValueError, whereas both relative-position functions return (for position arrays of
  matching lengths and index arrays within range) the plain differences of the unit
  positions, sender minus receiver: they do not reach the raising call.
\<close>

theorem no_alignment_plain_difference:
  "get_rotation_matrices_to_local_coordinates reference_phi reference_theta False False
     = Inl ValueError \<and>
   (length node_phi = length node_theta \<and> length senders = length receivers \<and>
    (\<forall>i\<in>set senders. 0 \<le> i \<and> i < int (length node_phi)) \<and>
    (\<forall>i\<in>set receivers. 0 \<le> i \<and> i < int (length node_phi)) \<longrightarrow>
    get_relative_position_in_receiver_local_coordinates node_phi node_theta senders receivers
        False False =
      Inr (map2 (\<lambda>s r. vec_sub (unit_position (node_phi ! nat s) (node_theta ! nat s))
                             (unit_position (node_phi ! nat r) (node_theta ! nat r)))
             senders receivers)) \<and>
   (length senders_node_phi = length senders_node_theta \<and>
    length receivers_node_phi = length receivers_node_theta \<and>
    length bsenders = length breceivers \<and>
    (\<forall>i\<in>set bsenders. 0 \<le> i \<and> i < int (length senders_node_phi)) \<and>
    (\<forall>i\<in>set breceivers. 0 \<le> i \<and> i < int (length receivers_node_phi)) \<longrightarrow>
    get_bipartite_relative_position_in_receiver_local_coordinates
        senders_node_phi senders_node_theta bsenders
        receivers_node_phi receivers_node_theta breceivers False False =
      Inr (map2 (\<lambda>s r. vec_sub (unit_position (senders_node_phi ! nat s) (senders_node_theta ! nat s))
                             (unit_position (receivers_node_phi ! nat r)
                                (receivers_node_theta ! nat r)))
             bsenders breceivers))"
proof (intro conjI impI)
  show "get_rotation_matrices_to_local_coordinates reference_phi reference_theta False False
     = Inl ValueError"
    by (simp add: get_rotation_matrices_to_local_coordinates_def)
next
  assume a: "length node_phi = length node_theta \<and> length senders = length receivers \<and>
    (\<forall>i\<in>set senders. 0 \<le> i \<and> i < int (length node_phi)) \<and>
    (\<forall>i\<in>set receivers. 0 \<le> i \<and> i < int (length node_phi))"
  let ?pos = "map2 unit_position node_phi node_theta"
  have l: "length ?pos = length node_phi" using a by simp
  have np: "bind_err (spherical_to_cartesian node_phi node_theta) np_stack_xyz = Inr ?pos"
    using a by (intro node_pos_same_length) simp
  have g: "bind_err (np_take ?pos senders) (\<lambda>sender_pos.
         bind_err (np_take ?pos receivers) (\<lambda>receiver_pos.
           np_broadcast2 vec_sub sender_pos receiver_pos)) =
         Inr (map2 (\<lambda>s r. vec_sub (?pos ! nat s) (?pos ! nat r)) senders receivers)"
    using a by (intro plain_difference_gather[OF l l]) auto
  have e: "map2 (\<lambda>s r. vec_sub (?pos ! nat s) (?pos ! nat r)) senders receivers =
      map2 (\<lambda>s r. vec_sub (unit_position (node_phi ! nat s) (node_theta ! nat s))
                             (unit_position (node_phi ! nat r) (node_theta ! nat r)))
             senders receivers"
    using a by (intro map2_cong_set) (auto simp: map2_unit_position_nth)
  show "get_relative_position_in_receiver_local_coordinates node_phi node_theta senders receivers
        False False =
      Inr (map2 (\<lambda>s r. vec_sub (unit_position (node_phi ! nat s) (node_theta ! nat s))
                             (unit_position (node_phi ! nat r) (node_theta ! nat r)))
             senders receivers)"
    unfolding get_relative_position_in_receiver_local_coordinates_def np
    using g e by (simp add: bind_err_def)
next
  assume a: "length senders_node_phi = length senders_node_theta \<and>
    length receivers_node_phi = length receivers_node_theta \<and>
    length bsenders = length breceivers \<and>
    (\<forall>i\<in>set bsenders. 0 \<le> i \<and> i < int (length senders_node_phi)) \<and>
    (\<forall>i\<in>set breceivers. 0 \<le> i \<and> i < int (length receivers_node_phi))"
  let ?sp = "map2 unit_position senders_node_phi senders_node_theta"
  let ?rp = "map2 unit_position receivers_node_phi receivers_node_theta"
  have ls: "length ?sp = length senders_node_phi" using a by simp
  have lr: "length ?rp = length receivers_node_phi" using a by simp
  have sp: "bind_err (spherical_to_cartesian senders_node_phi senders_node_theta) np_stack_xyz = Inr ?sp"
    using a by (intro node_pos_same_length) simp
  have rp: "bind_err (spherical_to_cartesian receivers_node_phi receivers_node_theta) np_stack_xyz = Inr ?rp"
    using a by (intro node_pos_same_length) simp
  have g: "bind_err (np_take ?sp bsenders) (\<lambda>sender_pos.
         bind_err (np_take ?rp breceivers) (\<lambda>receiver_pos.
           np_broadcast2 vec_sub sender_pos receiver_pos)) =
         Inr (map2 (\<lambda>s r. vec_sub (?sp ! nat s) (?rp ! nat r)) bsenders breceivers)"
    using a by (intro plain_difference_gather[OF ls lr]) auto
  have e: "map2 (\<lambda>s r. vec_sub (?sp ! nat s) (?rp ! nat r)) bsenders breceivers =
      map2 (\<lambda>s r. vec_sub (unit_position (senders_node_phi ! nat s) (senders_node_theta ! nat s))
                             (unit_position (receivers_node_phi ! nat r)
                                (receivers_node_theta ! nat r)))
             bsenders breceivers"
    using a by (intro map2_cong_set) (auto simp: map2_unit_position_nth)
  show "get_bipartite_relative_position_in_receiver_local_coordinates
        senders_node_phi senders_node_theta bsenders
        receivers_node_phi receivers_node_theta breceivers False False =
      Inr (map2 (\<lambda>s r. vec_sub (unit_position (senders_node_phi ! nat s) (senders_node_theta ! nat s))
                             (unit_position (receivers_node_phi ! nat r)
                                (receivers_node_theta ! nat r)))
             bsenders breceivers)"
    unfolding get_bipartite_relative_position_in_receiver_local_coordinates_def sp rp
    using g e by (simp add: bind_err_def)
qed

text \<open>
  The statement of C8 on a sender at \<open>(1, 0, 0)\<close> and a receiver at \<open>(0, 1, 0)\<close>.
\<close>

theorem no_alignment_plain_difference_witness:
  "get_rotation_matrices_to_local_coordinates [0, pi / 2] [pi / 2, pi / 2] False False
     = Inl ValueError \<and>
   get_relative_position_in_receiver_local_coordinates [0, pi / 2] [pi / 2, pi / 2] [0] [1]
        False False = Inr [(1, - 1, 0)] \<and>
   get_bipartite_relative_position_in_receiver_local_coordinates
        [0] [pi / 2] [0] [pi / 2] [pi / 2] [0] False False = Inr [(1, - 1, 0)]"
proof -
  have h1: "length [0, pi / 2 :: real] = length [pi / 2, pi / 2 :: real] \<and>
    length [0 :: int] = length [1 :: int] \<and>
    (\<forall>i\<in>set [0 :: int]. 0 \<le> i \<and> i < int (length [0, pi / 2 :: real])) \<and>
    (\<forall>i\<in>set [1 :: int]. 0 \<le> i \<and> i < int (length [0, pi / 2 :: real]))"
    by simp
  have h2: "length [0 :: real] = length [pi / 2 :: real] \<and>
    length [pi / 2 :: real] = length [pi / 2 :: real] \<and>
    length [0 :: int] = length [0 :: int] \<and>
    (\<forall>i\<in>set [0 :: int]. 0 \<le> i \<and> i < int (length [0 :: real])) \<and>
    (\<forall>i\<in>set [0 :: int]. 0 \<le> i \<and> i < int (length [pi / 2 :: real]))"
    by simp
  note t = no_alignment_plain_difference[of "[0, pi / 2]" "[pi / 2, pi / 2]"
      "[0, pi / 2]" "[pi / 2, pi / 2]" "[0]" "[1]" "[0]" "[pi / 2]" "[pi / 2]" "[pi / 2]" "[0]" "[0]"]
  have a: "get_rotation_matrices_to_local_coordinates [0, pi / 2] [pi / 2, pi / 2] False False
     = Inl ValueError" using t by blast
  have b: "get_relative_position_in_receiver_local_coordinates [0, pi / 2] [pi / 2, pi / 2] [0] [1]
        False False = Inr [(1, - 1, 0)]"
    using t h1 by (simp add: unit_position_def vec_sub_def)
  have c: "get_bipartite_relative_position_in_receiver_local_coordinates
        [0] [pi / 2] [0] [pi / 2] [pi / 2] [0] False False = Inr [(1, - 1, 0)]"
    using t h2 by (simp add: unit_position_def vec_sub_def)
  show ?thesis using a b c by blast
qed

lemma upt_shift: "[k..<k + length (x # xs)] = k # [Suc k..<Suc k + length xs]"
  by (simp add: upt_conv_Cons del: upt_Suc)

lemma grid_blocks_Nil: "grid_blocks k [] = []"
  by (simp add: grid_blocks_def)

lemma grid_blocks_Cons: "grid_blocks k (nb # q) = replicate (length nb) (int k) @ grid_blocks (Suc k) q"
  unfolding grid_blocks_def upt_shift by simp

lemma pair_blocks_Nil: "pair_blocks k [] = []"
  by (simp add: pair_blocks_def)

lemma pair_blocks_Cons: "pair_blocks k (nb # q) = map (Pair (int k)) nb @ pair_blocks (Suc k) q"
  unfolding pair_blocks_def upt_shift by simp

lemma length_grid_blocks: "length (grid_blocks k q) = length (concat q)"
  by (induction q arbitrary: k) (simp_all add: grid_blocks_Nil grid_blocks_Cons)

lemma set_grid_blocks_ge: "x \<in> set (grid_blocks k q) \<Longrightarrow> int k \<le> x"
proof (induction q arbitrary: k)
  case Nil
  then show ?case by (simp add: grid_blocks_Nil)
next
  case (Cons nb q)
  from Cons.prems have "x = int k \<or> x \<in> set (grid_blocks (Suc k) q)"
    by (auto simp: grid_blocks_Cons)
  then show ?case using Cons.IH[of "Suc k"] by auto
qed

lemma sorted_grid_blocks: "sorted (grid_blocks k q)"
proof (induction q arbitrary: k)
  case Nil
  then show ?case by (simp add: grid_blocks_Nil)
next
  case (Cons nb q)
  have "\<forall>x\<in>set (replicate (length nb) (int k)). \<forall>y\<in>set (grid_blocks (Suc k) q). x \<le> y"
    using set_grid_blocks_ge[of _ "Suc k" q] by fastforce
  then show ?case
    using Cons.IH[of "Suc k"] by (simp add: grid_blocks_Cons sorted_append sorted_replicate)
qed

lemma zip_grid_blocks: "zip (grid_blocks k q) (concat q) = pair_blocks k q"
proof (induction q arbitrary: k)
  case Nil
  then show ?case by (simp add: grid_blocks_Nil pair_blocks_Nil)
next
  case (Cons nb q)
  have "zip (replicate (length nb) (int k)) nb = map (Pair (int k)) nb"
    by (induction nb) simp_all
  then show ?case
    using Cons.IH[of "Suc k"] by (simp add: grid_blocks_Cons pair_blocks_Cons)
qed

lemma set_zip_grid_blocks:
  "set (zip (grid_blocks k q) (concat q)) =
     {(int (k + g), i) | g i. g < length q \<and> i \<in> set (q ! g)}"
proof (induction q arbitrary: k)
  case Nil
  then show ?case by (simp add: grid_blocks_Nil)
next
  case (Cons nb q)
  have z: "zip (grid_blocks k (nb # q)) (concat (nb # q)) =
        map (Pair (int k)) nb @ zip (grid_blocks (Suc k) q) (concat q)"
    by (simp only: zip_grid_blocks pair_blocks_Cons)
  have s1: "{(int (k + g), i) | g i. g < length (nb # q) \<and> i \<in> set ((nb # q) ! g)} =
        Pair (int k) ` set nb \<union> {(int (Suc k + g), i) | g i. g < length q \<and> i \<in> set (q ! g)}"
  proof (intro set_eqI iffI)
    fix x assume "x \<in> {(int (k + g), i) | g i. g < length (nb # q) \<and> i \<in> set ((nb # q) ! g)}"
    then obtain g i where x: "x = (int (k + g), i)" and g: "g < length (nb # q)"
      and i: "i \<in> set ((nb # q) ! g)" by blast
    show "x \<in> Pair (int k) ` set nb \<union> {(int (Suc k + g), i) | g i. g < length q \<and> i \<in> set (q ! g)}"
    proof (cases g)
      case 0
      then show ?thesis using x i by simp
    next
      case (Suc g')
      then have "x = (int (Suc k + g'), i)" "g' < length q" "i \<in> set (q ! g')"
        using x g i by simp_all
      then show ?thesis by blast
    qed
  next
    fix x assume "x \<in> Pair (int k) ` set nb \<union> {(int (Suc k + g), i) | g i. g < length q \<and> i \<in> set (q ! g)}"
    then show "x \<in> {(int (k + g), i) | g i. g < length (nb # q) \<and> i \<in> set ((nb # q) ! g)}"
    proof
      assume "x \<in> Pair (int k) ` set nb"
      then obtain i where "x = (int (k + 0), i)" "0 < length (nb # q)" "i \<in> set ((nb # q) ! 0)"
        by auto
      then show ?thesis by blast
    next
      assume "x \<in> {(int (Suc k + g), i) | g i. g < length q \<and> i \<in> set (q ! g)}"
      then obtain g i where "x = (int (k + Suc g), i)" "Suc g < length (nb # q)"
        "i \<in> set ((nb # q) ! Suc g)" by auto
      then show ?thesis by blast
    qed
  qed
  have s2: "set (zip (grid_blocks k (nb # q)) (concat (nb # q))) =
      Pair (int k) ` set nb \<union> set (zip (grid_blocks (Suc k) q) (concat q))"
    by (simp only: z set_append set_map)
  show ?case by (simp only: s2 Cons.IH[of "Suc k"] s1)
qed

lemma distinct_zip_grid_blocks:
  assumes "\<forall>nb\<in>set q. distinct nb"
  shows "distinct (zip (grid_blocks k q) (concat q))"
  using assms
proof (induction q arbitrary: k)
  case Nil
  then show ?case by (simp add: grid_blocks_Nil)
next
  case (Cons nb q)
  have z: "zip (grid_blocks k (nb # q)) (concat (nb # q)) =
        map (Pair (int k)) nb @ zip (grid_blocks (Suc k) q) (concat q)"
    by (simp only: zip_grid_blocks pair_blocks_Cons)
  have d1: "distinct (map (Pair (int k)) nb)"
    using Cons.prems by (simp add: distinct_map inj_on_def)
  have d2: "distinct (zip (grid_blocks (Suc k) q) (concat q))"
    using Cons.IH[of "Suc k"] Cons.prems by simp
  have dj: "set (map (Pair (int k)) nb) \<inter> set (zip (grid_blocks (Suc k) q) (concat q)) = {}"
    unfolding set_zip_grid_blocks by auto
  show ?case unfolding z using d1 d2 dj by simp
qed

lemma vec_norm_grid_position: "vec_norm (cos a * sin b, sin a * sin b, cos b) = 1"
proof -
  have "cos a * sin b * (cos a * sin b) + sin a * sin b * (sin a * sin b) + cos b * cos b
        = (cos a * cos a + sin a * sin a) * (sin b * sin b) + cos b * cos b"
    by algebra
  also have "\<dots> = sin b * sin b + cos b * cos b"
    using sin_cos_squared_add3[of a] by (simp add: add.commute)
  also have "\<dots> = 1"
    using sin_cos_squared_add3[of b] by (simp add: add.commute)
  finally show ?thesis by (simp add: vec_norm_def)
qed

lemma vec_norm_eq_1D: "vec_norm (a, b, c) = 1 \<Longrightarrow> a * a + b * b + c * c = 1"
  by (simp add: vec_norm_def)

lemma vec_norm_sub_le_2:
  assumes "vec_norm p = 1" "vec_norm q = 1"
  shows "vec_norm (vec_sub p q) \<le> 2"
proof -
  obtain a b c where p: "p = (a, b, c)" by (cases p) auto
  obtain x y z where q: "q = (x, y, z)" by (cases q) auto
  have p1: "a * a + b * b + c * c = 1" using assms(1) p vec_norm_eq_1D by blast
  have q1: "x * x + y * y + z * z = 1" using assms(2) q vec_norm_eq_1D by blast
  have "0 \<le> (a + x) * (a + x) + (b + y) * (b + y) + (c + z) * (c + z)"
    by (intro add_nonneg_nonneg) simp_all
  also have "\<dots> = (a * a + b * b + c * c) + (x * x + y * y + z * z) + 2 * (a * x + b * y + c * z)"
    by algebra
  finally have d: "- 1 \<le> a * x + b * y + c * z" using p1 q1 by simp
  have "(a - x) * (a - x) + (b - y) * (b - y) + (c - z) * (c - z)
        = (a * a + b * b + c * c) + (x * x + y * y + z * z) - 2 * (a * x + b * y + c * z)"
    by algebra
  then have "(a - x) * (a - x) + (b - y) * (b - y) + (c - z) * (c - z) \<le> 2\<^sup>2"
    using p1 q1 d by simp
  then have "sqrt ((a - x) * (a - x) + (b - y) * (b - y) + (c - z) * (c - z)) \<le> sqrt (2\<^sup>2)"
    by (rule real_sqrt_le_mono)
  then have "sqrt ((a - x) * (a - x) + (b - y) * (b - y) + (c - z) * (c - z)) \<le> 2"
    by simp
  then show ?thesis by (simp add: p q vec_sub_def vec_norm_def)
qed

lemma sum3_squares_zero:
  "(a::real) * a + b * b + c * c = 0 \<longleftrightarrow> a = 0 \<and> b = 0 \<and> c = 0"
proof
  assume e: "a * a + b * b + c * c = 0"
  have "0 \<le> a * a" "0 \<le> b * b" "0 \<le> c * c" by simp_all
  then have "a * a = 0" "b * b = 0" "c * c = 0" using e by linarith+
  then show "a = 0 \<and> b = 0 \<and> c = 0" by simp
qed simp

lemma vec_norm_sub_le_0: "vec_norm (vec_sub p q) \<le> 0 \<longleftrightarrow> p = q"
proof -
  obtain a b c where p: "p = (a, b, c)" by (cases p) auto
  obtain x y z where q: "q = (x, y, z)" by (cases q) auto
  have n: "0 \<le> (a - x) * (a - x) + (b - y) * (b - y) + (c - z) * (c - z)"
    by (intro add_nonneg_nonneg) simp_all
  have "(a - x) * (a - x) + (b - y) * (b - y) + (c - z) * (c - z) \<le> 0 \<longleftrightarrow>
        (a - x) * (a - x) + (b - y) * (b - y) + (c - z) * (c - z) = 0"
    using n by linarith
  then have "vec_norm (vec_sub p q) \<le> 0 \<longleftrightarrow>
        (a - x) * (a - x) + (b - y) * (b - y) + (c - z) * (c - z) = 0"
    by (simp add: p q vec_sub_def vec_norm_def)
  then show ?thesis
    by (simp add: sum3_squares_zero p q)
qed

lemma length_grid_positions:
  "length (concat (grid_lat_lon_to_coordinates lat lon)) = length lat * length lon"
  by (induction lat) (simp_all add: grid_lat_lon_to_coordinates_def)

lemma grid_positions_unit:
  "p \<in> set (concat (grid_lat_lon_to_coordinates lat lon)) \<Longrightarrow> vec_norm p = 1"
  by (auto simp: grid_lat_lon_to_coordinates_def vec_norm_grid_position)

lemma length_query_ball_point: "length (query_ball_point data x r) = length x"
  by (simp add: query_ball_point_def)

lemma nth_query_ball_point:
  "g < length x \<Longrightarrow> query_ball_point data x r ! g =
     filter (\<lambda>i. vec_norm (vec_sub (x ! g) (data ! nat i)) \<le> r) (map int [0..<length data])"
  by (simp add: query_ball_point_def)

lemma set_nth_query_ball_point:
  "g < length x \<Longrightarrow> set (query_ball_point data x r ! g) =
     {int i | i. i < length data \<and> vec_norm (vec_sub (x ! g) (data ! i)) \<le> r}"
  by (auto simp: nth_query_ball_point)

lemma distinct_query_ball_point: "\<forall>nb\<in>set (query_ball_point data x r). distinct nb"
  by (auto simp: query_ball_point_def distinct_map intro!: distinct_filter inj_onI)

lemma radius_query_indices_eq:
  assumes "grid_latitude \<noteq> []" "grid_longitude \<noteq> []"
  shows "radius_query_indices grid_latitude grid_longitude mesh radius =
     Inr (grid_blocks 0 (query_ball_point (vertices mesh)
                           (concat (grid_lat_lon_to_coordinates grid_latitude grid_longitude)) radius),
          concat (query_ball_point (vertices mesh)
                           (concat (grid_lat_lon_to_coordinates grid_latitude grid_longitude)) radius))"
proof -
  have "length (concat (grid_lat_lon_to_coordinates grid_latitude grid_longitude)) \<noteq> 0"
    using assms by (simp add: length_grid_positions)
  then have "query_ball_point (vertices mesh)
               (concat (grid_lat_lon_to_coordinates grid_latitude grid_longitude)) radius \<noteq> []"
    using length_query_ball_point[of "vertices mesh"
        "concat (grid_lat_lon_to_coordinates grid_latitude grid_longitude)" radius]
    by (metis length_0_conv)
  then show ?thesis
    by (simp add: radius_query_indices_def Let_def grid_blocks_def)
qed

lemma concat_all_neighbors:
  assumes "\<forall>nb\<in>set q. nb = map int [0..<m]"
  shows "length (concat q) = length q * m"
  using assms by (induction q) simp_all

text \<open>
  Claim C6, as amended. For a grid with at least one point, \<open>radius_query_indices\<close>
  returns the pairs (grid point, mesh vertex) whose Euclidean distance is at most the radius,
  each pair once, ordered grid-point-major (the grid indices are non-decreasing). With
  radius 0 these are exactly the pairs of a grid point and a mesh vertex at the same
  position, so there is no edge only when no grid point coincides with a mesh vertex. With a
  radius of at least 2 and mesh vertices of unit norm, every pair is returned.
\<close>

theorem radius_query_pairs:
  assumes "grid_latitude \<noteq> []" "grid_longitude \<noteq> []"
  shows "\<exists>grid_edge_indices mesh_edge_indices.
     radius_query_indices grid_latitude grid_longitude mesh radius =
       Inr (grid_edge_indices, mesh_edge_indices) \<and>
     length grid_edge_indices = length mesh_edge_indices \<and>
     sorted grid_edge_indices \<and>
     distinct (zip grid_edge_indices mesh_edge_indices) \<and>
     set (zip grid_edge_indices mesh_edge_indices) =
       {(int g, int i) | g i.
          g < length grid_latitude * length grid_longitude \<and> i < length (vertices mesh) \<and>
          vec_norm (vec_sub (concat (grid_lat_lon_to_coordinates grid_latitude grid_longitude) ! g)
                      (vertices mesh ! i)) \<le> radius} \<and>
     (radius = 0 \<longrightarrow>
        set (zip grid_edge_indices mesh_edge_indices) =
          {(int g, int i) | g i.
             g < length grid_latitude * length grid_longitude \<and> i < length (vertices mesh) \<and>
             concat (grid_lat_lon_to_coordinates grid_latitude grid_longitude) ! g =
               vertices mesh ! i}) \<and>
     (2 \<le> radius \<and> (\<forall>v\<in>set (vertices mesh). vec_norm v = 1) \<longrightarrow>
        length grid_edge_indices =
          length grid_latitude * length grid_longitude * length (vertices mesh) \<and>
        set (zip grid_edge_indices mesh_edge_indices) =
          {(int g, int i) | g i.
             g < length grid_latitude * length grid_longitude \<and> i < length (vertices mesh)})"
proof -
  let ?gp = "concat (grid_lat_lon_to_coordinates grid_latitude grid_longitude)"
  let ?q = "query_ball_point (vertices mesh) ?gp radius"
  let ?gi = "grid_blocks 0 ?q"
  let ?mi = "concat ?q"
  have n: "length ?gp = length grid_latitude * length grid_longitude"
    by (rule length_grid_positions)
  have lq: "length ?q = length grid_latitude * length grid_longitude"
    by (simp add: length_query_ball_point n)
  have r: "radius_query_indices grid_latitude grid_longitude mesh radius = Inr (?gi, ?mi)"
    by (rule radius_query_indices_eq[OF assms])
  have l: "length ?gi = length ?mi" by (rule length_grid_blocks)
  have so: "sorted ?gi" by (rule sorted_grid_blocks)
  have di: "distinct (zip ?gi ?mi)"
    by (rule distinct_zip_grid_blocks[OF distinct_query_ball_point])
  have st: "set (zip ?gi ?mi) =
       {(int g, int i) | g i.
          g < length grid_latitude * length grid_longitude \<and> i < length (vertices mesh) \<and>
          vec_norm (vec_sub (?gp ! g) (vertices mesh ! i)) \<le> radius}"
  proof -
    have "set (zip ?gi ?mi) = {(int (0 + g), i) | g i. g < length ?q \<and> i \<in> set (?q ! g)}"
      by (rule set_zip_grid_blocks)
    also have "\<dots> = {(int g, int i) | g i.
          g < length grid_latitude * length grid_longitude \<and> i < length (vertices mesh) \<and>
          vec_norm (vec_sub (?gp ! g) (vertices mesh ! i)) \<le> radius}"
      using set_nth_query_ball_point[of _ ?gp "vertices mesh" radius]
      by (auto simp: lq n)
    finally show ?thesis .
  qed
  have z: "radius = 0 \<longrightarrow>
        set (zip ?gi ?mi) =
          {(int g, int i) | g i.
             g < length grid_latitude * length grid_longitude \<and> i < length (vertices mesh) \<and>
             ?gp ! g = vertices mesh ! i}"
  proof
    assume r0: "radius = 0"
    have "\<And>p q. vec_norm (vec_sub p q) \<le> radius \<longleftrightarrow> p = q"
      unfolding r0 by (rule vec_norm_sub_le_0)
    then show "set (zip ?gi ?mi) =
          {(int g, int i) | g i.
             g < length grid_latitude * length grid_longitude \<and> i < length (vertices mesh) \<and>
             ?gp ! g = vertices mesh ! i}"
      unfolding st by simp
  qed
  have big: "2 \<le> radius \<and> (\<forall>v\<in>set (vertices mesh). vec_norm v = 1) \<longrightarrow>
        length ?gi = length grid_latitude * length grid_longitude * length (vertices mesh) \<and>
        set (zip ?gi ?mi) =
          {(int g, int i) | g i.
             g < length grid_latitude * length grid_longitude \<and> i < length (vertices mesh)}"
  proof
    assume a: "2 \<le> radius \<and> (\<forall>v\<in>set (vertices mesh). vec_norm v = 1)"
    have near: "\<And>g i. g < length ?gp \<Longrightarrow> i < length (vertices mesh) \<Longrightarrow>
        vec_norm (vec_sub (?gp ! g) (vertices mesh ! i)) \<le> radius"
    proof -
      fix g i assume g: "g < length ?gp" and i: "i < length (vertices mesh)"
      have "vec_norm (?gp ! g) = 1" using g grid_positions_unit nth_mem by blast
      moreover have "vec_norm (vertices mesh ! i) = 1" using a i by simp
      ultimately have "vec_norm (vec_sub (?gp ! g) (vertices mesh ! i)) \<le> 2"
        by (rule vec_norm_sub_le_2)
      then show "vec_norm (vec_sub (?gp ! g) (vertices mesh ! i)) \<le> radius" using a by simp
    qed
    have "\<forall>nb\<in>set ?q. nb = map int [0..<length (vertices mesh)]"
    proof
      fix nb assume "nb \<in> set ?q"
      then obtain g where g: "g < length ?gp" and nb: "nb = ?q ! g"
        by (metis in_set_conv_nth length_query_ball_point)
      have "filter (\<lambda>i. vec_norm (vec_sub (?gp ! g) (vertices mesh ! nat i)) \<le> radius)
              (map int [0..<length (vertices mesh)]) = map int [0..<length (vertices mesh)]"
        using near[OF g] by (intro filter_True) auto
      then show "nb = map int [0..<length (vertices mesh)]"
        using nb g by (simp add: nth_query_ball_point)
    qed
    then have "length ?mi = length ?q * length (vertices mesh)"
      by (rule concat_all_neighbors)
    then have len: "length ?gi = length grid_latitude * length grid_longitude * length (vertices mesh)"
      using l lq by simp
    have "set (zip ?gi ?mi) =
          {(int g, int i) | g i.
             g < length grid_latitude * length grid_longitude \<and> i < length (vertices mesh)}"
      unfolding st using near by (auto simp: n)
    then show "length ?gi = length grid_latitude * length grid_longitude * length (vertices mesh) \<and>
        set (zip ?gi ?mi) =
          {(int g, int i) | g i.
             g < length grid_latitude * length grid_longitude \<and> i < length (vertices mesh)}"
      using len by blast
  qed
  show ?thesis
    using r l so di st z big by blast
qed

text \<open>
  The amended C6 on a grid of two points and a mesh with the two poles as vertices, radius
  2: all four pairs.
\<close>

theorem radius_query_pairs_witness:
  "\<exists>grid_edge_indices mesh_edge_indices.
     radius_query_indices [90, 0] [0] \<lparr>vertices = [(0, 0, 1), (0, 0, - 1)], faces = []\<rparr> 2 =
       Inr (grid_edge_indices, mesh_edge_indices) \<and>
     length grid_edge_indices = 4 \<and> length mesh_edge_indices = 4 \<and> sorted grid_edge_indices"
proof -
  let ?mesh = "\<lparr>vertices = [(0, 0, 1), (0, 0, - 1)], faces = []\<rparr>"
  have h1: "[90, 0 :: real] \<noteq> []" by simp
  have h2: "[0 :: real] \<noteq> []" by simp
  have h3: "(2 :: real) \<le> 2 \<and> (\<forall>v\<in>set (vertices ?mesh). vec_norm v = 1)"
    by (simp add: vec_norm_def)
  from radius_query_pairs[OF h1 h2, of ?mesh 2] show ?thesis
  proof (elim exE conjE)
    fix gi mi
    assume r: "radius_query_indices [90, 0] [0] ?mesh 2 = Inr (gi, mi)"
      and l: "length gi = length mi" and s: "sorted gi"
      and b: "2 \<le> (2::real) \<and> (\<forall>v\<in>set (vertices ?mesh). vec_norm v = 1) \<longrightarrow>
        length gi = length [90, 0 :: real] * length [0 :: real] * length (vertices ?mesh) \<and>
        set (zip gi mi) =
          {(int g, int i) | g i.
             g < length [90, 0 :: real] * length [0 :: real] \<and> i < length (vertices ?mesh)}"
    from b h3 have "length gi = length [90, 0 :: real] * length [0 :: real] * length (vertices ?mesh)"
      by (rule mp[THEN conjunct1])
    then have g4: "length gi = 4" by simp
    then have m4: "length mi = 4" using l by simp
    show ?thesis
      by (intro exI conjI) (rule r, rule g4, rule m4, rule s)
  qed
qed

text \<open>
  Claim C6 as stated fails: a grid with the single point of latitude 90 and longitude 0,
  whose position is \<open>(0, 0, 1)\<close>, and a mesh with the vertex \<open>(0, 0, 1)\<close> give,
  at radius 0, one edge and not zero edges.
\<close>

theorem radius_zero_counterexample:
  "radius_query_indices [90] [0] \<lparr>vertices = [(0, 0, 1)], faces = []\<rparr> 0 = Inr ([0], [0])"
  by (simp add: radius_query_indices_def query_ball_point_def grid_lat_lon_to_coordinates_def
      deg2rad_def vec_sub_def vec_norm_def)

lemma length_concat_triples: "length (concat (map (\<lambda>x. [a x, b x, c x]) xs)) = 3 * length xs"
  by (induction xs) simp_all

lemma nth_concat_triples:
  "i < length xs \<Longrightarrow>
     concat (map (\<lambda>x. [a x, b x, c x]) xs) ! (3 * i) = a (xs ! i) \<and>
     concat (map (\<lambda>x. [a x, b x, c x]) xs) ! (3 * i + 1) = b (xs ! i) \<and>
     concat (map (\<lambda>x. [a x, b x, c x]) xs) ! (3 * i + 2) = c (xs ! i)"
proof (induction xs arbitrary: i)
  case Nil
  then show ?case by simp
next
  case (Cons x xs)
  show ?case
  proof (cases i)
    case 0
    then show ?thesis by simp
  next
    case (Suc j)
    then have j: "j < length xs" using Cons.prems by simp
    have e: "3 * i = Suc (Suc (Suc (3 * j)))" using Suc by simp
    show ?thesis using Cons.IH[OF j] by (simp add: e Suc)
  qed
qed

text \<open>
  Claim C5, as amended. When the closest-triangle search of the trimesh library returns one
  index of a face of the mesh for each grid point, which a mesh without faces does not allow
  for a grid with a point, \<open>in_mesh_triangle_indices\<close> returns, without
  raising, \<open>3 * num_grid_points\<close> grid indices and as many mesh indices; the three
  edges of grid point \<open>g\<close> are at the positions \<open>3g\<close>, \<open>3g + 1\<close>,
  \<open>3g + 2\<close>, and their mesh indices are the three vertices of one face of the mesh, the
  face found for \<open>g\<close>, in the order of that face.
\<close>

theorem point_location_three_edges:
  assumes "length (closest_point mesh (concat (grid_lat_lon_to_coordinates grid_latitude grid_longitude)))
             = length grid_latitude * length grid_longitude"
    and "\<forall>t\<in>set (closest_point mesh
                     (concat (grid_lat_lon_to_coordinates grid_latitude grid_longitude))).
           0 \<le> t \<and> t < int (length (faces mesh))"
  shows "\<exists>grid_edge_indices mesh_edge_indices.
     in_mesh_triangle_indices closest_point grid_latitude grid_longitude mesh =
       Inr (grid_edge_indices, mesh_edge_indices) \<and>
     length grid_edge_indices = 3 * (length grid_latitude * length grid_longitude) \<and>
     length mesh_edge_indices = 3 * (length grid_latitude * length grid_longitude) \<and>
     (\<forall>g<length grid_latitude * length grid_longitude.
        grid_edge_indices ! (3 * g) = int g \<and>
        grid_edge_indices ! (3 * g + 1) = int g \<and>
        grid_edge_indices ! (3 * g + 2) = int g \<and>
        (\<exists>f\<in>set (faces mesh).
           f = faces mesh !
                 nat (closest_point mesh
                        (concat (grid_lat_lon_to_coordinates grid_latitude grid_longitude)) ! g) \<and>
           f = (mesh_edge_indices ! (3 * g), mesh_edge_indices ! (3 * g + 1),
                mesh_edge_indices ! (3 * g + 2))))"
proof -
  let ?gp = "concat (grid_lat_lon_to_coordinates grid_latitude grid_longitude)"
  let ?n = "length grid_latitude * length grid_longitude"
  let ?t = "closest_point mesh ?gp"
  let ?rows = "map (\<lambda>i. faces mesh ! nat i) ?t"
  let ?gi = "concat (map (\<lambda>g. [g, g, g]) (map int [0..<length ?gp]))"
  let ?mi = "concat (map (\<lambda>(a, b, c). [a, b, c]) ?rows)"
  have n: "length ?gp = ?n" by (rule length_grid_positions)
  have tk: "np_take (faces mesh) ?t = Inr ?rows"
    by (rule np_take_valid[OF assms(2)])
  have r: "in_mesh_triangle_indices closest_point grid_latitude grid_longitude mesh = Inr (?gi, ?mi)"
    by (simp add: in_mesh_triangle_indices_def Let_def tk bind_err_def)
  have mi: "?mi = concat (map (\<lambda>f. [fst f, fst (snd f), snd (snd f)]) ?rows)"
    by (simp add: split_def)
  have "length ?gi = 3 * length (map int [0..<length ?gp])" by (rule length_concat_triples)
  then have lg: "length ?gi = 3 * ?n" by (simp add: n)
  have "length (concat (map (\<lambda>f. [fst f, fst (snd f), snd (snd f)]) ?rows)) = 3 * length ?rows"
    by (rule length_concat_triples)
  then have lm: "length ?mi = 3 * ?n" unfolding mi by (simp add: assms(1))
  have per: "\<forall>g<?n.
        ?gi ! (3 * g) = int g \<and> ?gi ! (3 * g + 1) = int g \<and> ?gi ! (3 * g + 2) = int g \<and>
        (\<exists>f\<in>set (faces mesh). f = faces mesh ! nat (?t ! g) \<and>
           f = (?mi ! (3 * g), ?mi ! (3 * g + 1), ?mi ! (3 * g + 2)))"
  proof (intro allI impI)
    fix g assume g: "g < ?n"
    have g1: "g < length (map int [0..<length ?gp])" using g n by simp
    have a: "?gi ! (3 * g) = int g \<and> ?gi ! (3 * g + 1) = int g \<and> ?gi ! (3 * g + 2) = int g"
      using nth_concat_triples[OF g1, of "\<lambda>g. g" "\<lambda>g. g" "\<lambda>g. g"] g n by simp
    have g2: "g < length ?rows" using g assms(1) by simp
    have tg: "?t ! g \<in> set ?t" using g assms(1) by simp
    then have v: "0 \<le> ?t ! g \<and> ?t ! g < int (length (faces mesh))" using assms(2) by blast
    then have "nat (?t ! g) < length (faces mesh)" by linarith
    then have fm: "faces mesh ! nat (?t ! g) \<in> set (faces mesh)" by (rule nth_mem)
    have rg: "?rows ! g = faces mesh ! nat (?t ! g)" using g assms(1) by simp
    have b: "(?mi ! (3 * g), ?mi ! (3 * g + 1), ?mi ! (3 * g + 2)) = faces mesh ! nat (?t ! g)"
      unfolding mi
      using nth_concat_triples[OF g2, of fst "\<lambda>f. fst (snd f)" "\<lambda>f. snd (snd f)"]
      by (simp add: rg)
    show "?gi ! (3 * g) = int g \<and> ?gi ! (3 * g + 1) = int g \<and> ?gi ! (3 * g + 2) = int g \<and>
        (\<exists>f\<in>set (faces mesh). f = faces mesh ! nat (?t ! g) \<and>
           f = (?mi ! (3 * g), ?mi ! (3 * g + 1), ?mi ! (3 * g + 2)))"
      using a b fm by auto
  qed
  show ?thesis using r lg lm per by blast
qed

text \<open>
  The statement of C5 on a grid of two points and a mesh of two faces, for a search that
  answers face 1 for every point.
\<close>

theorem point_location_three_edges_witness:
  "in_mesh_triangle_indices (\<lambda>mesh points. map (\<lambda>p. 1) points) [90, 0] [0]
       \<lparr>vertices = [(0, 0, 1), (1, 0, 0), (0, 1, 0), (0, 0, - 1)],
        faces = [(0, 1, 2), (3, 2, 1)]\<rparr> =
     Inr ([0, 0, 0, 1, 1, 1], [3, 2, 1, 3, 2, 1])"
proof -
  let ?cp = "\<lambda>(mesh :: TriangularMesh) (points :: vec list). map (\<lambda>p. 1 :: int) points"
  let ?mesh = "\<lparr>vertices = [(0, 0, 1), (1, 0, 0), (0, 1, 0), (0, 0, - 1)],
        faces = [(0, 1, 2), (3, 2, 1)]\<rparr>"
  have h1: "length (?cp ?mesh (concat (grid_lat_lon_to_coordinates [90, 0] [0])))
             = length [90, 0 :: real] * length [0 :: real]"
    by (simp add: length_grid_positions)
  have h2: "\<forall>t\<in>set (?cp ?mesh (concat (grid_lat_lon_to_coordinates [90, 0] [0]))).
           0 \<le> t \<and> t < int (length (faces ?mesh))"
    by simp
  from point_location_three_edges[of ?cp ?mesh "[90, 0]" "[0]", OF h1 h2]
  obtain gi mi where
    r: "in_mesh_triangle_indices ?cp [90, 0] [0] ?mesh = Inr (gi, mi)"
    by blast
  have "in_mesh_triangle_indices ?cp [90, 0] [0] ?mesh =
     Inr ([0, 0, 0, 1, 1, 1], [3, 2, 1, 3, 2, 1])"
    by (simp add: in_mesh_triangle_indices_def grid_lat_lon_to_coordinates_def bind_err_def
        np_getitem_def)
  then show ?thesis using r by simp
qed

text \<open>
  Claim C5 as stated, for every grid and every mesh, fails: on the grid with the single point
  of latitude 90 and longitude 0 and a mesh without faces, no answer of the closest-triangle
  search makes \<open>in_mesh_triangle_indices\<close> return three mesh indices. Any index the
  search answers raises IndexError in \<open>mesh.faces[query_face_indices]\<close>, and with no
  index the result has three grid indices and no mesh index.
\<close>

theorem no_face_counterexample:
  "(\<forall>closest_point.
      \<not> (\<exists>grid_edge_indices mesh_edge_indices.
            in_mesh_triangle_indices closest_point [90] [0] \<lparr>vertices = [(0, 0, 1)], faces = []\<rparr> =
              Inr (grid_edge_indices, mesh_edge_indices) \<and>
            length mesh_edge_indices = 3)) \<and>
   in_mesh_triangle_indices (\<lambda>mesh points. map (\<lambda>p. 0) points) [90] [0]
       \<lparr>vertices = [(0, 0, 1)], faces = []\<rparr> = Inl IndexError \<and>
   in_mesh_triangle_indices (\<lambda>mesh points. []) [90] [0]
       \<lparr>vertices = [(0, 0, 1)], faces = []\<rparr> = Inr ([0, 0, 0], [])"
proof (intro conjI allI)
  fix closest_point :: "TriangularMesh \<Rightarrow> vec list \<Rightarrow> int list"
  let ?mesh = "\<lparr>vertices = [(0, 0, 1)], faces = []\<rparr> :: TriangularMesh"
  let ?q = "closest_point ?mesh (concat (grid_lat_lon_to_coordinates [90] [0]))"
  show "\<not> (\<exists>grid_edge_indices mesh_edge_indices.
            in_mesh_triangle_indices closest_point [90] [0] ?mesh =
              Inr (grid_edge_indices, mesh_edge_indices) \<and>
            length mesh_edge_indices = 3)"
  proof (cases ?q)
    case Nil
    then show ?thesis
      by (simp add: in_mesh_triangle_indices_def Let_def bind_err_def)
  next
    case (Cons i rest)
    have "np_take (faces ?mesh) ?q = Inl IndexError"
    proof -
      have "np_getitem ([] :: face list) i = Inl IndexError"
        unfolding np_getitem_def by (cases "0 \<le> i") simp_all
      then show ?thesis unfolding Cons by simp
    qed
    then show ?thesis
      by (simp add: in_mesh_triangle_indices_def Let_def bind_err_def)
  qed
next
  show "in_mesh_triangle_indices (\<lambda>mesh points. map (\<lambda>p. 0) points) [90] [0]
       \<lparr>vertices = [(0, 0, 1)], faces = []\<rparr> = Inl IndexError"
    by (simp add: in_mesh_triangle_indices_def Let_def bind_err_def np_getitem_def
        grid_lat_lon_to_coordinates_def)
next
  show "in_mesh_triangle_indices (\<lambda>mesh points. []) [90] [0]
       \<lparr>vertices = [(0, 0, 1)], faces = []\<rparr> = Inr ([0, 0, 0], [])"
    by (simp add: in_mesh_triangle_indices_def Let_def bind_err_def
        grid_lat_lon_to_coordinates_def)
qed

lemma bind_err_Inr_iff: "bind_err r f = Inr y \<longleftrightarrow> (\<exists>x. r = Inr x \<and> f x = Inr y)"
  by (cases r) (simp_all add: bind_err_def)

lemma np_max_Inr_iff: "np_max xs = Inr m \<longleftrightarrow> xs \<noteq> [] \<and> m = Max (set xs)"
  by (auto simp: np_max_def)

lemma vec_norm_nonneg: "0 \<le> vec_norm v"
  by (cases v) (simp add: vec_norm_def)

lemma abs_component_le_vec_norm:
  "\<bar>x\<bar> \<le> vec_norm (x, y, z)" "\<bar>y\<bar> \<le> vec_norm (x, y, z)" "\<bar>z\<bar> \<le> vec_norm (x, y, z)"
proof -
  have "sqrt (x * x) \<le> sqrt (x * x + y * y + z * z)"
    by (rule real_sqrt_le_mono) (simp add: add_nonneg_nonneg)
  then show "\<bar>x\<bar> \<le> vec_norm (x, y, z)" by (simp add: vec_norm_def)
  have "sqrt (y * y) \<le> sqrt (x * x + y * y + z * z)"
    by (rule real_sqrt_le_mono) simp
  then show "\<bar>y\<bar> \<le> vec_norm (x, y, z)" by (simp add: vec_norm_def)
  have "sqrt (z * z) \<le> sqrt (x * x + y * y + z * z)"
    by (rule real_sqrt_le_mono) simp
  then show "\<bar>z\<bar> \<le> vec_norm (x, y, z)" by (simp add: vec_norm_def)
qed

lemma ratio_in_unit:
  assumes "\<bar>a :: real\<bar> \<le> n" "n \<le> m" "0 < m"
  shows "- 1 \<le> a / m \<and> a / m \<le> 1"
proof -
  have "\<bar>a\<bar> \<le> m" using assms by linarith
  then have "\<bar>a / m\<bar> \<le> 1" using assms(3) by simp
  then show ?thesis by linarith
qed

lemma normalized_rows_bounds:
  assumes "rel \<noteq> []" "Max (set (map vec_norm rel)) \<noteq> 0"
  shows "Some 1 \<in> set (map (\<lambda>row. row ! 0) (normalized_rows (Max (set (map vec_norm rel))) rel))"
    and "\<forall>row\<in>set (normalized_rows (Max (set (map vec_norm rel))) rel).
           (\<exists>d. row ! 0 = Some d \<and> 0 \<le> d \<and> d \<le> 1) \<and>
           (\<forall>c\<in>set row. \<exists>v. c = Some v \<and> - 1 \<le> v \<and> v \<le> 1)"
proof -
  let ?m = "Max (set (map vec_norm rel))"
  have fin: "finite (set (map vec_norm rel))" by simp
  have ne: "set (map vec_norm rel) \<noteq> {}" using assms(1) by simp
  have le: "\<And>v. v \<in> set rel \<Longrightarrow> vec_norm v \<le> ?m"
    by (rule Max_ge[OF fin]) simp
  obtain v0 where v0: "v0 \<in> set rel" using assms(1) by (cases rel) auto
  have "0 \<le> ?m" using le[OF v0] vec_norm_nonneg[of v0] by linarith
  then have pos: "0 < ?m" using assms(2) by linarith
  have "?m \<in> set (map vec_norm rel)" by (rule Max_in[OF fin ne])
  then obtain w where w: "w \<in> set rel" "vec_norm w = ?m" by auto
  obtain x y z where wx: "w = (x, y, z)" by (cases w) auto
  have "(\<lambda>row. row ! 0) ((\<lambda>(x, y, z). [np_true_divide (vec_norm (x, y, z)) ?m, np_true_divide x ?m,
                        np_true_divide y ?m, np_true_divide z ?m]) w) = Some 1"
    using w(2) pos by (simp add: wx np_true_divide_def)
  then show "Some 1 \<in> set (map (\<lambda>row. row ! 0) (normalized_rows ?m rel))"
    unfolding normalized_rows_def using w(1) by (force simp: image_iff)
  show "\<forall>row\<in>set (normalized_rows ?m rel).
           (\<exists>d. row ! 0 = Some d \<and> 0 \<le> d \<and> d \<le> 1) \<and>
           (\<forall>c\<in>set row. \<exists>v. c = Some v \<and> - 1 \<le> v \<and> v \<le> 1)"
  proof
    fix row assume "row \<in> set (normalized_rows ?m rel)"
    then obtain a b c where abc: "(a, b, c) \<in> set rel"
      and row: "row = [np_true_divide (vec_norm (a, b, c)) ?m, np_true_divide a ?m,
                        np_true_divide b ?m, np_true_divide c ?m]"
      by (auto simp: normalized_rows_def)
    have n: "vec_norm (a, b, c) \<le> ?m" by (rule le[OF abc])
    have n0: "0 \<le> vec_norm (a, b, c)" by (rule vec_norm_nonneg)
    have d: "0 \<le> vec_norm (a, b, c) / ?m \<and> vec_norm (a, b, c) / ?m \<le> 1"
      using n n0 pos by simp
    have ra: "- 1 \<le> a / ?m \<and> a / ?m \<le> 1"
      by (rule ratio_in_unit[OF abs_component_le_vec_norm(1) n pos])
    have rb: "- 1 \<le> b / ?m \<and> b / ?m \<le> 1"
      by (rule ratio_in_unit[OF abs_component_le_vec_norm(2) n pos])
    have rc: "- 1 \<le> c / ?m \<and> c / ?m \<le> 1"
      by (rule ratio_in_unit[OF abs_component_le_vec_norm(3) n pos])
    have rd: "- 1 \<le> vec_norm (a, b, c) / ?m" using d by linarith
    show "(\<exists>d. row ! 0 = Some d \<and> 0 \<le> d \<and> d \<le> 1) \<and>
           (\<forall>c\<in>set row. \<exists>v. c = Some v \<and> - 1 \<le> v \<and> v \<le> 1)"
      using pos d ra rb rc rd by (simp add: row np_true_divide_def)
  qed
qed

lemma graph_edge_features:
  assumes "get_graph_spatial_features node_lat node_lon senders receivers
             add_node_positions add_node_latitude add_node_longitude True
             relative_longitude_local_coordinates relative_latitude_local_coordinates
           = Inr (node_features, edge_features)"
  shows "\<exists>relative_position.
           get_relative_position_in_receiver_local_coordinates
             (fst (lat_lon_deg_to_spherical node_lat node_lon))
             (snd (lat_lon_deg_to_spherical node_lat node_lon)) senders receivers
             relative_latitude_local_coordinates relative_longitude_local_coordinates
           = Inr relative_position \<and>
           relative_position \<noteq> [] \<and>
           edge_features =
             normalized_rows (Max (set (map vec_norm relative_position))) relative_position"
  using assms
  by (auto simp: get_graph_spatial_features_def Let_def bind_err_Inr_iff np_max_Inr_iff
      normalized_rows_def)

lemma bipartite_edge_features:
  assumes "get_bipartite_graph_spatial_features senders_node_lat senders_node_lon senders
             receivers_node_lat receivers_node_lon receivers
             add_node_positions add_node_latitude add_node_longitude True
             edge_normalization_factor
             relative_longitude_local_coordinates relative_latitude_local_coordinates
           = Inr (senders_node_features, receivers_node_features, edge_features)"
  shows "\<exists>relative_position.
           get_bipartite_relative_position_in_receiver_local_coordinates
             (fst (lat_lon_deg_to_spherical senders_node_lat senders_node_lon))
             (snd (lat_lon_deg_to_spherical senders_node_lat senders_node_lon)) senders
             (fst (lat_lon_deg_to_spherical receivers_node_lat receivers_node_lon))
             (snd (lat_lon_deg_to_spherical receivers_node_lat receivers_node_lon)) receivers
             relative_latitude_local_coordinates relative_longitude_local_coordinates
           = Inr relative_position \<and>
           (case edge_normalization_factor of
              None \<Rightarrow> relative_position \<noteq> [] \<and>
                edge_features =
                  normalized_rows (Max (set (map vec_norm relative_position))) relative_position
            | Some factor \<Rightarrow> edge_features = normalized_rows factor relative_position)"
  using assms
  by (auto simp: get_bipartite_graph_spatial_features_def Let_def bind_err_Inr_iff np_max_Inr_iff
      normalized_rows_def split: option.splits)

lemma deg2rad_values: "deg2rad 0 = 0" "deg2rad 90 = pi / 2" "deg2rad (90 - 0) = pi / 2"
  by (simp_all add: deg2rad_def)

lemma spherical_two_nodes:
  "lat_lon_deg_to_spherical [0, 0] [0, 90] = ([0, pi / 2], [pi / 2, pi / 2])"
  by (simp add: lat_lon_deg_to_spherical_def deg2rad_values)

lemma relpos_two_nodes:
  "get_relative_position_in_receiver_local_coordinates [0, pi / 2] [pi / 2, pi / 2] [0, 1] [1, 0]
     False False = Inr [(1, - 1, 0), (- 1, 1, 0)]"
  by (simp add: get_relative_position_in_receiver_local_coordinates_def spherical_to_cartesian_def
      np_broadcast2_def bind_err_def np_stack_xyz_def np_getitem_def vec_sub_def upt_rec)

lemma norm_diag: "vec_norm (1, - 1, 0) = sqrt 2" "vec_norm (- 1, 1, 0) = sqrt 2"
  by (simp_all add: vec_norm_def)

lemma gsf_two_nodes:
  "\<exists>nf ef. get_graph_spatial_features [0, 0] [0, 90] [0, 1] [1, 0] False False False True False False
     = Inr (nf, ef)"
  by (simp add: get_graph_spatial_features_def spherical_two_nodes relpos_two_nodes
      bind_err_def np_max_def)

lemma bipartite_relpos_two_nodes:
  "get_bipartite_relative_position_in_receiver_local_coordinates [0] [pi / 2] [0]
     [pi / 2] [pi / 2] [0] False False = Inr [(1, - 1, 0)]"
  by (simp add: get_bipartite_relative_position_in_receiver_local_coordinates_def
      spherical_to_cartesian_def np_broadcast2_def bind_err_def np_stack_xyz_def np_getitem_def
      vec_sub_def)

lemma spherical_one_node:
  "lat_lon_deg_to_spherical [0] [0] = ([0], [pi / 2])"
  "lat_lon_deg_to_spherical [0] [90] = ([pi / 2], [pi / 2])"
  by (simp_all add: lat_lon_deg_to_spherical_def deg2rad_values)

lemma bipartite_two_nodes:
  "\<exists>sf rf ef. get_bipartite_graph_spatial_features [0] [0] [0] [0] [90] [0]
      False False False True factor False False = Inr (sf, rf, ef)"
  by (cases factor)
     (simp_all add: get_bipartite_graph_spatial_features_def spherical_one_node
        bipartite_relpos_two_nodes bind_err_def np_max_def)

text \<open>
  Claim C7, as amended. Whenever an encoder returns with relative positions requested, its
  edge rows are the relative distance and the three components of the relative position
  of each edge, divided by one factor. Without an explicit factor (always so in
  \<open>get_graph_spatial_features\<close>) the factor is the largest relative distance of the edge
  set, which is then not empty; if that largest distance is not zero, some distance feature
  is exactly 1, every distance feature lies in \<open>[0, 1]\<close> and every entry of every row in
  \<open>[-1, 1]\<close>. With an explicit factor the divisor is that factor, whatever the
  distances are.
\<close>

theorem edge_feature_normalization:
  "(get_graph_spatial_features node_lat node_lon senders receivers
       add_node_positions add_node_latitude add_node_longitude True
       relative_longitude_local_coordinates relative_latitude_local_coordinates
     = Inr (node_features, edge_features) \<longrightarrow>
    (\<exists>relative_position.
       get_relative_position_in_receiver_local_coordinates
         (fst (lat_lon_deg_to_spherical node_lat node_lon))
         (snd (lat_lon_deg_to_spherical node_lat node_lon)) senders receivers
         relative_latitude_local_coordinates relative_longitude_local_coordinates
       = Inr relative_position \<and>
       relative_position \<noteq> [] \<and>
       edge_features =
         normalized_rows (Max (set (map vec_norm relative_position))) relative_position \<and>
       (Max (set (map vec_norm relative_position)) \<noteq> 0 \<longrightarrow>
          Some 1 \<in> set (map (\<lambda>row. row ! 0) edge_features) \<and>
          (\<forall>row\<in>set edge_features.
             (\<exists>d. row ! 0 = Some d \<and> 0 \<le> d \<and> d \<le> 1) \<and>
             (\<forall>c\<in>set row. \<exists>v. c = Some v \<and> - 1 \<le> v \<and> v \<le> 1))))) \<and>
   (get_bipartite_graph_spatial_features senders_node_lat senders_node_lon bsenders
       receivers_node_lat receivers_node_lon breceivers
       add_node_positions add_node_latitude add_node_longitude True None
       relative_longitude_local_coordinates relative_latitude_local_coordinates
     = Inr (senders_node_features, receivers_node_features, bedge_features) \<longrightarrow>
    (\<exists>relative_position.
       get_bipartite_relative_position_in_receiver_local_coordinates
         (fst (lat_lon_deg_to_spherical senders_node_lat senders_node_lon))
         (snd (lat_lon_deg_to_spherical senders_node_lat senders_node_lon)) bsenders
         (fst (lat_lon_deg_to_spherical receivers_node_lat receivers_node_lon))
         (snd (lat_lon_deg_to_spherical receivers_node_lat receivers_node_lon)) breceivers
         relative_latitude_local_coordinates relative_longitude_local_coordinates
       = Inr relative_position \<and>
       relative_position \<noteq> [] \<and>
       bedge_features =
         normalized_rows (Max (set (map vec_norm relative_position))) relative_position \<and>
       (Max (set (map vec_norm relative_position)) \<noteq> 0 \<longrightarrow>
          Some 1 \<in> set (map (\<lambda>row. row ! 0) bedge_features) \<and>
          (\<forall>row\<in>set bedge_features.
             (\<exists>d. row ! 0 = Some d \<and> 0 \<le> d \<and> d \<le> 1) \<and>
             (\<forall>c\<in>set row. \<exists>v. c = Some v \<and> - 1 \<le> v \<and> v \<le> 1))))) \<and>
   (get_bipartite_graph_spatial_features senders_node_lat senders_node_lon bsenders
       receivers_node_lat receivers_node_lon breceivers
       add_node_positions add_node_latitude add_node_longitude True (Some factor)
       relative_longitude_local_coordinates relative_latitude_local_coordinates
     = Inr (senders_node_features', receivers_node_features', fedge_features) \<longrightarrow>
    (\<exists>relative_position.
       get_bipartite_relative_position_in_receiver_local_coordinates
         (fst (lat_lon_deg_to_spherical senders_node_lat senders_node_lon))
         (snd (lat_lon_deg_to_spherical senders_node_lat senders_node_lon)) bsenders
         (fst (lat_lon_deg_to_spherical receivers_node_lat receivers_node_lon))
         (snd (lat_lon_deg_to_spherical receivers_node_lat receivers_node_lon)) breceivers
         relative_latitude_local_coordinates relative_longitude_local_coordinates
       = Inr relative_position \<and>
       fedge_features = normalized_rows factor relative_position))"
proof (intro conjI impI)
  assume a: "get_graph_spatial_features node_lat node_lon senders receivers
       add_node_positions add_node_latitude add_node_longitude True
       relative_longitude_local_coordinates relative_latitude_local_coordinates
     = Inr (node_features, edge_features)"
  from graph_edge_features[OF a] obtain rel where
    r: "get_relative_position_in_receiver_local_coordinates
         (fst (lat_lon_deg_to_spherical node_lat node_lon))
         (snd (lat_lon_deg_to_spherical node_lat node_lon)) senders receivers
         relative_latitude_local_coordinates relative_longitude_local_coordinates = Inr rel"
       "rel \<noteq> []" "edge_features = normalized_rows (Max (set (map vec_norm rel))) rel"
    by blast
  have b: "Max (set (map vec_norm rel)) \<noteq> 0 \<longrightarrow>
          Some 1 \<in> set (map (\<lambda>row. row ! 0) edge_features) \<and>
          (\<forall>row\<in>set edge_features.
             (\<exists>d. row ! 0 = Some d \<and> 0 \<le> d \<and> d \<le> 1) \<and>
             (\<forall>c\<in>set row. \<exists>v. c = Some v \<and> - 1 \<le> v \<and> v \<le> 1))"
    unfolding r(3) using normalized_rows_bounds[OF r(2)] by blast
  show "\<exists>relative_position.
       get_relative_position_in_receiver_local_coordinates
         (fst (lat_lon_deg_to_spherical node_lat node_lon))
         (snd (lat_lon_deg_to_spherical node_lat node_lon)) senders receivers
         relative_latitude_local_coordinates relative_longitude_local_coordinates
       = Inr relative_position \<and>
       relative_position \<noteq> [] \<and>
       edge_features =
         normalized_rows (Max (set (map vec_norm relative_position))) relative_position \<and>
       (Max (set (map vec_norm relative_position)) \<noteq> 0 \<longrightarrow>
          Some 1 \<in> set (map (\<lambda>row. row ! 0) edge_features) \<and>
          (\<forall>row\<in>set edge_features.
             (\<exists>d. row ! 0 = Some d \<and> 0 \<le> d \<and> d \<le> 1) \<and>
             (\<forall>c\<in>set row. \<exists>v. c = Some v \<and> - 1 \<le> v \<and> v \<le> 1)))"
    by (rule exI[of _ rel]) (intro conjI r b)
next
  assume a: "get_bipartite_graph_spatial_features senders_node_lat senders_node_lon bsenders
       receivers_node_lat receivers_node_lon breceivers
       add_node_positions add_node_latitude add_node_longitude True None
       relative_longitude_local_coordinates relative_latitude_local_coordinates
     = Inr (senders_node_features, receivers_node_features, bedge_features)"
  from bipartite_edge_features[OF a] obtain rel where
    r: "get_bipartite_relative_position_in_receiver_local_coordinates
         (fst (lat_lon_deg_to_spherical senders_node_lat senders_node_lon))
         (snd (lat_lon_deg_to_spherical senders_node_lat senders_node_lon)) bsenders
         (fst (lat_lon_deg_to_spherical receivers_node_lat receivers_node_lon))
         (snd (lat_lon_deg_to_spherical receivers_node_lat receivers_node_lon)) breceivers
         relative_latitude_local_coordinates relative_longitude_local_coordinates = Inr rel"
       "rel \<noteq> []" "bedge_features = normalized_rows (Max (set (map vec_norm rel))) rel"
    by auto
  have b: "Max (set (map vec_norm rel)) \<noteq> 0 \<longrightarrow>
          Some 1 \<in> set (map (\<lambda>row. row ! 0) bedge_features) \<and>
          (\<forall>row\<in>set bedge_features.
             (\<exists>d. row ! 0 = Some d \<and> 0 \<le> d \<and> d \<le> 1) \<and>
             (\<forall>c\<in>set row. \<exists>v. c = Some v \<and> - 1 \<le> v \<and> v \<le> 1))"
    unfolding r(3) using normalized_rows_bounds[OF r(2)] by blast
  show "\<exists>relative_position.
       get_bipartite_relative_position_in_receiver_local_coordinates
         (fst (lat_lon_deg_to_spherical senders_node_lat senders_node_lon))
         (snd (lat_lon_deg_to_spherical senders_node_lat senders_node_lon)) bsenders
         (fst (lat_lon_deg_to_spherical receivers_node_lat receivers_node_lon))
         (snd (lat_lon_deg_to_spherical receivers_node_lat receivers_node_lon)) breceivers
         relative_latitude_local_coordinates relative_longitude_local_coordinates
       = Inr relative_position \<and>
       relative_position \<noteq> [] \<and>
       bedge_features =
         normalized_rows (Max (set (map vec_norm relative_position))) relative_position \<and>
       (Max (set (map vec_norm relative_position)) \<noteq> 0 \<longrightarrow>
          Some 1 \<in> set (map (\<lambda>row. row ! 0) bedge_features) \<and>
          (\<forall>row\<in>set bedge_features.
             (\<exists>d. row ! 0 = Some d \<and> 0 \<le> d \<and> d \<le> 1) \<and>
             (\<forall>c\<in>set row. \<exists>v. c = Some v \<and> - 1 \<le> v \<and> v \<le> 1)))"
    by (rule exI[of _ rel]) (intro conjI r b)
next
  assume a: "get_bipartite_graph_spatial_features senders_node_lat senders_node_lon bsenders
       receivers_node_lat receivers_node_lon breceivers
       add_node_positions add_node_latitude add_node_longitude True (Some factor)
       relative_longitude_local_coordinates relative_latitude_local_coordinates
     = Inr (senders_node_features', receivers_node_features', fedge_features)"
  from bipartite_edge_features[OF a]
  show "\<exists>relative_position.
       get_bipartite_relative_position_in_receiver_local_coordinates
         (fst (lat_lon_deg_to_spherical senders_node_lat senders_node_lon))
         (snd (lat_lon_deg_to_spherical senders_node_lat senders_node_lon)) bsenders
         (fst (lat_lon_deg_to_spherical receivers_node_lat receivers_node_lon))
         (snd (lat_lon_deg_to_spherical receivers_node_lat receivers_node_lon)) breceivers
         relative_latitude_local_coordinates relative_longitude_local_coordinates
       = Inr relative_position \<and>
       fedge_features = normalized_rows factor relative_position"
    by simp
qed

text \<open>
  The amended C7 on two nodes on the equator a quarter turn apart: with the default factor
  the distance feature 1 appears in both encoders; with the explicit factor 2 the rows are
  the halves of the relative distance \<open>sqrt 2\<close> and of the relative position.
\<close>

theorem edge_feature_normalization_witness:
  "(\<exists>nf ef. get_graph_spatial_features [0, 0] [0, 90] [0, 1] [1, 0]
        False False False True False False = Inr (nf, ef) \<and>
      Some 1 \<in> set (map (\<lambda>row. row ! 0) ef)) \<and>
   (\<exists>sf rf ef. get_bipartite_graph_spatial_features [0] [0] [0] [0] [90] [0]
        False False False True None False False = Inr (sf, rf, ef) \<and>
      Some 1 \<in> set (map (\<lambda>row. row ! 0) ef)) \<and>
   (\<exists>sf rf ef. get_bipartite_graph_spatial_features [0] [0] [0] [0] [90] [0]
        False False False True (Some 2) False False = Inr (sf, rf, ef) \<and>
      ef = [[Some (sqrt 2 / 2), Some (1 / 2), Some (- 1 / 2), Some 0]])"
proof -
  obtain nf ef where g: "get_graph_spatial_features [0, 0] [0, 90] [0, 1] [1, 0]
        False False False True False False = Inr (nf, ef)"
    using gsf_two_nodes by blast
  obtain sf rf bef where b: "get_bipartite_graph_spatial_features [0] [0] [0] [0] [90] [0]
        False False False True None False False = Inr (sf, rf, bef)"
    using bipartite_two_nodes[of None] by blast
  obtain sf' rf' fef where f: "get_bipartite_graph_spatial_features [0] [0] [0] [0] [90] [0]
        False False False True (Some 2) False False = Inr (sf', rf', fef)"
    using bipartite_two_nodes[of "Some 2"] by blast
  note t = edge_feature_normalization[where node_lat = "[0, 0]" and node_lon = "[0, 90]"
      and senders = "[0, 1]" and receivers = "[1, 0]" and add_node_positions = False
      and add_node_latitude = False and add_node_longitude = False
      and relative_longitude_local_coordinates = False
      and relative_latitude_local_coordinates = False
      and node_features = nf and edge_features = ef
      and senders_node_lat = "[0]" and senders_node_lon = "[0]" and bsenders = "[0]"
      and receivers_node_lat = "[0]" and receivers_node_lon = "[90]" and breceivers = "[0]"
      and senders_node_features = sf and receivers_node_features = rf and bedge_features = bef
      and factor = 2 and senders_node_features' = sf' and receivers_node_features' = rf'
      and fedge_features = fef]
  from t g obtain rel where
    r: "get_relative_position_in_receiver_local_coordinates
         (fst (lat_lon_deg_to_spherical [0, 0] [0, 90]))
         (snd (lat_lon_deg_to_spherical [0, 0] [0, 90])) [0, 1] [1, 0] False False = Inr rel"
       "Max (set (map vec_norm rel)) \<noteq> 0 \<longrightarrow> Some 1 \<in> set (map (\<lambda>row. row ! 0) ef)"
    by blast
  have "rel = [(1, - 1, 0), (- 1, 1, 0)]"
    using r(1) by (simp add: spherical_two_nodes relpos_two_nodes)
  then have "Max (set (map vec_norm rel)) = sqrt 2" by (simp add: norm_diag)
  then have p1: "Some 1 \<in> set (map (\<lambda>row. row ! 0) ef)" using r(2) by simp
  from t b obtain brel where
    br: "get_bipartite_relative_position_in_receiver_local_coordinates
         (fst (lat_lon_deg_to_spherical [0] [0])) (snd (lat_lon_deg_to_spherical [0] [0])) [0]
         (fst (lat_lon_deg_to_spherical [0] [90])) (snd (lat_lon_deg_to_spherical [0] [90])) [0]
         False False = Inr brel"
       "Max (set (map vec_norm brel)) \<noteq> 0 \<longrightarrow> Some 1 \<in> set (map (\<lambda>row. row ! 0) bef)"
    by blast
  have "brel = [(1, - 1, 0)]"
    using br(1) by (simp add: spherical_one_node bipartite_relpos_two_nodes)
  then have "Max (set (map vec_norm brel)) = sqrt 2" by (simp add: norm_diag)
  then have p2: "Some 1 \<in> set (map (\<lambda>row. row ! 0) bef)" using br(2) by simp
  from t f obtain frel where
    fr: "get_bipartite_relative_position_in_receiver_local_coordinates
         (fst (lat_lon_deg_to_spherical [0] [0])) (snd (lat_lon_deg_to_spherical [0] [0])) [0]
         (fst (lat_lon_deg_to_spherical [0] [90])) (snd (lat_lon_deg_to_spherical [0] [90])) [0]
         False False = Inr frel"
       "fef = normalized_rows 2 frel"
    by blast
  have "frel = [(1, - 1, 0)]"
    using fr(1) by (simp add: spherical_one_node bipartite_relpos_two_nodes)
  then have p3: "fef = [[Some (sqrt 2 / 2), Some (1 / 2), Some (- 1 / 2), Some 0]]"
    using fr(2) by (simp add: normalized_rows_def np_true_divide_def norm_diag)
  show ?thesis using g p1 b p2 f p3 by blast
qed

text \<open>
  Claim C7 as stated fails on an edge set whose edges all have length zero: for the single
  edge from node 0 to itself the largest distance is 0, every feature is \<open>0 / 0\<close>, that
  is nan, and no distance feature is 1.
\<close>

theorem self_loop_counterexample:
  "get_graph_spatial_features [0] [0] [0] [0] False False False True False False =
     Inr ([[]], [[None, None, None, None]])"
  by (simp add: get_graph_spatial_features_def lat_lon_deg_to_spherical_def
      get_relative_position_in_receiver_local_coordinates_def spherical_to_cartesian_def
      np_broadcast2_def bind_err_def np_stack_xyz_def np_getitem_def vec_sub_def
      np_max_def np_true_divide_def vec_norm_def)

subsection \<open>The two branches of GraphGridMesh\<close>

lemma should_init_iff:
  "should_init args \<longleftrightarrow>
     arg_mesh2mesh_src_index args = None \<or> arg_mesh2mesh_dst_index args = None \<or>
     arg_grid2mesh_src_index args = None \<or> arg_grid2mesh_dst_index args = None \<or>
     arg_mesh2grid_src_index args = None \<or> arg_mesh2grid_dst_index args = None \<or>
     arg_mesh_num_nodes args = None \<or> arg_grid_num_nodes args = None \<or>
     arg_mesh_num_edges args = None \<or> arg_grid2mesh_num_edges args = None \<or>
     arg_mesh2grid_num_edges args = None \<or> arg_grid_node_feat args = None \<or>
     arg_mesh_node_feat args = None \<or> arg_mesh_edge_feat args = None \<or>
     arg_grid2mesh_edge_feat args = None \<or> arg_mesh2grid_edge_feat args = None"
  by (simp add: should_init_def)

lemma should_init_none_args: "should_init none_args"
  by (simp add: should_init_def none_args_def)

lemma init_args_ignored:
  "should_init args \<Longrightarrow>
     GraphGridMesh_init closest_point cfg args = GraphGridMesh_init closest_point cfg none_args"
  by (simp add: GraphGridMesh_init_def should_init_none_args)

lemma get_attr_Inr_iff: "get_attr a = Inr v \<longleftrightarrow> a = Some v"
  by (cases a) (simp_all add: get_attr_def)

lemma finest_mesh_Inr_iff: "finest_mesh self = Inr m \<longleftrightarrow> meshes self \<noteq> [] \<and> m = last (meshes self)"
  by (auto simp: finest_mesh_def)

lemma init_mesh_properties_Inr:
  assumes "init_mesh_properties self = Inr self'"
  shows "meshes self \<noteq> [] \<and>
         self' = self\<lparr>mesh_num_nodes := Some (int (length (vertices (last (meshes self))))),
                      priv_mesh_nodes_lat :=
                        Some (fst (spherical_to_lat_lon
                                (map (\<lambda>v. fst (cartesian_to_spherical v)) (vertices (last (meshes self))))
                                (map (\<lambda>v. snd (cartesian_to_spherical v)) (vertices (last (meshes self)))))),
                      priv_mesh_nodes_lon :=
                        Some (snd (spherical_to_lat_lon
                                (map (\<lambda>v. fst (cartesian_to_spherical v)) (vertices (last (meshes self))))
                                (map (\<lambda>v. snd (cartesian_to_spherical v)) (vertices (last (meshes self))))))\<rparr>"
  using assms
  by (auto simp: init_mesh_properties_def bind_err_Inr_iff finest_mesh_Inr_iff Let_def)

lemma init_grid2mesh_graph_Inr:
  assumes "init_grid2mesh_graph self = Inr self'"
  shows "\<exists>grid_lat grid_lon radius gs gd gnlat gnlon mlat mlon k snf rnf ef.
           priv_grid_lat self = Some grid_lat \<and> priv_grid_lon self = Some grid_lon \<and>
           meshes self \<noteq> [] \<and> query_radius self = Some radius \<and>
           radius_query_indices grid_lat grid_lon (last (meshes self)) radius = Inr (gs, gd) \<and>
           priv_grid_nodes_lat self = Some gnlat \<and> priv_grid_nodes_lon self = Some gnlon \<and>
           priv_mesh_nodes_lat self = Some mlat \<and> priv_mesh_nodes_lon self = Some mlon \<and>
           priv_spatial_features_kwargs self = Some k \<and>
           (case k of (p, la, lo, rel, lonl, latl) \<Rightarrow>
              get_bipartite_graph_spatial_features gnlat gnlon gs mlat mlon gd
                p la lo rel None lonl latl) = Inr (snf, rnf, ef) \<and>
           self' = self\<lparr>grid_node_feat := Some (expand_dims_1 snf),
                        grid2mesh_src_index := Some gs,
                        grid2mesh_dst_index := Some gd,
                        grid2mesh_edge_feat := Some (expand_dims_1 ef),
                        grid2mesh_num_edges := Some (int (length ef))\<rparr>"
  using assms
  by (auto simp: init_grid2mesh_graph_def bind_err_Inr_iff get_attr_Inr_iff finest_mesh_Inr_iff
      Let_def split_def)

lemma init_mesh_graph_Inr:
  assumes "init_mesh_graph self = Inr self'"
  shows "\<exists>merged mlat mlon k nf ef.
           merge_meshes (meshes self) = Inr merged \<and>
           priv_mesh_nodes_lat self = Some mlat \<and> priv_mesh_nodes_lon self = Some mlon \<and>
           priv_spatial_features_kwargs self = Some k \<and>
           (case k of (p, la, lo, rel, lonl, latl) \<Rightarrow>
              get_graph_spatial_features mlat mlon (fst (faces_to_edges (faces merged)))
                (snd (faces_to_edges (faces merged))) p la lo rel lonl latl) = Inr (nf, ef) \<and>
           self' = self\<lparr>mesh_node_feat := Some (expand_dims_1 nf),
                        mesh2mesh_src_index := Some (fst (faces_to_edges (faces merged))),
                        mesh2mesh_dst_index := Some (snd (faces_to_edges (faces merged))),
                        mesh_edge_feat := Some (expand_dims_1 ef),
                        mesh_num_edges := Some (int (length ef))\<rparr>"
  using assms
  by (auto simp: init_mesh_graph_def bind_err_Inr_iff get_attr_Inr_iff
      Let_def split_def)

lemma init_mesh2grid_graph_Inr:
  assumes "init_mesh2grid_graph closest_point self = Inr self'"
  shows "\<exists>grid_lat grid_lon gi mi gnlat gnlon mlat mlon factor k snf rnf ef.
           priv_grid_lat self = Some grid_lat \<and> priv_grid_lon self = Some grid_lon \<and>
           meshes self \<noteq> [] \<and>
           in_mesh_triangle_indices closest_point grid_lat grid_lon (last (meshes self)) = Inr (gi, mi) \<and>
           priv_mesh_nodes_lat self = Some mlat \<and> priv_mesh_nodes_lon self = Some mlon \<and>
           priv_grid_nodes_lat self = Some gnlat \<and> priv_grid_nodes_lon self = Some gnlon \<and>
           priv_mesh2grid_edge_normalization_factor self = Some factor \<and>
           priv_spatial_features_kwargs self = Some k \<and>
           (case k of (p, la, lo, rel, lonl, latl) \<Rightarrow>
              get_bipartite_graph_spatial_features mlat mlon mi gnlat gnlon gi
                p la lo rel factor lonl latl) = Inr (snf, rnf, ef) \<and>
           self' = self\<lparr>mesh2grid_src_index := Some mi,
                        mesh2grid_dst_index := Some gi,
                        mesh2grid_edge_feat := Some (expand_dims_1 ef),
                        mesh2grid_num_edges := Some (int (length ef))\<rparr>"
  using assms
  by (auto simp: init_mesh2grid_graph_def bind_err_Inr_iff get_attr_Inr_iff finest_mesh_Inr_iff
      Let_def split_def)

lemma init_pipeline_result:
  assumes "should_init args" "GraphGridMesh_init closest_point cfg args = Inr self"
  shows "pipeline_result closest_point cfg self"
proof -
  from assms obtain ms max_d s1 grid_lat grid_lon s3 s4 s5 where
    h: "get_hierarchy_of_triangular_meshes_for_sphere (mesh_size cfg) = Inr ms"
    and ne: "ms \<noteq> []"
    and md: "get_max_edge_distance (last ms) = Inr max_d"
    and i1: "init_mesh_properties
               ((new_GraphGridMesh ms)
                  \<lparr>query_radius := Some (max_d * radius_query_fraction_edge_length cfg),
                   priv_mesh2grid_edge_normalization_factor :=
                     Some (mesh2grid_edge_normalization_factor cfg),
                   priv_spatial_features_kwargs := Some (False, True, True, True, True, True)\<rparr>)
             = Inr s1"
    and a1: "np_arange (- 90) (90 + resolution cfg) (resolution cfg) = Inr grid_lat"
    and a2: "np_arange 0 360 (resolution cfg) = Inr grid_lon"
    and i3: "init_grid2mesh_graph (init_grid_properties s1 grid_lat grid_lon) = Inr s3"
    and i4: "init_mesh_graph (s3\<lparr>priv_grid2mesh_graph_structure := Some ()\<rparr>) = Inr s4"
    and i5: "init_mesh2grid_graph closest_point (s4\<lparr>priv_mesh_graph_structure := Some ()\<rparr>) = Inr s5"
    and fin: "self = s5\<lparr>priv_mesh2grid_graph_structure := Some ()\<rparr>"
    by (auto simp: GraphGridMesh_init_def bind_err_Inr_iff finest_mesh_Inr_iff Let_def
        new_GraphGridMesh_def)
  let ?s0 = "(new_GraphGridMesh ms)
                  \<lparr>query_radius := Some (max_d * radius_query_fraction_edge_length cfg),
                   priv_mesh2grid_edge_normalization_factor :=
                     Some (mesh2grid_edge_normalization_factor cfg),
                   priv_spatial_features_kwargs := Some (False, True, True, True, True, True)\<rparr>"
  let ?mlat = "fst (spherical_to_lat_lon
                      (map (\<lambda>v. fst (cartesian_to_spherical v)) (vertices (last ms)))
                      (map (\<lambda>v. snd (cartesian_to_spherical v)) (vertices (last ms))))"
  let ?mlon = "snd (spherical_to_lat_lon
                      (map (\<lambda>v. fst (cartesian_to_spherical v)) (vertices (last ms)))
                      (map (\<lambda>v. snd (cartesian_to_spherical v)) (vertices (last ms))))"
  let ?gnlat = "concat (map (\<lambda>lat. map (\<lambda>lon. lat) grid_lon) grid_lat)"
  let ?gnlon = "concat (map (\<lambda>lat. grid_lon) grid_lat)"
  have m0: "meshes ?s0 = ms" by (simp add: new_GraphGridMesh_def)
  from init_mesh_properties_Inr[OF i1]
  have s1: "s1 = ?s0\<lparr>mesh_num_nodes := Some (int (length (vertices (last ms)))),
                       priv_mesh_nodes_lat := Some ?mlat, priv_mesh_nodes_lon := Some ?mlon\<rparr>"
    by (simp add: m0)
  let ?s2 = "init_grid_properties s1 grid_lat grid_lon"
  have f2: "meshes ?s2 = ms" "query_radius ?s2 = Some (max_d * radius_query_fraction_edge_length cfg)"
    "priv_grid_lat ?s2 = Some grid_lat" "priv_grid_lon ?s2 = Some grid_lon"
    "priv_grid_nodes_lat ?s2 = Some ?gnlat" "priv_grid_nodes_lon ?s2 = Some ?gnlon"
    "priv_mesh_nodes_lat ?s2 = Some ?mlat" "priv_mesh_nodes_lon ?s2 = Some ?mlon"
    "priv_spatial_features_kwargs ?s2 = Some (False, True, True, True, True, True)"
    "priv_mesh2grid_edge_normalization_factor ?s2 = Some (mesh2grid_edge_normalization_factor cfg)"
    by (simp_all add: s1 init_grid_properties_def new_GraphGridMesh_def)
  from init_grid2mesh_graph_Inr[OF i3] obtain gs gd snf rnf gef where
    rq: "radius_query_indices grid_lat grid_lon (last ms)
           (max_d * radius_query_fraction_edge_length cfg) = Inr (gs, gd)"
    and gf: "get_bipartite_graph_spatial_features ?gnlat ?gnlon gs ?mlat ?mlon gd
               False True True True None True True = Inr (snf, rnf, gef)"
    and s3: "s3 = ?s2\<lparr>grid_node_feat := Some (expand_dims_1 snf),
                        grid2mesh_src_index := Some gs,
                        grid2mesh_dst_index := Some gd,
                        grid2mesh_edge_feat := Some (expand_dims_1 gef),
                        grid2mesh_num_edges := Some (int (length gef))\<rparr>"
    by (auto simp: f2)
  let ?s3 = "s3\<lparr>priv_grid2mesh_graph_structure := Some ()\<rparr>"
  have f3: "meshes ?s3 = ms"
    "priv_grid_lat ?s3 = Some grid_lat" "priv_grid_lon ?s3 = Some grid_lon"
    "priv_grid_nodes_lat ?s3 = Some ?gnlat" "priv_grid_nodes_lon ?s3 = Some ?gnlon"
    "priv_mesh_nodes_lat ?s3 = Some ?mlat" "priv_mesh_nodes_lon ?s3 = Some ?mlon"
    "priv_spatial_features_kwargs ?s3 = Some (False, True, True, True, True, True)"
    "priv_mesh2grid_edge_normalization_factor ?s3 = Some (mesh2grid_edge_normalization_factor cfg)"
    "query_radius ?s3 = Some (max_d * radius_query_fraction_edge_length cfg)"
    "grid_node_feat ?s3 = Some (expand_dims_1 snf)" "grid2mesh_src_index ?s3 = Some gs"
    "grid2mesh_dst_index ?s3 = Some gd" "grid2mesh_edge_feat ?s3 = Some (expand_dims_1 gef)"
    by (simp_all add: s3 f2)
  from init_mesh_graph_Inr[OF i4] obtain merged mnf mef where
    mm: "merge_meshes ms = Inr merged"
    and mf: "get_graph_spatial_features ?mlat ?mlon (fst (faces_to_edges (faces merged)))
               (snd (faces_to_edges (faces merged))) False True True True True True = Inr (mnf, mef)"
    and s4: "s4 = ?s3\<lparr>mesh_node_feat := Some (expand_dims_1 mnf),
                        mesh2mesh_src_index := Some (fst (faces_to_edges (faces merged))),
                        mesh2mesh_dst_index := Some (snd (faces_to_edges (faces merged))),
                        mesh_edge_feat := Some (expand_dims_1 mef),
                        mesh_num_edges := Some (int (length mef))\<rparr>"
    by (auto simp: s3 f2)
  let ?s4 = "s4\<lparr>priv_mesh_graph_structure := Some ()\<rparr>"
  have f4: "meshes ?s4 = ms"
    "priv_grid_lat ?s4 = Some grid_lat" "priv_grid_lon ?s4 = Some grid_lon"
    "priv_grid_nodes_lat ?s4 = Some ?gnlat" "priv_grid_nodes_lon ?s4 = Some ?gnlon"
    "priv_mesh_nodes_lat ?s4 = Some ?mlat" "priv_mesh_nodes_lon ?s4 = Some ?mlon"
    "priv_spatial_features_kwargs ?s4 = Some (False, True, True, True, True, True)"
    "priv_mesh2grid_edge_normalization_factor ?s4 = Some (mesh2grid_edge_normalization_factor cfg)"
    "query_radius ?s4 = Some (max_d * radius_query_fraction_edge_length cfg)"
    "grid_node_feat ?s4 = Some (expand_dims_1 snf)" "grid2mesh_src_index ?s4 = Some gs"
    "grid2mesh_dst_index ?s4 = Some gd" "grid2mesh_edge_feat ?s4 = Some (expand_dims_1 gef)"
    "mesh_node_feat ?s4 = Some (expand_dims_1 mnf)"
    "mesh2mesh_src_index ?s4 = Some (fst (faces_to_edges (faces merged)))"
    "mesh2mesh_dst_index ?s4 = Some (snd (faces_to_edges (faces merged)))"
    "mesh_edge_feat ?s4 = Some (expand_dims_1 mef)"
    by (simp_all add: s4 s3 f2)
  from init_mesh2grid_graph_Inr[OF i5] obtain gi mi snf' rnf' tef where
    tq: "in_mesh_triangle_indices closest_point grid_lat grid_lon (last ms) = Inr (gi, mi)"
    and tf: "get_bipartite_graph_spatial_features ?mlat ?mlon mi ?gnlat ?gnlon gi
               False True True True (mesh2grid_edge_normalization_factor cfg) True True
             = Inr (snf', rnf', tef)"
    and s5: "s5 = ?s4\<lparr>mesh2grid_src_index := Some mi,
                        mesh2grid_dst_index := Some gi,
                        mesh2grid_edge_feat := Some (expand_dims_1 tef),
                        mesh2grid_num_edges := Some (int (length tef))\<rparr>"
    by (auto simp: s4 s3 f2)
  have f5: "meshes self = ms"
    "query_radius self = Some (max_d * radius_query_fraction_edge_length cfg)"
    "priv_mesh_nodes_lat self = Some ?mlat" "priv_mesh_nodes_lon self = Some ?mlon"
    "priv_grid_nodes_lat self = Some ?gnlat" "priv_grid_nodes_lon self = Some ?gnlon"
    "grid2mesh_src_index self = Some gs" "grid2mesh_dst_index self = Some gd"
    "grid_node_feat self = Some (expand_dims_1 snf)"
    "grid2mesh_edge_feat self = Some (expand_dims_1 gef)"
    "mesh2mesh_src_index self = Some (fst (faces_to_edges (faces merged)))"
    "mesh2mesh_dst_index self = Some (snd (faces_to_edges (faces merged)))"
    "mesh_node_feat self = Some (expand_dims_1 mnf)"
    "mesh_edge_feat self = Some (expand_dims_1 mef)"
    "mesh2grid_src_index self = Some mi" "mesh2grid_dst_index self = Some gi"
    "mesh2grid_edge_feat self = Some (expand_dims_1 tef)"
    by (simp_all add: fin s5 s4 s3 f2)
  have fe: "faces_to_edges (faces merged) =
      (fst (faces_to_edges (faces merged)), snd (faces_to_edges (faces merged)))" by simp
  show ?thesis
    unfolding pipeline_result_def
    by (intro exI conjI) (rule h f5 ne md a1 a2 rq gf mm fe mf tq tf)+
qed

lemma bind_err_Inr: "bind_err (Inr x) f = f x"
  by (simp add: bind_err_def)

lemma length_lat_lon_deg_to_spherical:
  "length (fst (lat_lon_deg_to_spherical lat lon)) = length lon"
  "length (snd (lat_lon_deg_to_spherical lat lon)) = length lat"
  by (simp_all add: lat_lon_deg_to_spherical_def)

lemma bipartite_relative_position_ok:
  assumes "length sphi = length stheta" "length rphi = length rtheta"
    and "length senders = length receivers"
    and "\<forall>i\<in>set senders. 0 \<le> i \<and> i < int (length sphi)"
    and "\<forall>i\<in>set receivers. 0 \<le> i \<and> i < int (length rphi)"
  shows "\<exists>rel. get_bipartite_relative_position_in_receiver_local_coordinates
           sphi stheta senders rphi rtheta receivers True True = Inr rel \<and>
         length rel = length senders"
proof -
  let ?sp = "map2 unit_position sphi stheta"
  let ?rp = "map2 unit_position rphi rtheta"
  have sp: "bind_err (spherical_to_cartesian sphi stheta) np_stack_xyz = Inr ?sp"
    by (rule node_pos_same_length[OF assms(1)])
  have rp: "bind_err (spherical_to_cartesian rphi rtheta) np_stack_xyz = Inr ?rp"
    by (rule node_pos_same_length[OF assms(2)])
  have h: "True \<or> True" by simp
  from rotation_matrices_same_length[OF assms(2) h] obtain Rs where
    rs: "get_rotation_matrices_to_local_coordinates rphi rtheta True True = Inr Rs"
    and lrs: "length Rs = length rphi"
    using assms(2) by auto
  have t1: "np_take Rs receivers = Inr (map (\<lambda>i. Rs ! nat i) receivers)"
    using assms(2,5) lrs by (intro np_take_valid) auto
  have t2: "np_take ?rp receivers = Inr (map (\<lambda>i. ?rp ! nat i) receivers)"
    using assms(2,5) by (intro np_take_valid) auto
  have t3: "np_take ?sp senders = Inr (map (\<lambda>i. ?sp ! nat i) senders)"
    using assms(1,4) by (intro np_take_valid) auto
  have r1: "rotate_with_matrices (map (\<lambda>i. Rs ! nat i) receivers) (map (\<lambda>i. ?rp ! nat i) receivers) =
      Inr (map2 mat_vec (map (\<lambda>i. Rs ! nat i) receivers) (map (\<lambda>i. ?rp ! nat i) receivers))"
    unfolding rotate_with_matrices_def by (rule np_broadcast2_same) simp
  have r2: "rotate_with_matrices (map (\<lambda>i. Rs ! nat i) receivers) (map (\<lambda>i. ?sp ! nat i) senders) =
      Inr (map2 mat_vec (map (\<lambda>i. Rs ! nat i) receivers) (map (\<lambda>i. ?sp ! nat i) senders))"
    unfolding rotate_with_matrices_def by (rule np_broadcast2_same) (simp add: assms(3))
  have r3: "np_broadcast2 vec_sub
       (map2 mat_vec (map (\<lambda>i. Rs ! nat i) receivers) (map (\<lambda>i. ?sp ! nat i) senders))
       (map2 mat_vec (map (\<lambda>i. Rs ! nat i) receivers) (map (\<lambda>i. ?rp ! nat i) receivers)) =
     Inr (map2 vec_sub
       (map2 mat_vec (map (\<lambda>i. Rs ! nat i) receivers) (map (\<lambda>i. ?sp ! nat i) senders))
       (map2 mat_vec (map (\<lambda>i. Rs ! nat i) receivers) (map (\<lambda>i. ?rp ! nat i) receivers)))"
    by (rule np_broadcast2_same) (simp add: assms(3))
  have "get_bipartite_relative_position_in_receiver_local_coordinates
           sphi stheta senders rphi rtheta receivers True True =
     Inr (map2 vec_sub
       (map2 mat_vec (map (\<lambda>i. Rs ! nat i) receivers) (map (\<lambda>i. ?sp ! nat i) senders))
       (map2 mat_vec (map (\<lambda>i. Rs ! nat i) receivers) (map (\<lambda>i. ?rp ! nat i) receivers)))"
    unfolding get_bipartite_relative_position_in_receiver_local_coordinates_def
    by (simp only: sp rp rs t1 t2 t3 r1 r2 r3 bind_err_Inr simp_thms if_False)
  then show ?thesis by (simp add: assms(3))
qed

lemma relative_position_ok:
  assumes "length phis = length thetas" "length senders = length receivers"
    and "\<forall>i\<in>set senders. 0 \<le> i \<and> i < int (length phis)"
    and "\<forall>i\<in>set receivers. 0 \<le> i \<and> i < int (length phis)"
  shows "\<exists>rel. get_relative_position_in_receiver_local_coordinates
           phis thetas senders receivers True True = Inr rel \<and>
         length rel = length senders"
proof -
  let ?p = "map2 unit_position phis thetas"
  have sp: "bind_err (spherical_to_cartesian phis thetas) np_stack_xyz = Inr ?p"
    by (rule node_pos_same_length[OF assms(1)])
  have h: "True \<or> True" by simp
  from rotation_matrices_same_length[OF assms(1) h] obtain Rs where
    rs: "get_rotation_matrices_to_local_coordinates phis thetas True True = Inr Rs"
    and lrs: "length Rs = length phis"
    using assms(1) by auto
  have t1: "np_take Rs receivers = Inr (map (\<lambda>i. Rs ! nat i) receivers)"
    using assms(1,4) lrs by (intro np_take_valid) auto
  have t2: "np_take ?p receivers = Inr (map (\<lambda>i. ?p ! nat i) receivers)"
    using assms(1,4) by (intro np_take_valid) auto
  have t3: "np_take ?p senders = Inr (map (\<lambda>i. ?p ! nat i) senders)"
    using assms(1,3) by (intro np_take_valid) auto
  have r1: "rotate_with_matrices (map (\<lambda>i. Rs ! nat i) receivers) (map (\<lambda>i. ?p ! nat i) receivers) =
      Inr (map2 mat_vec (map (\<lambda>i. Rs ! nat i) receivers) (map (\<lambda>i. ?p ! nat i) receivers))"
    unfolding rotate_with_matrices_def by (rule np_broadcast2_same) simp
  have r2: "rotate_with_matrices (map (\<lambda>i. Rs ! nat i) receivers) (map (\<lambda>i. ?p ! nat i) senders) =
      Inr (map2 mat_vec (map (\<lambda>i. Rs ! nat i) receivers) (map (\<lambda>i. ?p ! nat i) senders))"
    unfolding rotate_with_matrices_def by (rule np_broadcast2_same) (simp add: assms(2))
  have r3: "np_broadcast2 vec_sub
       (map2 mat_vec (map (\<lambda>i. Rs ! nat i) receivers) (map (\<lambda>i. ?p ! nat i) senders))
       (map2 mat_vec (map (\<lambda>i. Rs ! nat i) receivers) (map (\<lambda>i. ?p ! nat i) receivers)) =
     Inr (map2 vec_sub
       (map2 mat_vec (map (\<lambda>i. Rs ! nat i) receivers) (map (\<lambda>i. ?p ! nat i) senders))
       (map2 mat_vec (map (\<lambda>i. Rs ! nat i) receivers) (map (\<lambda>i. ?p ! nat i) receivers)))"
    by (rule np_broadcast2_same) (simp add: assms(2))
  have "get_relative_position_in_receiver_local_coordinates
           phis thetas senders receivers True True =
     Inr (map2 vec_sub
       (map2 mat_vec (map (\<lambda>i. Rs ! nat i) receivers) (map (\<lambda>i. ?p ! nat i) senders))
       (map2 mat_vec (map (\<lambda>i. Rs ! nat i) receivers) (map (\<lambda>i. ?p ! nat i) receivers)))"
    unfolding get_relative_position_in_receiver_local_coordinates_def
    by (simp only: sp rs t1 t2 t3 r1 r2 r3 bind_err_Inr simp_thms if_False)
  then show ?thesis by (simp add: assms(2))
qed

lemma np_stack_columns_ok:
  "length b = length a \<Longrightarrow> length c = length a \<Longrightarrow> \<exists>rows. np_stack_columns [a, b, c] = Inr rows"
  by (simp add: np_stack_columns_def)

lemma bipartite_features_ok:
  assumes "length slat = length slon" "length rlat = length rlon"
    and "length senders = length receivers" "senders \<noteq> []"
    and "\<forall>i\<in>set senders. 0 \<le> i \<and> i < int (length slat)"
    and "\<forall>i\<in>set receivers. 0 \<le> i \<and> i < int (length rlat)"
  shows "\<exists>snf rnf ef. get_bipartite_graph_spatial_features slat slon senders rlat rlon receivers
           False True True True factor True True = Inr (snf, rnf, ef)"
proof -
  let ?sphi = "fst (lat_lon_deg_to_spherical slat slon)"
  let ?sth = "snd (lat_lon_deg_to_spherical slat slon)"
  let ?rphi = "fst (lat_lon_deg_to_spherical rlat rlon)"
  let ?rth = "snd (lat_lon_deg_to_spherical rlat rlon)"
  have l1: "length ?sphi = length ?sth" "length ?rphi = length ?rth"
    by (simp_all add: length_lat_lon_deg_to_spherical assms(1,2))
  have v1: "\<forall>i\<in>set senders. 0 \<le> i \<and> i < int (length ?sphi)"
    using assms(5) by (simp add: length_lat_lon_deg_to_spherical assms(1))
  have v2: "\<forall>i\<in>set receivers. 0 \<le> i \<and> i < int (length ?rphi)"
    using assms(6) by (simp add: length_lat_lon_deg_to_spherical assms(2))
  from bipartite_relative_position_ok[OF l1 assms(3) v1 v2] obtain rel where
    rel: "get_bipartite_relative_position_in_receiver_local_coordinates
           ?sphi ?sth senders ?rphi ?rth receivers True True = Inr rel"
    and lrel: "length rel = length senders" by blast
  have ne: "rel \<noteq> []" using lrel assms(4) by auto
  obtain srows where s: "np_stack_columns [map cos ?sth, map cos ?sphi, map sin ?sphi] = Inr srows"
    using np_stack_columns_ok[of "map cos ?sphi" "map cos ?sth" "map sin ?sphi"] l1(1) by auto
  obtain rrows where r: "np_stack_columns [map cos ?rth, map cos ?rphi, map sin ?rphi] = Inr rrows"
    using np_stack_columns_ok[of "map cos ?rphi" "map cos ?rth" "map sin ?rphi"] l1(2) by auto
  show ?thesis
    by (cases factor)
       (simp_all add: get_bipartite_graph_spatial_features_def Let_def bind_err_Inr s r rel
          np_max_def ne)
qed

lemma graph_features_ok:
  assumes "length lat = length lon"
    and "length senders = length receivers" "senders \<noteq> []"
    and "\<forall>i\<in>set senders. 0 \<le> i \<and> i < int (length lat)"
    and "\<forall>i\<in>set receivers. 0 \<le> i \<and> i < int (length lat)"
  shows "\<exists>nf ef. get_graph_spatial_features lat lon senders receivers
           False True True True True True = Inr (nf, ef)"
proof -
  let ?phi = "fst (lat_lon_deg_to_spherical lat lon)"
  let ?th = "snd (lat_lon_deg_to_spherical lat lon)"
  have l1: "length ?phi = length ?th"
    by (simp add: length_lat_lon_deg_to_spherical assms(1))
  have v1: "\<forall>i\<in>set senders. 0 \<le> i \<and> i < int (length ?phi)"
    using assms(4) by (simp add: length_lat_lon_deg_to_spherical assms(1))
  have v2: "\<forall>i\<in>set receivers. 0 \<le> i \<and> i < int (length ?phi)"
    using assms(5) by (simp add: length_lat_lon_deg_to_spherical assms(1))
  from relative_position_ok[OF l1 assms(2) v1 v2] obtain rel where
    rel: "get_relative_position_in_receiver_local_coordinates
           ?phi ?th senders receivers True True = Inr rel"
    and lrel: "length rel = length senders" by blast
  have ne: "rel \<noteq> []" using lrel assms(3) by auto
  obtain rows where s: "np_stack_columns [map cos ?th, map cos ?phi, map sin ?phi] = Inr rows"
    using np_stack_columns_ok[of "map cos ?phi" "map cos ?th" "map sin ?phi"] l1 by auto
  show ?thesis
    by (simp add: get_graph_spatial_features_def Let_def bind_err_Inr s rel np_max_def ne)
qed

lemma vec_mat_AxisY:
  "vec_mat (x, y, z) (from_euler [(AxisY, a)]) = (x * cos a - z * sin a, y, x * sin a + z * cos a)"
  by (simp add: from_euler_def mat_mul_def elemental_rotation_def vec_mat_def mat_id_def)

lemma vec_norm_AxisY: "vec_norm (vec_mat v (from_euler [(AxisY, a)])) = vec_norm v"
proof -
  obtain x y z where v: "v = (x, y, z)" by (cases v) auto
  have "(x * cos a - z * sin a) * (x * cos a - z * sin a) + y * y +
        (x * sin a + z * cos a) * (x * sin a + z * cos a) =
        (x * x + z * z) * (sin a * sin a + cos a * cos a) + y * y"
    by algebra
  also have "\<dots> = x * x + y * y + z * z"
    using sin_cos_squared_add3[of a] by (simp add: add.commute)
  finally show ?thesis by (simp add: v vec_mat_AxisY vec_norm_def)
qed

lemma vec_norm_vec_div: "vec_norm v \<noteq> 0 \<Longrightarrow> vec_norm (vec_div v (vec_norm v)) = 1"
proof -
  assume n: "vec_norm v \<noteq> 0"
  obtain x y z where v: "v = (x, y, z)" by (cases v) auto
  let ?n = "vec_norm (x, y, z)"
  have nn: "0 \<le> x * x + y * y + z * z" by (intro add_nonneg_nonneg) simp_all
  have sq: "?n * ?n = x * x + y * y + z * z" using nn by (simp add: vec_norm_def)
  have "x / ?n * (x / ?n) + y / ?n * (y / ?n) + z / ?n * (z / ?n) =
        (x * x + y * y + z * z) / (?n * ?n)"
    by (simp add: add_divide_distrib)
  also have "\<dots> = (?n * ?n) / (?n * ?n)" by (simp only: sq)
  also have "\<dots> = 1" using n v by simp
  finally show ?thesis by (simp add: v vec_div_def vec_norm_def)
qed

lemma sqrt5_bounds: "11 / 5 \<le> sqrt 5" "sqrt 5 \<le> 12 / 5"
proof -
  show "11 / 5 \<le> sqrt 5" by (rule real_le_rsqrt) (simp add: power2_eq_square)
  show "sqrt 5 \<le> 12 / 5" by (rule real_le_lsqrt) (simp_all add: power2_eq_square)
qed

lemma icosahedron_first_vertices:
  "\<exists>a. vertices get_icosahedron ! 0 =
          vec_mat (vec_div (1, (1 + sqrt 5) / 2, 0)
                     (vec_norm (1, (1 + sqrt 5) / 2, 0))) (from_euler [(AxisY, a)]) \<and>
        vertices get_icosahedron ! 1 =
          vec_mat (vec_div (0, 1, (1 + sqrt 5) / 2)
                     (vec_norm (1, (1 + sqrt 5) / 2, 0))) (from_euler [(AxisY, a)])"
  by (rule exI[of _ "(pi - 2 * arcsin ((1 + sqrt 5) / 2 / sqrt 3)) / 2"])
     (simp add: get_icosahedron_def Let_def vec_norm_def)

lemma golden_norm_bounds:
  "0 < vec_norm (1, (1 + sqrt 5) / 2, 0)" "vec_norm (1, (1 + sqrt 5) / 2, 0) \<le> 2"
proof -
  let ?phi = "(1 + sqrt 5) / 2"
  have p: "0 \<le> ?phi" "?phi \<le> 17 / 10" using sqrt5_bounds by simp_all
  have "?phi * ?phi \<le> 17 / 10 * (17 / 10)" by (rule mult_mono) (use p in simp_all)
  then have le: "1 * 1 + ?phi * ?phi + 0 * 0 \<le> 2\<^sup>2" by (simp add: power2_eq_square)
  have "0 \<le> ?phi * ?phi" by simp
  then have pos: "0 < 1 * 1 + ?phi * ?phi + 0 * 0" by linarith
  show "0 < vec_norm (1, ?phi, 0)" unfolding vec_norm_def using pos by simp
  show "vec_norm (1, ?phi, 0) \<le> 2" unfolding vec_norm_def prod.case
    by (rule real_le_lsqrt) (use le pos in simp_all)
qed

lemma icosahedron_vertex0_unit: "vec_norm (vertices get_icosahedron ! 0) = 1"
proof -
  from icosahedron_first_vertices obtain a where
    v: "vertices get_icosahedron ! 0 =
          vec_mat (vec_div (1, (1 + sqrt 5) / 2, 0)
                     (vec_norm (1, (1 + sqrt 5) / 2, 0))) (from_euler [(AxisY, a)])" by blast
  have "vec_norm (1, (1 + sqrt 5) / 2, 0) \<noteq> 0" using golden_norm_bounds(1) by simp
  then show ?thesis unfolding v vec_norm_AxisY by (rule vec_norm_vec_div)
qed

lemma icosahedron_edge01:
  "3 / 10 \<le> vec_norm (vec_sub (vertices get_icosahedron ! 0) (vertices get_icosahedron ! 1))"
proof -
  let ?phi = "(1 + sqrt 5) / 2"
  let ?n = "vec_norm (1, ?phi, 0)"
  from icosahedron_first_vertices obtain a where
    v: "vertices get_icosahedron ! 0 = vec_mat (vec_div (1, ?phi, 0) ?n) (from_euler [(AxisY, a)])"
       "vertices get_icosahedron ! 1 = vec_mat (vec_div (0, 1, ?phi) ?n) (from_euler [(AxisY, a)])"
    by blast
  have "\<exists>x z. vec_sub (vertices get_icosahedron ! 0) (vertices get_icosahedron ! 1) =
      (x, ?phi / ?n - 1 / ?n, z)"
    unfolding v by (simp add: vec_div_def vec_mat_AxisY vec_sub_def)
  then obtain x z where d: "vec_sub (vertices get_icosahedron ! 0) (vertices get_icosahedron ! 1) =
      (x, ?phi / ?n - 1 / ?n, z)" by blast
  have "3 / 10 * ?n \<le> 3 / 10 * 2" using golden_norm_bounds(2) by simp
  also have "\<dots> \<le> ?phi - 1" using sqrt5_bounds(1) by simp
  finally have "3 / 10 \<le> (?phi - 1) / ?n" using golden_norm_bounds(1) by (simp add: pos_le_divide_eq)
  also have "\<dots> = ?phi / ?n - 1 / ?n" by (rule diff_divide_distrib)
  also have "\<dots> \<le> \<bar>?phi / ?n - 1 / ?n\<bar>" by simp
  also have "\<dots> \<le> vec_norm (x, ?phi / ?n - 1 / ?n, z)" by (rule abs_component_le_vec_norm(2))
  finally show ?thesis by (simp only: d)
qed

lemma faces_to_edges_valid:
  assumes "\<forall>f\<in>set fs. valid_face n f"
  shows "\<forall>i\<in>set (fst (faces_to_edges fs)) \<union> set (snd (faces_to_edges fs)). 0 \<le> i \<and> i < int n"
  using assms by (fastforce simp: faces_to_edges_def valid_face_def valid_index_def)

lemma length_faces_to_edges:
  "length (fst (faces_to_edges fs)) = 3 * length fs" "length (snd (faces_to_edges fs)) = 3 * length fs"
  by (simp_all add: faces_to_edges_def)

lemma get_max_edge_distance_ok:
  assumes "mesh_ok m" "faces m \<noteq> []"
  shows "\<exists>d. get_max_edge_distance m = Inr d \<and>
           (\<forall>s r. (s, r) \<in> directed_edges (faces m) \<longrightarrow>
              vec_norm (vec_sub (vertices m ! nat s) (vertices m ! nat r)) \<le> d)"
proof -
  let ?S = "fst (faces_to_edges (faces m))" and ?R = "snd (faces_to_edges (faces m))"
  let ?vs = "vertices m"
  let ?D = "map2 vec_sub (map (\<lambda>i. ?vs ! nat i) ?S) (map (\<lambda>i. ?vs ! nat i) ?R)"
  have v: "\<forall>i\<in>set ?S \<union> set ?R. 0 \<le> i \<and> i < int (length ?vs)"
    by (rule faces_to_edges_valid) (use assms(1) in \<open>simp add: mesh_ok_def\<close>)
  have t1: "np_take ?vs ?S = Inr (map (\<lambda>i. ?vs ! nat i) ?S)"
    by (rule np_take_valid) (use v in blast)
  have t2: "np_take ?vs ?R = Inr (map (\<lambda>i. ?vs ! nat i) ?R)"
    by (rule np_take_valid) (use v in blast)
  have b: "np_broadcast2 vec_sub (map (\<lambda>i. ?vs ! nat i) ?S) (map (\<lambda>i. ?vs ! nat i) ?R) = Inr ?D"
    by (rule np_broadcast2_same) (simp add: length_faces_to_edges)
  have l: "length ?D = 3 * length (faces m)" by (simp add: length_faces_to_edges)
  have ne: "map vec_norm ?D \<noteq> []"
  proof
    assume "map vec_norm ?D = []"
    then have "?D = []" by simp
    then have "length ?D = 0" by (simp only: list.size)
    with l assms(2) show False by simp
  qed
  have mx: "np_max (map vec_norm ?D) = Inr (Max (set (map vec_norm ?D)))"
    unfolding np_max_def using ne by (simp only: if_False)
  have p: "faces_to_edges (faces m) = (?S, ?R)" by simp
  have e: "get_max_edge_distance m = Inr (Max (set (map vec_norm ?D)))"
    unfolding get_max_edge_distance_def
    by (subst p) (simp only: prod.case t1 t2 b bind_err_Inr mx)
  have D: "?D = map (\<lambda>(s, r). vec_sub (?vs ! nat s) (?vs ! nat r)) (zip ?S ?R)"
    by (simp add: zip_map_map split_def)
  show ?thesis
  proof (intro exI conjI allI impI)
    show "get_max_edge_distance m = Inr (Max (set (map vec_norm ?D)))" by (rule e)
    fix s r assume "(s, r) \<in> directed_edges (faces m)"
    then have "(s, r) \<in> set (zip ?S ?R)" by (simp add: set_zip_faces_to_edges)
    then have "vec_sub (?vs ! nat s) (?vs ! nat r) \<in> set ?D" unfolding D by force
    then have "vec_norm (vec_sub (?vs ! nat s) (?vs ! nat r)) \<in> vec_norm ` set ?D" by (rule imageI)
    then have "vec_norm (vec_sub (?vs ! nat s) (?vs ! nat r)) \<in> set (map vec_norm ?D)"
      by (simp only: set_map)
    then show "vec_norm (vec_sub (?vs ! nat s) (?vs ! nat r)) \<le> Max (set (map vec_norm ?D))"
      by (intro Max_ge) simp_all
  qed
qed

lemma icosahedron_max_edge_distance:
  "\<exists>d. get_max_edge_distance get_icosahedron = Inr d \<and> 3 / 10 \<le> d"
proof -
  have f: "faces get_icosahedron \<noteq> []" using length_icosahedron_faces by auto
  from get_max_edge_distance_ok[OF mesh_ok_icosahedron f] obtain d where
    d: "get_max_edge_distance get_icosahedron = Inr d"
       "\<forall>s r. (s, r) \<in> directed_edges (faces get_icosahedron) \<longrightarrow>
          vec_norm (vec_sub (vertices get_icosahedron ! nat s) (vertices get_icosahedron ! nat r)) \<le> d"
    by blast
  have "(0, 1) \<in> directed_edges (faces get_icosahedron)"
    by (simp add: get_icosahedron_def Let_def icosahedron_faces_def directed_edges_def face_edges_def)
  from d(2)[rule_format, OF this] have "3 / 10 \<le> d" using icosahedron_edge01 by simp
  with d(1) show ?thesis by blast
qed

lemma set_grid_blocks_lt: "x \<in> set (grid_blocks k q) \<Longrightarrow> x < int (k + length q)"
proof (induction q arbitrary: k)
  case Nil
  then show ?case by (simp add: grid_blocks_Nil)
next
  case (Cons nb q)
  from Cons.prems have "x = int k \<or> x \<in> set (grid_blocks (Suc k) q)"
    by (auto simp: grid_blocks_Cons)
  then show ?case using Cons.IH[of "Suc k"] by auto
qed

lemma radius_query_edges:
  assumes "glat \<noteq> []" "glon \<noteq> []"
    and "\<exists>p\<in>set (concat (grid_lat_lon_to_coordinates glat glon)).
         \<exists>v\<in>set (vertices mesh). vec_norm (vec_sub p v) \<le> r"
  shows "\<exists>gs gd. radius_query_indices glat glon mesh r = Inr (gs, gd) \<and>
           length gs = length gd \<and> gs \<noteq> [] \<and>
           (\<forall>i\<in>set gs. 0 \<le> i \<and> i < int (length glat * length glon)) \<and>
           (\<forall>i\<in>set gd. 0 \<le> i \<and> i < int (length (vertices mesh)))"
proof -
  let ?pos = "concat (grid_lat_lon_to_coordinates glat glon)"
  let ?q = "query_ball_point (vertices mesh) ?pos r"
  have e: "radius_query_indices glat glon mesh r = Inr (grid_blocks 0 ?q, concat ?q)"
    by (rule radius_query_indices_eq[OF assms(1,2)])
  have l: "length (grid_blocks 0 ?q) = length (concat ?q)" by (rule length_grid_blocks)
  from assms(3) obtain g j where g: "g < length ?pos" and j: "j < length (vertices mesh)"
    and d: "vec_norm (vec_sub (?pos ! g) (vertices mesh ! j)) \<le> r"
    by (metis in_set_conv_nth)
  have "int j \<in> set (?q ! g)" using j d by (auto simp: set_nth_query_ball_point[OF g])
  moreover have "?q ! g \<in> set ?q" using g by (simp add: length_query_ball_point)
  ultimately have "int j \<in> set (concat ?q)" by auto
  then have "concat ?q \<noteq> []" by (metis empty_iff list.set(1))
  then have ne: "grid_blocks 0 ?q \<noteq> []" using l by (metis length_0_conv)
  have vs: "\<forall>i\<in>set (grid_blocks 0 ?q). 0 \<le> i \<and> i < int (length glat * length glon)"
  proof
    fix i assume i: "i \<in> set (grid_blocks 0 ?q)"
    have "int 0 \<le> i" by (rule set_grid_blocks_ge[OF i])
    moreover have "i < int (0 + length ?q)" by (rule set_grid_blocks_lt[OF i])
    ultimately show "0 \<le> i \<and> i < int (length glat * length glon)"
      by (simp add: length_query_ball_point length_grid_positions)
  qed
  have vd: "\<forall>i\<in>set (concat ?q). 0 \<le> i \<and> i < int (length (vertices mesh))"
    by (auto simp: query_ball_point_def)
  show ?thesis using e l ne vs vd by blast
qed

lemma int_less: "y < n \<Longrightarrow> 0 \<le> int y \<and> int y < int n"
  by simp

lemma triple_rows: "(\<lambda>(a, b, c). [a, b, c]) = (\<lambda>x. [fst x, fst (snd x), snd (snd x)])"
  by (simp add: split_def)

lemma in_mesh_triangle_edges:
  assumes "length (closest_point mesh (concat (grid_lat_lon_to_coordinates glat glon)))
             = length (concat (grid_lat_lon_to_coordinates glat glon))"
    and "\<forall>t\<in>set (closest_point mesh (concat (grid_lat_lon_to_coordinates glat glon))).
           0 \<le> t \<and> t < int (length (faces mesh))"
    and "mesh_ok mesh" "glat \<noteq> []" "glon \<noteq> []"
  shows "\<exists>gi mi. in_mesh_triangle_indices closest_point glat glon mesh = Inr (gi, mi) \<and>
           length mi = length gi \<and> mi \<noteq> [] \<and>
           (\<forall>i\<in>set mi. 0 \<le> i \<and> i < int (length (vertices mesh))) \<and>
           (\<forall>i\<in>set gi. 0 \<le> i \<and> i < int (length glat * length glon))"
proof -
  let ?pos = "concat (grid_lat_lon_to_coordinates glat glon)"
  let ?q = "closest_point mesh ?pos"
  let ?fs = "map (\<lambda>i. faces mesh ! nat i) ?q"
  let ?gi = "concat (map (\<lambda>g. [g, g, g]) (map int [0..<length ?pos]))"
  let ?mi = "concat (map (\<lambda>(a, b, c). [a, b, c]) ?fs)"
  have t: "np_take (faces mesh) ?q = Inr ?fs" by (rule np_take_valid[OF assms(2)])
  have e: "in_mesh_triangle_indices closest_point glat glon mesh = Inr (?gi, ?mi)"
    by (simp add: in_mesh_triangle_indices_def Let_def t bind_err_Inr)
  have lg: "length ?gi = 3 * length ?pos"
    using length_concat_triples[of "\<lambda>g. g" "\<lambda>g. g" "\<lambda>g. g" "map int [0..<length ?pos]"] by simp
  have lm: "length ?mi = 3 * length ?pos"
    unfolding triple_rows using length_concat_triples[of fst "\<lambda>x. fst (snd x)" "\<lambda>x. snd (snd x)" ?fs]
    by (simp add: assms(1))
  have pp: "0 < length ?pos" using assms(4,5) by (simp add: length_grid_positions)
  have ne: "?mi \<noteq> []"
  proof
    assume "?mi = []"
    then have "length ?mi = 0" by (simp only: list.size)
    with lm pp show False by simp
  qed
  have vf: "\<forall>f\<in>set ?fs. valid_face (length (vertices mesh)) f"
    using assms(2,3) by (auto simp: mesh_ok_def)
  have vm: "\<forall>i\<in>set ?mi. 0 \<le> i \<and> i < int (length (vertices mesh))"
  proof
    fix i assume "i \<in> set ?mi"
    then obtain a b c where f: "(a, b, c) \<in> set ?fs" and i: "i = a \<or> i = b \<or> i = c" by auto
    from vf f have "valid_face (length (vertices mesh)) (a, b, c)" by blast
    then show "0 \<le> i \<and> i < int (length (vertices mesh))"
      using i by (auto simp: valid_face_def valid_index_def)
  qed
  have vg: "\<forall>i\<in>set ?gi. 0 \<le> i \<and> i < int (length glat * length glon)"
  proof
    fix i assume "i \<in> set ?gi"
    then obtain y where y: "y < length ?pos" "i = int y" by auto
    from y(1) have "y < length glat * length glon" by (simp only: length_grid_positions)
    then show "0 \<le> i \<and> i < int (length glat * length glon)" unfolding y(2) by (rule int_less)
  qed
  show ?thesis using e lg lm ne vm vg by (intro exI[of _ ?gi] exI[of _ ?mi]) simp
qed

lemma init_mesh_properties_ok:
  assumes "meshes self \<noteq> []"
  shows "init_mesh_properties self =
     Inr (self\<lparr>mesh_num_nodes := Some (int (length (vertices (last (meshes self))))),
               priv_mesh_nodes_lat := Some (fst (spherical_to_lat_lon
                 (map (\<lambda>v. fst (cartesian_to_spherical v)) (vertices (last (meshes self))))
                 (map (\<lambda>v. snd (cartesian_to_spherical v)) (vertices (last (meshes self)))))),
               priv_mesh_nodes_lon := Some (snd (spherical_to_lat_lon
                 (map (\<lambda>v. fst (cartesian_to_spherical v)) (vertices (last (meshes self))))
                 (map (\<lambda>v. snd (cartesian_to_spherical v)) (vertices (last (meshes self))))))\<rparr>)"
  using assms by (simp add: init_mesh_properties_def finest_mesh_def bind_err_Inr Let_def)

lemma init_grid2mesh_graph_ok:
  assumes "priv_grid_lat self = Some glat" "priv_grid_lon self = Some glon" "meshes self \<noteq> []"
    and "query_radius self = Some r"
    and "radius_query_indices glat glon (last (meshes self)) r = Inr (gs, gd)"
    and "priv_grid_nodes_lat self = Some gnlat" "priv_grid_nodes_lon self = Some gnlon"
    and "priv_mesh_nodes_lat self = Some mlat" "priv_mesh_nodes_lon self = Some mlon"
    and "priv_spatial_features_kwargs self = Some (False, True, True, True, True, True)"
    and "get_bipartite_graph_spatial_features gnlat gnlon gs mlat mlon gd
           False True True True None True True = Inr (snf, rnf, ef)"
  shows "init_grid2mesh_graph self =
     Inr (self\<lparr>grid_node_feat := Some (expand_dims_1 snf),
               grid2mesh_src_index := Some gs,
               grid2mesh_dst_index := Some gd,
               grid2mesh_edge_feat := Some (expand_dims_1 ef),
               grid2mesh_num_edges := Some (int (length ef))\<rparr>)"
  by (simp add: init_grid2mesh_graph_def assms get_attr_def finest_mesh_def bind_err_Inr)

lemma init_mesh_graph_ok:
  assumes "merge_meshes (meshes self) = Inr merged"
    and "priv_mesh_nodes_lat self = Some mlat" "priv_mesh_nodes_lon self = Some mlon"
    and "priv_spatial_features_kwargs self = Some (False, True, True, True, True, True)"
    and "get_graph_spatial_features mlat mlon (fst (faces_to_edges (faces merged)))
           (snd (faces_to_edges (faces merged))) False True True True True True = Inr (nf, ef)"
  shows "init_mesh_graph self =
     Inr (self\<lparr>mesh_node_feat := Some (expand_dims_1 nf),
               mesh2mesh_src_index := Some (fst (faces_to_edges (faces merged))),
               mesh2mesh_dst_index := Some (snd (faces_to_edges (faces merged))),
               mesh_edge_feat := Some (expand_dims_1 ef),
               mesh_num_edges := Some (int (length ef))\<rparr>)"
  by (simp add: init_mesh_graph_def assms get_attr_def bind_err_Inr split_def)

lemma init_mesh2grid_graph_ok:
  assumes "priv_grid_lat self = Some glat" "priv_grid_lon self = Some glon" "meshes self \<noteq> []"
    and "in_mesh_triangle_indices closest_point glat glon (last (meshes self)) = Inr (gi, mi)"
    and "priv_mesh_nodes_lat self = Some mlat" "priv_mesh_nodes_lon self = Some mlon"
    and "priv_grid_nodes_lat self = Some gnlat" "priv_grid_nodes_lon self = Some gnlon"
    and "priv_mesh2grid_edge_normalization_factor self = Some factor"
    and "priv_spatial_features_kwargs self = Some (False, True, True, True, True, True)"
    and "get_bipartite_graph_spatial_features mlat mlon mi gnlat gnlon gi
           False True True True factor True True = Inr (snf, rnf, ef)"
  shows "init_mesh2grid_graph closest_point self =
     Inr (self\<lparr>mesh2grid_src_index := Some mi,
               mesh2grid_dst_index := Some gi,
               mesh2grid_edge_feat := Some (expand_dims_1 ef),
               mesh2grid_num_edges := Some (int (length ef))\<rparr>)"
  by (simp add: init_mesh2grid_graph_def assms get_attr_def finest_mesh_def bind_err_Inr)

lemma np_arange_grid:
  assumes "0 < res"
  shows "\<exists>glat glon. np_arange (- 90) (90 + res) res = Inr glat \<and> np_arange 0 360 res = Inr glon \<and>
           glat \<noteq> [] \<and> glon \<noteq> []"
proof -
  have "0 < (90 + res - (- 90)) / res" using assms by (intro divide_pos_pos) simp_all
  then have a: "0 < nat \<lceil>(90 + res - (- 90)) / res\<rceil>"
    by (simp only: zero_less_nat_eq zero_less_ceiling)
  have "0 < (360 - 0) / res" using assms by (intro divide_pos_pos) simp_all
  then have b: "0 < nat \<lceil>(360 - 0) / res\<rceil>"
    by (simp only: zero_less_nat_eq zero_less_ceiling)
  have c: "res \<noteq> 0" using assms by simp
  have "np_arange (- 90) (90 + res) res =
          Inr (map (\<lambda>i. - 90 + real i * res) [0..<nat \<lceil>(90 + res - (- 90)) / res\<rceil>])"
    using c by (simp only: np_arange_def if_False)
  moreover have "np_arange 0 360 res =
          Inr (map (\<lambda>i. 0 + real i * res) [0..<nat \<lceil>(360 - 0) / res\<rceil>])"
    using c by (simp only: np_arange_def if_False)
  moreover have "map (\<lambda>i. - 90 + real i * res) [0..<nat \<lceil>(90 + res - (- 90)) / res\<rceil>] \<noteq> []"
    using a by simp
  moreover have "map (\<lambda>i. 0 + real i * res) [0..<nat \<lceil>(360 - 0) / res\<rceil>] \<noteq> []"
    using b by simp
  ultimately show ?thesis by blast
qed

lemma valid_face_mono: "valid_face n f \<Longrightarrow> n \<le> n' \<Longrightarrow> valid_face n' f"
  by (cases f) (auto simp: valid_face_def intro: valid_index_mono)

lemma finest_of_chain:
  assumes "length ms = Suc n" "ms ! 0 = get_icosahedron" "split_chain ms" "\<forall>m\<in>set ms. mesh_ok m"
  shows "ms \<noteq> []" and "mesh_ok (last ms)" and "faces (last ms) \<noteq> []"
    and "\<forall>m\<in>set ms. \<forall>f\<in>set (faces m). valid_face (length (vertices (last ms))) f"
    and "\<exists>new. vertices (last ms) = vertices get_icosahedron @ new"
    and "faces (ms ! 0) \<noteq> []"
proof -
  show ne: "ms \<noteq> []" using assms(1) by auto
  have l: "last ms = ms ! n" using assms(1) ne by (simp add: last_conv_nth)
  show "mesh_ok (last ms)" using assms(4) ne by simp
  have "length (faces (ms ! n)) = length (faces (ms ! 0)) * 4 ^ n"
    by (rule split_chain_faces[OF assms(3,4)]) (simp add: assms(1))
  then have "length (faces (last ms)) = 20 * 4 ^ n"
    by (simp add: l assms(2) length_icosahedron_faces)
  then show "faces (last ms) \<noteq> []" by auto
  show "\<forall>m\<in>set ms. \<forall>f\<in>set (faces m). valid_face (length (vertices (last ms))) f"
  proof (intro ballI)
    fix m f assume m: "m \<in> set ms" and f: "f \<in> set (faces m)"
    from m obtain k where k: "k < length ms" "m = ms ! k" by (metis in_set_conv_nth)
    have "k + (n - k) < length ms" using k(1) assms(1) by simp
    from split_chain_prefix[OF assms(3,4) this] obtain new where
      "vertices (ms ! (k + (n - k))) = vertices (ms ! k) @ new" by blast
    moreover have "k + (n - k) = n" using k(1) assms(1) by simp
    ultimately have "length (vertices m) \<le> length (vertices (last ms))" by (simp add: l k(2))
    moreover have "valid_face (length (vertices m)) f" using assms(4) m f by (simp add: mesh_ok_def)
    ultimately show "valid_face (length (vertices (last ms))) f" by (rule valid_face_mono[rotated])
  qed
  have "0 + n < length ms" using assms(1) by simp
  from split_chain_prefix[OF assms(3,4) this]
  show "\<exists>new. vertices (last ms) = vertices get_icosahedron @ new" by (simp add: l assms(2))
  show "faces (ms ! 0) \<noteq> []" using length_icosahedron_faces by (auto simp: assms(2))
qed

lemma length_meshgrid:
  "length (concat (map (\<lambda>lat. map (\<lambda>lon. lat) glon) glat)) = length glat * length glon"
  "length (concat (map (\<lambda>lat. glon) glat)) = length glat * length glon"
  by (induction glat) simp_all

lemma length_spherical_to_lat_lon:
  "length (fst (spherical_to_lat_lon phis thetas)) = length thetas"
  "length (snd (spherical_to_lat_lon phis thetas)) = length phis"
  by (simp_all add: spherical_to_lat_lon_def)

lemma finest_mesh_new: "ms \<noteq> [] \<Longrightarrow> finest_mesh (new_GraphGridMesh ms) = Inr (last ms)"
  by (simp add: finest_mesh_def new_GraphGridMesh_def)

lemma init_pipeline_returns:
  assumes "should_init args" "0 < resolution cfg" "closest_point_contract closest_point"
    and "grid_reaches_mesh cfg"
  shows "\<exists>self. GraphGridMesh_init closest_point cfg args = Inr self"
proof -
  from hierarchy_chain[of "mesh_size cfg"] obtain ms where
    h: "get_hierarchy_of_triangular_meshes_for_sphere (mesh_size cfg) = Inr ms"
    and c: "length ms = Suc (nat (mesh_size cfg))" "ms ! 0 = get_icosahedron" "split_chain ms"
       "\<forall>m\<in>set ms. mesh_ok m"
    by blast
  note fc = finest_of_chain[OF c]
  from get_max_edge_distance_ok[OF fc(2,3)] obtain max_d where
    md: "get_max_edge_distance (last ms) = Inr max_d" by blast
  from np_arange_grid[OF assms(2)] obtain grid_lat grid_lon where
    a1: "np_arange (- 90) (90 + resolution cfg) (resolution cfg) = Inr grid_lat"
    and a2: "np_arange 0 360 (resolution cfg) = Inr grid_lon"
    and gne: "grid_lat \<noteq> []" "grid_lon \<noteq> []" by blast
  let ?r = "max_d * radius_query_fraction_edge_length cfg"
  from assms(4) have reach:
    "\<exists>p\<in>set (concat (grid_lat_lon_to_coordinates grid_lat grid_lon)).
     \<exists>v\<in>set (vertices (last ms)). vec_norm (vec_sub p v) \<le> ?r"
    unfolding grid_reaches_mesh_def by (simp add: h md a1 a2)
  let ?s0 = "(new_GraphGridMesh ms)
                  \<lparr>query_radius := Some (max_d * radius_query_fraction_edge_length cfg),
                   priv_mesh2grid_edge_normalization_factor :=
                     Some (mesh2grid_edge_normalization_factor cfg),
                   priv_spatial_features_kwargs := Some (False, True, True, True, True, True)\<rparr>"
  let ?mlat = "fst (spherical_to_lat_lon
                      (map (\<lambda>v. fst (cartesian_to_spherical v)) (vertices (last ms)))
                      (map (\<lambda>v. snd (cartesian_to_spherical v)) (vertices (last ms))))"
  let ?mlon = "snd (spherical_to_lat_lon
                      (map (\<lambda>v. fst (cartesian_to_spherical v)) (vertices (last ms)))
                      (map (\<lambda>v. snd (cartesian_to_spherical v)) (vertices (last ms))))"
  let ?gnlat = "concat (map (\<lambda>lat. map (\<lambda>lon. lat) grid_lon) grid_lat)"
  let ?gnlon = "concat (map (\<lambda>lat. grid_lon) grid_lat)"
  have lm: "length ?mlat = length (vertices (last ms))" "length ?mlon = length (vertices (last ms))"
    by (simp_all add: length_spherical_to_lat_lon)
  have lg: "length ?gnlat = length grid_lat * length grid_lon"
    "length ?gnlon = length grid_lat * length grid_lon"
    by (rule length_meshgrid)+
  have ll: "length ?mlat = length ?mlon" by (simp only: lm)
  have l1: "length ?gnlat = length ?gnlon" by (simp only: lg)
  have m0: "meshes ?s0 = ms" by (simp add: new_GraphGridMesh_def)
  have m0ne: "meshes ?s0 \<noteq> []" unfolding m0 by (rule fc(1))
  obtain s1 where i1: "init_mesh_properties ?s0 = Inr s1"
    and s1: "s1 = ?s0\<lparr>mesh_num_nodes := Some (int (length (vertices (last ms)))),
                       priv_mesh_nodes_lat := Some ?mlat, priv_mesh_nodes_lon := Some ?mlon\<rparr>"
    using init_mesh_properties_ok[OF m0ne] by (simp add: m0)
  let ?s2 = "init_grid_properties s1 grid_lat grid_lon"
  have f2: "meshes ?s2 = ms" "query_radius ?s2 = Some ?r"
    "priv_grid_lat ?s2 = Some grid_lat" "priv_grid_lon ?s2 = Some grid_lon"
    "priv_grid_nodes_lat ?s2 = Some ?gnlat" "priv_grid_nodes_lon ?s2 = Some ?gnlon"
    "priv_mesh_nodes_lat ?s2 = Some ?mlat" "priv_mesh_nodes_lon ?s2 = Some ?mlon"
    "priv_spatial_features_kwargs ?s2 = Some (False, True, True, True, True, True)"
    "priv_mesh2grid_edge_normalization_factor ?s2 = Some (mesh2grid_edge_normalization_factor cfg)"
    by (simp_all add: s1 init_grid_properties_def new_GraphGridMesh_def)
  have f2ne: "meshes ?s2 \<noteq> []" unfolding f2(1) by (rule fc(1))
  from radius_query_edges[OF gne reach] obtain gs gd where
    rq: "radius_query_indices grid_lat grid_lon (last ms) ?r = Inr (gs, gd)"
    and rl: "length gs = length gd" and rne: "gs \<noteq> []"
    and rvs: "\<forall>i\<in>set gs. 0 \<le> i \<and> i < int (length grid_lat * length grid_lon)"
    and rvd: "\<forall>i\<in>set gd. 0 \<le> i \<and> i < int (length (vertices (last ms)))" by blast
  have rq': "radius_query_indices grid_lat grid_lon (last (meshes ?s2)) ?r = Inr (gs, gd)"
    by (simp only: f2 rq)
  have "\<exists>snf rnf ef. get_bipartite_graph_spatial_features ?gnlat ?gnlon gs ?mlat ?mlon gd
           False True True True None True True = Inr (snf, rnf, ef)"
  proof -
    have v1: "\<forall>i\<in>set gs. 0 \<le> i \<and> i < int (length ?gnlat)" unfolding lg by (rule rvs)
    have v2: "\<forall>i\<in>set gd. 0 \<le> i \<and> i < int (length ?mlat)" unfolding lm by (rule rvd)
    show ?thesis by (rule bipartite_features_ok[OF l1 ll rl rne v1 v2])
  qed
  then obtain snf rnf gef where
    gf: "get_bipartite_graph_spatial_features ?gnlat ?gnlon gs ?mlat ?mlon gd
           False True True True None True True = Inr (snf, rnf, gef)" by blast
  obtain s3 where i3: "init_grid2mesh_graph ?s2 = Inr s3"
    and s3: "s3 = ?s2\<lparr>grid_node_feat := Some (expand_dims_1 snf),
                        grid2mesh_src_index := Some gs,
                        grid2mesh_dst_index := Some gd,
                        grid2mesh_edge_feat := Some (expand_dims_1 gef),
                        grid2mesh_num_edges := Some (int (length gef))\<rparr>"
    using init_grid2mesh_graph_ok[OF f2(3,4) f2ne f2(2) rq' f2(5,6,7,8,9) gf] by blast
  let ?s3 = "s3\<lparr>priv_grid2mesh_graph_structure := Some ()\<rparr>"
  have f3: "meshes ?s3 = ms"
    "priv_grid_lat ?s3 = Some grid_lat" "priv_grid_lon ?s3 = Some grid_lon"
    "priv_grid_nodes_lat ?s3 = Some ?gnlat" "priv_grid_nodes_lon ?s3 = Some ?gnlon"
    "priv_mesh_nodes_lat ?s3 = Some ?mlat" "priv_mesh_nodes_lon ?s3 = Some ?mlon"
    "priv_spatial_features_kwargs ?s3 = Some (False, True, True, True, True, True)"
    "priv_mesh2grid_edge_normalization_factor ?s3 = Some (mesh2grid_edge_normalization_factor cfg)"
    by (simp_all add: s3 f2)
  have mc: "merge_meshes_check ms = Inr ()" by (rule split_chain_merge_check[OF c(3,4)])
  let ?merged = "\<lparr>vertices = vertices (last ms), faces = concat (map faces ms)\<rparr>"
  have mm: "merge_meshes ms = Inr ?merged"
    using fc(1) by (simp add: merge_meshes_def mc bind_err_Inr np_getitem_def last_conv_nth)
  have mm': "merge_meshes (meshes ?s3) = Inr ?merged" by (simp only: f3 mm)
  let ?S = "fst (faces_to_edges (faces ?merged))" and ?R = "snd (faces_to_edges (faces ?merged))"
  have "\<forall>f\<in>set (faces ?merged). valid_face (length (vertices (last ms))) f"
    using fc(4) by auto
  from faces_to_edges_valid[OF this]
  have ev: "\<forall>i\<in>set ?S. 0 \<le> i \<and> i < int (length ?mlat)"
           "\<forall>i\<in>set ?R. 0 \<le> i \<and> i < int (length ?mlat)"
    unfolding lm by blast+
  have "ms ! 0 \<in> set ms" using fc(1) by simp
  then have "faces ?merged \<noteq> []" using fc(6) by auto
  then have "length ?S \<noteq> 0" unfolding length_faces_to_edges by simp
  then have ene: "?S \<noteq> []" by (simp only: length_0_conv not_False_eq_True)
  have el: "length ?S = length ?R" by (simp only: length_faces_to_edges)
  from graph_features_ok[OF ll el ene ev] obtain mnf mef where
    mf: "get_graph_spatial_features ?mlat ?mlon ?S ?R False True True True True True = Inr (mnf, mef)"
    by blast
  obtain s4 where i4: "init_mesh_graph ?s3 = Inr s4"
    and s4: "s4 = ?s3\<lparr>mesh_node_feat := Some (expand_dims_1 mnf),
                        mesh2mesh_src_index := Some ?S,
                        mesh2mesh_dst_index := Some ?R,
                        mesh_edge_feat := Some (expand_dims_1 mef),
                        mesh_num_edges := Some (int (length mef))\<rparr>"
    using init_mesh_graph_ok[OF mm' f3(6,7,8) mf] by blast
  let ?s4 = "s4\<lparr>priv_mesh_graph_structure := Some ()\<rparr>"
  have f4: "meshes ?s4 = ms"
    "priv_grid_lat ?s4 = Some grid_lat" "priv_grid_lon ?s4 = Some grid_lon"
    "priv_grid_nodes_lat ?s4 = Some ?gnlat" "priv_grid_nodes_lon ?s4 = Some ?gnlon"
    "priv_mesh_nodes_lat ?s4 = Some ?mlat" "priv_mesh_nodes_lon ?s4 = Some ?mlon"
    "priv_spatial_features_kwargs ?s4 = Some (False, True, True, True, True, True)"
    "priv_mesh2grid_edge_normalization_factor ?s4 = Some (mesh2grid_edge_normalization_factor cfg)"
    by (simp_all add: s4 s3 f2)
  have f4ne: "meshes ?s4 \<noteq> []" unfolding f4(1) by (rule fc(1))
  let ?pos = "concat (grid_lat_lon_to_coordinates grid_lat grid_lon)"
  from assms(3) fc(3) have cp: "length (closest_point (last ms) ?pos) = length ?pos"
    "\<forall>t\<in>set (closest_point (last ms) ?pos). 0 \<le> t \<and> t < int (length (faces (last ms)))"
    unfolding closest_point_contract_def by blast+
  from in_mesh_triangle_edges[of closest_point "last ms" grid_lat grid_lon, OF cp fc(2) gne]
  obtain gi mi where
    tq: "in_mesh_triangle_indices closest_point grid_lat grid_lon (last ms) = Inr (gi, mi)"
    and tl: "length mi = length gi" and tne: "mi \<noteq> []"
    and tvm: "\<forall>i\<in>set mi. 0 \<le> i \<and> i < int (length (vertices (last ms)))"
    and tvg: "\<forall>i\<in>set gi. 0 \<le> i \<and> i < int (length grid_lat * length grid_lon)" by blast
  have tq': "in_mesh_triangle_indices closest_point grid_lat grid_lon (last (meshes ?s4)) = Inr (gi, mi)"
    by (simp only: f4 tq)
  have "\<exists>snf rnf ef. get_bipartite_graph_spatial_features ?mlat ?mlon mi ?gnlat ?gnlon gi
           False True True True (mesh2grid_edge_normalization_factor cfg) True True
         = Inr (snf, rnf, ef)"
  proof -
    have v1: "\<forall>i\<in>set mi. 0 \<le> i \<and> i < int (length ?mlat)" unfolding lm by (rule tvm)
    have v2: "\<forall>i\<in>set gi. 0 \<le> i \<and> i < int (length ?gnlat)" unfolding lg by (rule tvg)
    show ?thesis by (rule bipartite_features_ok[OF ll l1 tl tne v1 v2])
  qed
  then obtain snf' rnf' tef where
    tf: "get_bipartite_graph_spatial_features ?mlat ?mlon mi ?gnlat ?gnlon gi
           False True True True (mesh2grid_edge_normalization_factor cfg) True True
         = Inr (snf', rnf', tef)" by blast
  obtain s5 where i5: "init_mesh2grid_graph closest_point ?s4 = Inr s5"
    using init_mesh2grid_graph_ok[OF f4(2,3) f4ne tq' f4(6,7,4,5,9,8) tf] by blast
  have fm: "finest_mesh (new_GraphGridMesh ms) = Inr (last ms)" by (rule finest_mesh_new[OF fc(1)])
  have "GraphGridMesh_init closest_point cfg args =
          Inr (s5\<lparr>priv_mesh2grid_graph_structure := Some ()\<rparr>)"
    unfolding GraphGridMesh_init_def Let_def
    by (simp only: h bind_err_Inr assms(1) if_True fm md i1 a1 a2 i3 i4 i5)
  then show ?thesis by blast
qed

lemma grid_reaches_mesh_radius_2:
  assumes "0 < resolution cfg"
    and "get_hierarchy_of_triangular_meshes_for_sphere (mesh_size cfg) = Inr ms"
    and "get_max_edge_distance (last ms) = Inr d"
    and "2 \<le> d * radius_query_fraction_edge_length cfg"
  shows "grid_reaches_mesh cfg"
proof -
  from hierarchy_chain[of "mesh_size cfg"] assms(2) have
    c: "length ms = Suc (nat (mesh_size cfg))" "ms ! 0 = get_icosahedron" "split_chain ms"
       "\<forall>m\<in>set ms. mesh_ok m"
    by auto
  from finest_of_chain(5)[OF c] obtain new where
    n: "vertices (last ms) = vertices get_icosahedron @ new" by blast
  let ?v = "vertices get_icosahedron ! 0"
  have "?v \<in> set (vertices get_icosahedron)"
    by (rule nth_mem) (simp add: length_icosahedron_vertices)
  then have v: "?v \<in> set (vertices (last ms))" by (simp add: n)
  from np_arange_grid[OF assms(1)] obtain grid_lat grid_lon where
    a1: "np_arange (- 90) (90 + resolution cfg) (resolution cfg) = Inr grid_lat"
    and a2: "np_arange 0 360 (resolution cfg) = Inr grid_lon"
    and gne: "grid_lat \<noteq> []" "grid_lon \<noteq> []" by blast
  let ?pos = "concat (grid_lat_lon_to_coordinates grid_lat grid_lon)"
  have "0 < length ?pos" using gne by (simp add: length_grid_positions)
  then obtain p where p: "p \<in> set ?pos" by (metis length_greater_0_conv last_in_set)
  have "vec_norm (vec_sub p ?v) \<le> 2"
    by (rule vec_norm_sub_le_2[OF grid_positions_unit[OF p] icosahedron_vertex0_unit])
  with assms(4) have "vec_norm (vec_sub p ?v) \<le> d * radius_query_fraction_edge_length cfg"
    by linarith
  with p v show ?thesis unfolding grid_reaches_mesh_def
    using assms(2,3) a1 a2 by blast
qed

lemma init_stored:
  assumes "\<not> should_init args"
  shows "\<exists>ms self.
     get_hierarchy_of_triangular_meshes_for_sphere (mesh_size cfg) = Inr ms \<and>
     GraphGridMesh_init closest_point cfg args = Inr self \<and> meshes self = ms \<and>
     mesh2mesh_src_index self = arg_mesh2mesh_src_index args \<and>
     mesh2mesh_dst_index self = arg_mesh2mesh_dst_index args \<and>
     grid2mesh_src_index self = arg_grid2mesh_src_index args \<and>
     grid2mesh_dst_index self = arg_grid2mesh_dst_index args \<and>
     mesh2grid_src_index self = arg_mesh2grid_src_index args \<and>
     mesh2grid_dst_index self = arg_mesh2grid_dst_index args \<and>
     mesh_num_nodes self = arg_mesh_num_nodes args \<and>
     grid_num_nodes self = arg_grid_num_nodes args \<and>
     mesh_num_edges self = arg_mesh_num_edges args \<and>
     grid2mesh_num_edges self = arg_grid2mesh_num_edges args \<and>
     mesh2grid_num_edges self = arg_mesh2grid_num_edges args \<and>
     grid_node_feat self = arg_grid_node_feat args \<and>
     mesh_node_feat self = arg_mesh_node_feat args \<and>
     mesh_edge_feat self = arg_mesh_edge_feat args \<and>
     grid2mesh_edge_feat self = arg_grid2mesh_edge_feat args \<and>
     mesh2grid_edge_feat self = arg_mesh2grid_edge_feat args \<and>
     query_radius self = None \<and>
     priv_mesh2grid_edge_normalization_factor self = None \<and>
     priv_spatial_features_kwargs self = None \<and>
     priv_mesh_nodes_lat self = None \<and> priv_mesh_nodes_lon self = None \<and>
     priv_grid_lat self = None \<and> priv_grid_lon self = None \<and>
     priv_grid_nodes_lon self = None \<and> priv_grid_nodes_lat self = None \<and>
     priv_grid2mesh_graph_structure self = None \<and>
     priv_mesh_graph_structure self = None \<and>
     priv_mesh2grid_graph_structure self = None"
proof -
  from hierarchy_chain[of "mesh_size cfg"] obtain ms where
    h: "get_hierarchy_of_triangular_meshes_for_sphere (mesh_size cfg) = Inr ms" by blast
  show ?thesis
    using assms by (simp add: GraphGridMesh_init_def h bind_err_Inr new_GraphGridMesh_def)
qed

text \<open>
  Claim C10. \<open>GraphGridMesh.__init__\<close> takes the construction branch exactly when at
  least one of its sixteen optional arguments is \<open>None\<close>. In that branch the arguments
  are ignored altogether, every object it returns carries the results of the radius query,
  of the mesh-graph build, of the point-location query and of the three feature encodings,
  and it does return for a positive resolution when the closest-triangle search keeps its
  contract and the radius query finds an edge. When all sixteen arguments are given, it
  always returns, with the mesh hierarchy of the configuration, the sixteen arguments stored
  in their fields, and every attribute that only the construction assigns still unset; the
  closest-triangle search and the resolution play no part in this result.
\<close>
theorem graph_grid_mesh_init_dispatch:
  "(should_init args \<longleftrightarrow>
     arg_mesh2mesh_src_index args = None \<or> arg_mesh2mesh_dst_index args = None \<or>
     arg_grid2mesh_src_index args = None \<or> arg_grid2mesh_dst_index args = None \<or>
     arg_mesh2grid_src_index args = None \<or> arg_mesh2grid_dst_index args = None \<or>
     arg_mesh_num_nodes args = None \<or> arg_grid_num_nodes args = None \<or>
     arg_mesh_num_edges args = None \<or> arg_grid2mesh_num_edges args = None \<or>
     arg_mesh2grid_num_edges args = None \<or> arg_grid_node_feat args = None \<or>
     arg_mesh_node_feat args = None \<or> arg_mesh_edge_feat args = None \<or>
     arg_grid2mesh_edge_feat args = None \<or> arg_mesh2grid_edge_feat args = None) \<and>
   (should_init args \<longrightarrow>
      GraphGridMesh_init closest_point cfg args = GraphGridMesh_init closest_point cfg none_args \<and>
      (\<forall>self. GraphGridMesh_init closest_point cfg args = Inr self \<longrightarrow>
         pipeline_result closest_point cfg self) \<and>
      (0 < resolution cfg \<and> closest_point_contract closest_point \<and> grid_reaches_mesh cfg \<longrightarrow>
         (\<exists>self. GraphGridMesh_init closest_point cfg args = Inr self))) \<and>
   (\<not> should_init args \<longrightarrow>
      (\<exists>ms self.
         get_hierarchy_of_triangular_meshes_for_sphere (mesh_size cfg) = Inr ms \<and>
         GraphGridMesh_init closest_point cfg args = Inr self \<and> meshes self = ms \<and>
         mesh2mesh_src_index self = arg_mesh2mesh_src_index args \<and>
         mesh2mesh_dst_index self = arg_mesh2mesh_dst_index args \<and>
         grid2mesh_src_index self = arg_grid2mesh_src_index args \<and>
         grid2mesh_dst_index self = arg_grid2mesh_dst_index args \<and>
         mesh2grid_src_index self = arg_mesh2grid_src_index args \<and>
         mesh2grid_dst_index self = arg_mesh2grid_dst_index args \<and>
         mesh_num_nodes self = arg_mesh_num_nodes args \<and>
         grid_num_nodes self = arg_grid_num_nodes args \<and>
         mesh_num_edges self = arg_mesh_num_edges args \<and>
         grid2mesh_num_edges self = arg_grid2mesh_num_edges args \<and>
         mesh2grid_num_edges self = arg_mesh2grid_num_edges args \<and>
         grid_node_feat self = arg_grid_node_feat args \<and>
         mesh_node_feat self = arg_mesh_node_feat args \<and>
         mesh_edge_feat self = arg_mesh_edge_feat args \<and>
         grid2mesh_edge_feat self = arg_grid2mesh_edge_feat args \<and>
         mesh2grid_edge_feat self = arg_mesh2grid_edge_feat args \<and>
         query_radius self = None \<and>
         priv_mesh2grid_edge_normalization_factor self = None \<and>
         priv_spatial_features_kwargs self = None \<and>
         priv_mesh_nodes_lat self = None \<and> priv_mesh_nodes_lon self = None \<and>
         priv_grid_lat self = None \<and> priv_grid_lon self = None \<and>
         priv_grid_nodes_lon self = None \<and> priv_grid_nodes_lat self = None \<and>
         priv_grid2mesh_graph_structure self = None \<and>
         priv_mesh_graph_structure self = None \<and>
         priv_mesh2grid_graph_structure self = None))"
proof (intro conjI impI allI)
  show "should_init args \<longleftrightarrow>
     arg_mesh2mesh_src_index args = None \<or> arg_mesh2mesh_dst_index args = None \<or>
     arg_grid2mesh_src_index args = None \<or> arg_grid2mesh_dst_index args = None \<or>
     arg_mesh2grid_src_index args = None \<or> arg_mesh2grid_dst_index args = None \<or>
     arg_mesh_num_nodes args = None \<or> arg_grid_num_nodes args = None \<or>
     arg_mesh_num_edges args = None \<or> arg_grid2mesh_num_edges args = None \<or>
     arg_mesh2grid_num_edges args = None \<or> arg_grid_node_feat args = None \<or>
     arg_mesh_node_feat args = None \<or> arg_mesh_edge_feat args = None \<or>
     arg_grid2mesh_edge_feat args = None \<or> arg_mesh2grid_edge_feat args = None"
    by (rule should_init_iff)
next
  assume "should_init args"
  then show "GraphGridMesh_init closest_point cfg args = GraphGridMesh_init closest_point cfg none_args"
    by (rule init_args_ignored)
next
  fix self
  assume "should_init args" "GraphGridMesh_init closest_point cfg args = Inr self"
  then show "pipeline_result closest_point cfg self" by (rule init_pipeline_result)
next
  assume s: "should_init args"
    and "0 < resolution cfg \<and> closest_point_contract closest_point \<and> grid_reaches_mesh cfg"
  then show "\<exists>self. GraphGridMesh_init closest_point cfg args = Inr self"
    using init_pipeline_returns[OF s] by blast
next
  assume "\<not> should_init args"
  then show "\<exists>ms self.
         get_hierarchy_of_triangular_meshes_for_sphere (mesh_size cfg) = Inr ms \<and>
         GraphGridMesh_init closest_point cfg args = Inr self \<and> meshes self = ms \<and>
         mesh2mesh_src_index self = arg_mesh2mesh_src_index args \<and>
         mesh2mesh_dst_index self = arg_mesh2mesh_dst_index args \<and>
         grid2mesh_src_index self = arg_grid2mesh_src_index args \<and>
         grid2mesh_dst_index self = arg_grid2mesh_dst_index args \<and>
         mesh2grid_src_index self = arg_mesh2grid_src_index args \<and>
         mesh2grid_dst_index self = arg_mesh2grid_dst_index args \<and>
         mesh_num_nodes self = arg_mesh_num_nodes args \<and>
         grid_num_nodes self = arg_grid_num_nodes args \<and>
         mesh_num_edges self = arg_mesh_num_edges args \<and>
         grid2mesh_num_edges self = arg_grid2mesh_num_edges args \<and>
         mesh2grid_num_edges self = arg_mesh2grid_num_edges args \<and>
         grid_node_feat self = arg_grid_node_feat args \<and>
         mesh_node_feat self = arg_mesh_node_feat args \<and>
         mesh_edge_feat self = arg_mesh_edge_feat args \<and>
         grid2mesh_edge_feat self = arg_grid2mesh_edge_feat args \<and>
         mesh2grid_edge_feat self = arg_mesh2grid_edge_feat args \<and>
         query_radius self = None \<and>
         priv_mesh2grid_edge_normalization_factor self = None \<and>
         priv_spatial_features_kwargs self = None \<and>
         priv_mesh_nodes_lat self = None \<and> priv_mesh_nodes_lon self = None \<and>
         priv_grid_lat self = None \<and> priv_grid_lon self = None \<and>
         priv_grid_nodes_lon self = None \<and> priv_grid_nodes_lat self = None \<and>
         priv_grid2mesh_graph_structure self = None \<and>
         priv_mesh_graph_structure self = None \<and>
         priv_mesh2grid_graph_structure self = None"
    by (rule init_stored)
qed

text \<open>
  The statement of C10 at depth 0 with resolution 90 and radius fraction 10, for a
  closest-triangle search that always answers face 0: with all sixteen arguments given
  they are stored and no query radius is set; with none given the pipeline runs through.
\<close>
theorem graph_grid_mesh_init_dispatch_witness:
  "(\<exists>self. GraphGridMesh_init (\<lambda>mesh points. map (\<lambda>p. 0) points)
             \<lparr>mesh_size = 0, radius_query_fraction_edge_length = 10,
              mesh2grid_edge_normalization_factor = None, resolution = 90\<rparr>
             \<lparr>arg_mesh2mesh_src_index = Some [0], arg_mesh2mesh_dst_index = Some [1],
              arg_grid2mesh_src_index = Some [0], arg_grid2mesh_dst_index = Some [1],
              arg_mesh2grid_src_index = Some [1], arg_mesh2grid_dst_index = Some [0],
              arg_mesh_num_nodes = Some 12, arg_grid_num_nodes = Some 12,
              arg_mesh_num_edges = Some 1, arg_grid2mesh_num_edges = Some 1,
              arg_mesh2grid_num_edges = Some 1, arg_grid_node_feat = Some [],
              arg_mesh_node_feat = Some [], arg_mesh_edge_feat = Some [],
              arg_grid2mesh_edge_feat = Some [], arg_mesh2grid_edge_feat = Some []\<rparr> = Inr self \<and>
           meshes self = [get_icosahedron] \<and>
           mesh2mesh_src_index self = Some [0] \<and> mesh2grid_dst_index self = Some [0] \<and>
           mesh_num_nodes self = Some 12 \<and> grid_node_feat self = Some [] \<and>
           query_radius self = None \<and> priv_grid_lat self = None) \<and>
   (\<exists>self. GraphGridMesh_init (\<lambda>mesh points. map (\<lambda>p. 0) points)
             \<lparr>mesh_size = 0, radius_query_fraction_edge_length = 10,
              mesh2grid_edge_normalization_factor = None, resolution = 90\<rparr> none_args = Inr self \<and>
           pipeline_result (\<lambda>mesh points. map (\<lambda>p. 0) points)
             \<lparr>mesh_size = 0, radius_query_fraction_edge_length = 10,
              mesh2grid_edge_normalization_factor = None, resolution = 90\<rparr> self)"
proof -
  let ?cp = "\<lambda>(mesh :: TriangularMesh) (points :: vec list). map (\<lambda>p. 0 :: int) points"
  let ?cfg = "\<lparr>mesh_size = 0, radius_query_fraction_edge_length = 10,
              mesh2grid_edge_normalization_factor = None, resolution = 90\<rparr>"
  let ?args = "\<lparr>arg_mesh2mesh_src_index = Some [0], arg_mesh2mesh_dst_index = Some [1],
              arg_grid2mesh_src_index = Some [0], arg_grid2mesh_dst_index = Some [1],
              arg_mesh2grid_src_index = Some [1], arg_mesh2grid_dst_index = Some [0],
              arg_mesh_num_nodes = Some 12, arg_grid_num_nodes = Some 12,
              arg_mesh_num_edges = Some 1, arg_grid2mesh_num_edges = Some 1,
              arg_mesh2grid_num_edges = Some 1, arg_grid_node_feat = Some [],
              arg_mesh_node_feat = Some [], arg_mesh_edge_feat = Some [],
              arg_grid2mesh_edge_feat = Some [], arg_mesh2grid_edge_feat = Some []\<rparr>"
  have n: "\<not> should_init ?args" by (simp add: should_init_def)
  have hz: "get_hierarchy_of_triangular_meshes_for_sphere (mesh_size ?cfg) = Inr [get_icosahedron]"
    by (simp add: hierarchy_zero)
  from graph_grid_mesh_init_dispatch[of ?args ?cp ?cfg, THEN conjunct2, THEN conjunct2, rule_format, OF n]
  obtain ms self where
    a: "get_hierarchy_of_triangular_meshes_for_sphere (mesh_size ?cfg) = Inr ms"
       "GraphGridMesh_init ?cp ?cfg ?args = Inr self" "meshes self = ms"
       "mesh2mesh_src_index self = arg_mesh2mesh_src_index ?args"
       "mesh2grid_dst_index self = arg_mesh2grid_dst_index ?args"
       "mesh_num_nodes self = arg_mesh_num_nodes ?args"
       "grid_node_feat self = arg_grid_node_feat ?args"
       "query_radius self = None" "priv_grid_lat self = None"
    by blast
  have ms: "ms = [get_icosahedron]" using a(1) hz by simp
  have first: "\<exists>self. GraphGridMesh_init ?cp ?cfg ?args = Inr self \<and>
           meshes self = [get_icosahedron] \<and>
           mesh2mesh_src_index self = Some [0] \<and> mesh2grid_dst_index self = Some [0] \<and>
           mesh_num_nodes self = Some 12 \<and> grid_node_feat self = Some [] \<and>
           query_radius self = None \<and> priv_grid_lat self = None"
    using a(2-) ms by (intro exI[of _ self]) simp
  have s: "should_init none_args" by (rule should_init_none_args)
  have r: "0 < resolution ?cfg" by simp
  have cpc: "closest_point_contract ?cp" by (simp add: closest_point_contract_def)
  from icosahedron_max_edge_distance obtain d where
    d: "get_max_edge_distance get_icosahedron = Inr d" "3 / 10 \<le> d" by blast
  have d': "get_max_edge_distance (last [get_icosahedron]) = Inr d" using d(1) by simp
  have two: "2 \<le> d * radius_query_fraction_edge_length ?cfg" using d(2) by simp
  have reach: "grid_reaches_mesh ?cfg"
    by (rule grid_reaches_mesh_radius_2[OF r hz d' two])
  note t = graph_grid_mesh_init_dispatch[of none_args ?cp ?cfg, THEN conjunct2, THEN conjunct1,
      rule_format, OF s]
  from t[THEN conjunct2, THEN conjunct2, rule_format] r cpc reach obtain self' where
    b: "GraphGridMesh_init ?cp ?cfg none_args = Inr self'" by blast
  from t[THEN conjunct2, THEN conjunct1, rule_format, OF b]
  have "pipeline_result ?cp ?cfg self'" .
  with b have second: "\<exists>self. GraphGridMesh_init ?cp ?cfg none_args = Inr self \<and>
           pipeline_result ?cp ?cfg self" by blast
  from first second show ?thesis by (rule conjI)
qed

end
